theory Spec2Isabelle
  imports Main
begin

unbundle bit_operations_syntax

section \<open>The remote protocol as \<^verbatim>\<open>qemud/remote.c\<close> sees it\<close>

text \<open>
  The development embeds the server-side dispatcher of \<^verbatim>\<open>qemud/remote.c\<close>:
  \<^verbatim>\<open>remoteDispatchClientRequest\<close>, the error senders and every
  \<^verbatim>\<open>remoteDispatch*\<close> handler (the \<^verbatim>\<open>HAVE_SASL\<close> variants of the SASL handlers).

  Integers of the wire and of the library are HOL integers; the one place where the
  code multiplies two of them (\<^verbatim>\<open>maxinfo * maplen\<close>) has the 32-bit wrap-around written
  out. Byte strings and C strings are \<open>string\<close>; a pointer that may be \<^verbatim>\<open>NULL\<close> is an
  \<open>option\<close>. Logging (\<^verbatim>\<open>qemudLog\<close>, \<^verbatim>\<open>REMOTE_DEBUG\<close>) and the freeing of
  argument and result memory (\<^verbatim>\<open>free\<close>, \<^verbatim>\<open>xdr_free\<close>) are left out.
\<close>

type_synonym bytes = string

text \<open>
  The procedure numbers of \<^verbatim>\<open>remote_protocol.h\<close>. The header is not part of the
  sources, so the numeric values are not known here: each \<^verbatim>\<open>REMOTE_PROC_*\<close> constant
  is a constructor of its own, and a number that is none of them is
  \<open>REMOTE_PROC_UNKNOWN\<close>.
\<close>

datatype (plugins only: code) remote_procedure =
    REMOTE_PROC_OPEN
  | REMOTE_PROC_CLOSE
  | REMOTE_PROC_SUPPORTS_FEATURE
  | REMOTE_PROC_GET_TYPE
  | REMOTE_PROC_GET_VERSION
  | REMOTE_PROC_GET_HOSTNAME
  | REMOTE_PROC_GET_MAX_VCPUS
  | REMOTE_PROC_NODE_GET_INFO
  | REMOTE_PROC_GET_CAPABILITIES
  | REMOTE_PROC_DOMAIN_GET_SCHEDULER_TYPE
  | REMOTE_PROC_DOMAIN_GET_SCHEDULER_PARAMETERS
  | REMOTE_PROC_DOMAIN_SET_SCHEDULER_PARAMETERS
  | REMOTE_PROC_DOMAIN_BLOCK_STATS
  | REMOTE_PROC_DOMAIN_INTERFACE_STATS
  | REMOTE_PROC_DOMAIN_ATTACH_DEVICE
  | REMOTE_PROC_DOMAIN_CREATE
  | REMOTE_PROC_DOMAIN_CREATE_LINUX
  | REMOTE_PROC_DOMAIN_DEFINE_XML
  | REMOTE_PROC_DOMAIN_DESTROY
  | REMOTE_PROC_DOMAIN_DETACH_DEVICE
  | REMOTE_PROC_DOMAIN_DUMP_XML
  | REMOTE_PROC_DOMAIN_GET_AUTOSTART
  | REMOTE_PROC_DOMAIN_GET_INFO
  | REMOTE_PROC_DOMAIN_GET_MAX_MEMORY
  | REMOTE_PROC_DOMAIN_GET_MAX_VCPUS
  | REMOTE_PROC_DOMAIN_GET_OS_TYPE
  | REMOTE_PROC_DOMAIN_GET_VCPUS
  | REMOTE_PROC_DOMAIN_MIGRATE_PREPARE
  | REMOTE_PROC_DOMAIN_MIGRATE_PERFORM
  | REMOTE_PROC_DOMAIN_MIGRATE_FINISH
  | REMOTE_PROC_LIST_DEFINED_DOMAINS
  | REMOTE_PROC_DOMAIN_LOOKUP_BY_ID
  | REMOTE_PROC_DOMAIN_LOOKUP_BY_NAME
  | REMOTE_PROC_DOMAIN_LOOKUP_BY_UUID
  | REMOTE_PROC_NUM_OF_DEFINED_DOMAINS
  | REMOTE_PROC_DOMAIN_PIN_VCPU
  | REMOTE_PROC_DOMAIN_REBOOT
  | REMOTE_PROC_DOMAIN_RESTORE
  | REMOTE_PROC_DOMAIN_RESUME
  | REMOTE_PROC_DOMAIN_SAVE
  | REMOTE_PROC_DOMAIN_CORE_DUMP
  | REMOTE_PROC_DOMAIN_SET_AUTOSTART
  | REMOTE_PROC_DOMAIN_SET_MAX_MEMORY
  | REMOTE_PROC_DOMAIN_SET_MEMORY
  | REMOTE_PROC_DOMAIN_SET_VCPUS
  | REMOTE_PROC_DOMAIN_SHUTDOWN
  | REMOTE_PROC_DOMAIN_SUSPEND
  | REMOTE_PROC_DOMAIN_UNDEFINE
  | REMOTE_PROC_LIST_DEFINED_NETWORKS
  | REMOTE_PROC_LIST_DOMAINS
  | REMOTE_PROC_LIST_NETWORKS
  | REMOTE_PROC_NETWORK_CREATE
  | REMOTE_PROC_NETWORK_CREATE_XML
  | REMOTE_PROC_NETWORK_DEFINE_XML
  | REMOTE_PROC_NETWORK_DESTROY
  | REMOTE_PROC_NETWORK_DUMP_XML
  | REMOTE_PROC_NETWORK_GET_AUTOSTART
  | REMOTE_PROC_NETWORK_GET_BRIDGE_NAME
  | REMOTE_PROC_NETWORK_LOOKUP_BY_NAME
  | REMOTE_PROC_NETWORK_LOOKUP_BY_UUID
  | REMOTE_PROC_NETWORK_SET_AUTOSTART
  | REMOTE_PROC_NETWORK_UNDEFINE
  | REMOTE_PROC_NUM_OF_DEFINED_NETWORKS
  | REMOTE_PROC_NUM_OF_DOMAINS
  | REMOTE_PROC_NUM_OF_NETWORKS
  | REMOTE_PROC_AUTH_LIST
  | REMOTE_PROC_AUTH_SASL_INIT
  | REMOTE_PROC_AUTH_SASL_START
  | REMOTE_PROC_AUTH_SASL_STEP
  | REMOTE_PROC_UNKNOWN int

text \<open>
  The enumerations of the envelope. \<^verbatim>\<open>xdr_enum\<close> decodes any integer, so each has a
  constructor for the values that are none of the named ones.
\<close>

datatype remote_message_direction = REMOTE_CALL | REMOTE_REPLY | REMOTE_DIRECTION_OTHER int

datatype remote_message_status = REMOTE_OK | REMOTE_ERROR | REMOTE_STATUS_OTHER int

record remote_message_header =
  prog :: int
  vers :: int
  "proc" :: remote_procedure
  direction :: remote_message_direction
  serial :: int
  status :: remote_message_status

text \<open>
  \<^verbatim>\<open>REMOTE_AUTH_NONE\<close> is the zero of the enumeration: the code tests it with
  \<^verbatim>\<open>if (client->auth)\<close>.
\<close>

datatype remote_auth_type = REMOTE_AUTH_NONE | REMOTE_AUTH_SASL | REMOTE_AUTH_OTHER int

record remote_nonnull_domain =
  rd_name :: string
  rd_uuid :: bytes
  rd_id :: int

record remote_nonnull_network =
  rn_name :: string
  rn_uuid :: bytes

text \<open>The error numbers, domains and levels of \<^verbatim>\<open>virterror.h\<close> that the file names.\<close>

datatype virErrorNumber = VIR_ERR_RPC | VIR_ERR_AUTH_FAILED | VIR_ERR_NO_MEMORY | VIR_ERR_NUMBER int

datatype virErrorDomain = VIR_FROM_REMOTE | VIR_FROM_DOMAIN int

datatype virErrorLevel = VIR_ERR_ERROR | VIR_ERR_LEVEL int

record remote_error =
  err_code :: virErrorNumber
  err_domain :: virErrorDomain
  err_message :: "string option"
  err_level :: virErrorLevel
  err_dom :: "remote_nonnull_domain option"
  err_str1 :: "string option"
  err_str2 :: "string option"
  err_str3 :: "string option"
  err_int1 :: int
  err_int2 :: int
  err_net :: "remote_nonnull_network option"

subsection \<open>Scheduler parameters\<close>

datatype virSchedParameterType =
    VIR_DOMAIN_SCHED_FIELD_INT
  | VIR_DOMAIN_SCHED_FIELD_UINT
  | VIR_DOMAIN_SCHED_FIELD_LLONG
  | VIR_DOMAIN_SCHED_FIELD_ULLONG
  | VIR_DOMAIN_SCHED_FIELD_DOUBLE
  | VIR_DOMAIN_SCHED_FIELD_BOOLEAN
  | VIR_DOMAIN_SCHED_FIELD_UNKNOWN int

text \<open>
  The value of a scheduler parameter is a C union of six members. It is modelled by its
  six members side by side; \<open>None\<close> is a member that nothing has written. A \<^verbatim>\<open>double\<close>
  is only ever copied, so it is kept as the integer of its bit pattern.
\<close>

record sched_value =
  v_i :: "int option"
  v_ui :: "int option"
  v_l :: "int option"
  v_ul :: "int option"
  v_d :: "int option"
  v_b :: "int option"

definition no_value :: sched_value where
  "no_value = \<lparr>v_i = None, v_ui = None, v_l = None, v_ul = None, v_d = None, v_b = None\<rparr>"

text \<open>\<^verbatim>\<open>virSchedParameter\<close>: \<^verbatim>\<open>field\<close>, \<^verbatim>\<open>type\<close> and \<^verbatim>\<open>value\<close>.\<close>

record virSchedParameter =
  sp_field :: string
  sp_type :: virSchedParameterType
  sp_value :: sched_value

text \<open>\<^verbatim>\<open>remote_sched_param\<close>: \<^verbatim>\<open>field\<close>, \<^verbatim>\<open>value.type\<close> and the union \<^verbatim>\<open>value.remote_sched_param_value_u\<close>.\<close>

record remote_sched_param =
  rsp_field :: string
  rsp_type :: virSchedParameterType
  rsp_value_u :: sched_value

subsection \<open>Argument and result structures\<close>

text \<open>
  The structures of \<^verbatim>\<open>remote_protocol.h\<close> are not part of the sources. An argument
  or result structure is the list of its fields in the order the handlers read or
  write them; a variable-length array of a result is two fields, its \<^verbatim>\<open>_len\<close> and
  its \<^verbatim>\<open>_val\<close>.
\<close>

datatype xdr_item =
    X_int int
  | X_string string
  | X_opt_string "string option"
  | X_opaque bytes
  | X_opt_opaque "bytes option"
  | X_domain remote_nonnull_domain
  | X_network remote_nonnull_network
  | X_params "remote_sched_param list"
  | X_strings "string list"
  | X_ints "int list"
  | X_vcpu_info "(int \<times> int \<times> int \<times> int) list"
  | X_auth_types "remote_auth_type list"

type_synonym remote_ret = "xdr_item list"

datatype reply_body = REPLY_RET remote_ret | REPLY_ERROR remote_error

subsection \<open>The hypervisor library\<close>

type_synonym virConnectPtr = nat

record virDomain =
  vd_name :: string
  vd_uuid :: bytes
  vd_id :: int

record virNetwork =
  vn_name :: string
  vn_uuid :: bytes

record virError =
  verr_code :: virErrorNumber
  verr_domain :: virErrorDomain
  verr_message :: "string option"
  verr_level :: virErrorLevel
  verr_dom :: "virDomain option"
  verr_str1 :: "string option"
  verr_str2 :: "string option"
  verr_str3 :: "string option"
  verr_int1 :: int
  verr_int2 :: int
  verr_net :: "virNetwork option"

text \<open>
  A call of the library is the name of the C function and the arguments the handler
  passes (output parameters and buffers are not arguments here; what the library
  writes to them is part of its answer).
\<close>

datatype lib_arg =
    A_conn virConnectPtr
  | A_dom virDomain
  | A_net virNetwork
  | A_int int
  | A_str string
  | A_opt_str "string option"
  | A_bytes bytes
  | A_params "virSchedParameter list"

datatype lib_call = LibCall string "lib_arg list"

type_synonym virNodeInfo = "string \<times> int \<times> int \<times> int \<times> int \<times> int \<times> int \<times> int"
type_synonym virDomainInfo = "int \<times> int \<times> int \<times> int \<times> int"
type_synonym virDomainBlockStats = "int \<times> int \<times> int \<times> int \<times> int"
type_synonym virDomainInterfaceStats = "int \<times> int \<times> int \<times> int \<times> int \<times> int \<times> int \<times> int"
type_synonym virVcpuInfo = "int \<times> int \<times> int \<times> int"

text \<open>
  The library is a collaborator outside the file: for each call it gives the value the
  call returns (by the type of the result) and what it writes through its output
  parameters. Every theorem below holds for every such library.
\<close>

record hypervisor =
  lib_int :: "lib_call \<Rightarrow> int"
  lib_str :: "lib_call \<Rightarrow> string option"
  lib_conn :: "lib_call \<Rightarrow> virConnectPtr option"
  lib_dom :: "lib_call \<Rightarrow> virDomain option"
  lib_net :: "lib_call \<Rightarrow> virNetwork option"
  lib_err :: "lib_call \<Rightarrow> virError option"
  out_int :: "lib_call \<Rightarrow> int"
  out_node_info :: "lib_call \<Rightarrow> virNodeInfo"
  out_domain_info :: "lib_call \<Rightarrow> virDomainInfo"
  out_block_stats :: "lib_call \<Rightarrow> virDomainBlockStats"
  out_interface_stats :: "lib_call \<Rightarrow> virDomainInterfaceStats"
  out_vcpu_info :: "lib_call \<Rightarrow> virVcpuInfo list"
  out_params :: "lib_call \<Rightarrow> virSchedParameter list"
  out_bytes :: "lib_call \<Rightarrow> bytes"
  out_opt_bytes :: "lib_call \<Rightarrow> bytes option"
  out_names :: "lib_call \<Rightarrow> string list"
  out_ids :: "lib_call \<Rightarrow> int list"
  out_uri :: "lib_call \<Rightarrow> string option"

subsection \<open>The SASL library, the C library and the XDR encoder\<close>

type_synonym sasl_conn = nat

datatype sasl_result = SASL_OK | SASL_CONTINUE | SASL_FAIL int

datatype sasl_call =
    sasl_server_new string string
  | sasl_listmech "sasl_conn option"
  | sasl_server_start "sasl_conn option" string "bytes option" nat
  | sasl_server_step "sasl_conn option" "bytes option" nat
  | sasl_dispose "sasl_conn option"

record sasl_library =
  sasl_err :: "sasl_call \<Rightarrow> sasl_result"
  sasl_new_conn :: "sasl_call \<Rightarrow> sasl_conn option"
  sasl_mechlist :: "sasl_call \<Rightarrow> string"
  sasl_serverout :: "sasl_call \<Rightarrow> bytes option"
  sasl_serveroutlen :: "sasl_call \<Rightarrow> nat"

text \<open>
  An allocation: \<^verbatim>\<open>malloc\<close> or \<^verbatim>\<open>calloc\<close> of a number of elements of a C type (the
  number as the code computes it), or a \<^verbatim>\<open>strdup\<close>.
\<close>

datatype alloc = Malloc string int | Strdup string

type_synonym sockaddr = string

record c_library =
  alloc_ok :: "alloc \<Rightarrow> bool"
  getsockname :: "int \<Rightarrow> sockaddr option"
  getpeername :: "int \<Rightarrow> sockaddr option"
  getnameinfo :: "sockaddr \<Rightarrow> (string \<times> string) option"

text \<open>
  The XDR filters (\<^verbatim>\<open>xdr_int\<close>, \<^verbatim>\<open>xdr_remote_message_header\<close>, \<^verbatim>\<open>xdr_remote_error\<close>, the
  result filters) and the stream operations are outside the file. On the encoding side
  each is the answer it gives for the value it is asked to write into the session
  buffer.
\<close>

record xdr_encoder =
  xdr_int :: "int \<Rightarrow> bool"
  xdr_remote_message_header :: "remote_message_header \<Rightarrow> bool"
  xdr_remote_error :: "remote_error \<Rightarrow> bool"
  ret_filter :: "remote_ret \<Rightarrow> bool"
  xdr_getpos :: "remote_message_header \<Rightarrow> reply_body \<Rightarrow> int"
  xdr_setpos :: bool

text \<open>
  The constants of \<^verbatim>\<open>remote_protocol.h\<close> and \<^verbatim>\<open>libvirt.h\<close> that the file uses. Their
  values are not part of the sources, so they are parameters.
\<close>

record remote_protocol =
  REMOTE_PROGRAM :: int
  REMOTE_PROTOCOL_VERSION :: int
  REMOTE_DOMAIN_ID_LIST_MAX :: int
  REMOTE_DOMAIN_NAME_LIST_MAX :: int
  REMOTE_NETWORK_NAME_LIST_MAX :: int
  REMOTE_VCPUINFO_MAX :: int
  REMOTE_CPUMAPS_MAX :: int
  REMOTE_CPUMAP_MAX :: int
  REMOTE_DOMAIN_SCHEDULER_PARAMETERS_MAX :: int
  REMOTE_AUTH_SASL_DATA_MAX :: int
  VIR_CONNECT_RO :: int
  VIR_DOMAIN_SCHED_FIELD_LENGTH :: nat

record env =
  protocol :: remote_protocol
  hyp :: hypervisor
  sasl :: sasl_library
  libc :: c_library
  xdr :: xdr_encoder

section \<open>The session\<close>

text \<open>
  What a run of the dispatcher does to the outside: the library operations it invokes,
  the allocations it makes, the decoding of the arguments, and the code a handler
  returned. The events are kept in a ghost field of the session, in order.
\<close>

datatype event =
    HYP lib_call
  | SASL sasl_call
  | ALLOC alloc
  | XDR_ARGS remote_procedure
  | FN remote_procedure int

datatype qemud_mode = QEMUD_MODE_RX | QEMUD_MODE_TX_PACKET

datatype qemud_tls_direction = QEMUD_TLS_DIRECTION_READ | QEMUD_TLS_DIRECTION_WRITE

text \<open>
  The session buffer holds either the incoming call, a framed reply, or the remains of
  an encoding that failed half-way. The incoming call is what the decoders read from
  it: the envelope (\<open>None\<close> when \<^verbatim>\<open>xdr_remote_message_header\<close> fails) and the list of
  the fields of the argument structure that follows (\<open>None\<close> when the bytes are no such
  list). A framed reply is its length word, its envelope and its body.
\<close>

datatype qemud_buffer =
    BUF_CALL "remote_message_header option" "xdr_item list option"
  | BUF_REPLY int remote_message_header reply_body
  | BUF_PARTIAL

text \<open>
  \<^verbatim>\<open>struct qemud_client\<close> (declared in \<^verbatim>\<open>internal.h\<close>, which is not part of the sources):
  the fields the file reads or writes. The field \<^verbatim>\<open>direction\<close> is \<open>tls_direction\<close> here,
  and \<open>history\<close> is the ghost field of the events.
\<close>

record qemud_client =
  conn :: "virConnectPtr option"
  auth :: remote_auth_type
  saslconn :: "sasl_conn option"
  readonly :: bool
  tls :: bool
  fd :: int
  mode :: qemud_mode
  tls_direction :: qemud_tls_direction
  buffer :: qemud_buffer
  bufferLength :: int
  bufferOffset :: int
  history :: "event list"

definition observe :: "qemud_client \<Rightarrow> event \<Rightarrow> qemud_client" where
  "observe client ev = client\<lparr>history := history client @ [ev]\<rparr>"

section \<open>Error replies\<close>

text \<open>The buffer after an encoder has failed: untouched when nothing was written yet.\<close>

definition tx_packet :: "qemud_client \<Rightarrow> int \<Rightarrow> remote_message_header \<Rightarrow> reply_body \<Rightarrow> qemud_client" where
  "tx_packet client len rep body =
     client\<lparr>buffer := BUF_REPLY len rep body,
            mode := QEMUD_MODE_TX_PACKET,
            bufferLength := len,
            bufferOffset := 0,
            tls_direction := (if tls client then QEMUD_TLS_DIRECTION_WRITE else tls_direction client)\<rparr>"

definition dispatch_error :: "virErrorNumber \<Rightarrow> string \<Rightarrow> remote_error" where
  "dispatch_error code msg =
     \<lparr>err_code = code, err_domain = VIR_FROM_REMOTE, err_message = Some msg,
      err_level = VIR_ERR_ERROR, err_dom = None, err_str1 = Some msg, err_str2 = None,
      err_str3 = None, err_int1 = 0, err_int2 = 0, err_net = None\<rparr>"

definition error_header :: "env \<Rightarrow> remote_message_header option \<Rightarrow> remote_message_header" where
  "error_header E req =
     (case req of
        Some r \<Rightarrow>
          \<lparr>prog = prog r, vers = vers r, proc = proc r, direction = REMOTE_REPLY,
           serial = serial r, status = REMOTE_ERROR\<rparr>
      | None \<Rightarrow>
          \<lparr>prog = REMOTE_PROGRAM (protocol E), vers = REMOTE_PROTOCOL_VERSION (protocol E),
           proc = REMOTE_PROC_OPEN, direction = REMOTE_REPLY,
           serial = 1, status = REMOTE_ERROR\<rparr>)"

text \<open>
  \<^verbatim>\<open>remoteDispatchSendError\<close>. \<open>error_header\<close> is its first \<^verbatim>\<open>if (req)\<close>, \<open>dispatch_error\<close>
  the error it constructs. Each encoder that fails returns without sending.
\<close>

definition remoteDispatchSendError ::
  "env \<Rightarrow> qemud_client \<Rightarrow> remote_message_header option \<Rightarrow> virErrorNumber \<Rightarrow> string \<Rightarrow> qemud_client" where
  "remoteDispatchSendError E client req code msg =
     (let rep = error_header E req;
          error = dispatch_error code msg
      in if \<not> xdr_int (xdr E) 0 then client
         else if \<not> xdr_remote_message_header (xdr E) rep then client\<lparr>buffer := BUF_PARTIAL\<rparr>
         else if \<not> xdr_remote_error (xdr E) error then client\<lparr>buffer := BUF_PARTIAL\<rparr>
         else let len = xdr_getpos (xdr E) rep (REPLY_ERROR error)
              in if \<not> xdr_setpos (xdr E) then client\<lparr>buffer := BUF_PARTIAL\<rparr>
                 else if \<not> xdr_int (xdr E) len then client\<lparr>buffer := BUF_PARTIAL\<rparr>
                 else tx_packet client len rep (REPLY_ERROR error))"

definition remoteDispatchFailAuth ::
  "env \<Rightarrow> qemud_client \<Rightarrow> remote_message_header option \<Rightarrow> qemud_client" where
  "remoteDispatchFailAuth E client req =
     remoteDispatchSendError E client req VIR_ERR_AUTH_FAILED ''authentication failed''"

text \<open>
  \<^verbatim>\<open>remoteDispatchError\<close>. The message is the format string: what \<^verbatim>\<open>vsnprintf\<close> puts in
  the place of a conversion is not modelled.
\<close>

definition remoteDispatchError ::
  "env \<Rightarrow> qemud_client \<Rightarrow> remote_message_header option \<Rightarrow> string \<Rightarrow> qemud_client" where
  "remoteDispatchError E client req fmt = remoteDispatchSendError E client req VIR_ERR_RPC fmt"

section \<open>Calling the collaborators\<close>

text \<open>
  A call of the library returns what the library answers and adds the call to the
  history of the session. The output parameters of a call are read from the library
  where the handler reads them.
\<close>

definition hyp_int :: "env \<Rightarrow> qemud_client \<Rightarrow> lib_call \<Rightarrow> int \<times> qemud_client" where
  "hyp_int E client call = (lib_int (hyp E) call, observe client (HYP call))"

definition hyp_str :: "env \<Rightarrow> qemud_client \<Rightarrow> lib_call \<Rightarrow> string option \<times> qemud_client" where
  "hyp_str E client call = (lib_str (hyp E) call, observe client (HYP call))"

definition hyp_conn :: "env \<Rightarrow> qemud_client \<Rightarrow> lib_call \<Rightarrow> virConnectPtr option \<times> qemud_client" where
  "hyp_conn E client call = (lib_conn (hyp E) call, observe client (HYP call))"

definition hyp_dom :: "env \<Rightarrow> qemud_client \<Rightarrow> lib_call \<Rightarrow> virDomain option \<times> qemud_client" where
  "hyp_dom E client call = (lib_dom (hyp E) call, observe client (HYP call))"

definition hyp_net :: "env \<Rightarrow> qemud_client \<Rightarrow> lib_call \<Rightarrow> virNetwork option \<times> qemud_client" where
  "hyp_net E client call = (lib_net (hyp E) call, observe client (HYP call))"

definition hyp_err :: "env \<Rightarrow> qemud_client \<Rightarrow> lib_call \<Rightarrow> virError option \<times> qemud_client" where
  "hyp_err E client call = (lib_err (hyp E) call, observe client (HYP call))"

definition virDomainFree :: "qemud_client \<Rightarrow> virDomain \<Rightarrow> qemud_client" where
  "virDomainFree client vdom = observe client (HYP (LibCall ''virDomainFree'' [A_dom vdom]))"

definition virNetworkFree :: "qemud_client \<Rightarrow> virNetwork \<Rightarrow> qemud_client" where
  "virNetworkFree client vnet = observe client (HYP (LibCall ''virNetworkFree'' [A_net vnet]))"

text \<open>
  An allocation whose result the code tests, and one whose result it does not test
  (what the code does with a \<^verbatim>\<open>NULL\<close> it never looked at is not modelled).
\<close>

definition allocate :: "env \<Rightarrow> qemud_client \<Rightarrow> alloc \<Rightarrow> bool \<times> qemud_client" where
  "allocate E client a = (alloc_ok (libc E) a, observe client (ALLOC a))"

definition allocate_unchecked :: "qemud_client \<Rightarrow> alloc \<Rightarrow> qemud_client" where
  "allocate_unchecked client a = observe client (ALLOC a)"

definition sasl_invoke :: "env \<Rightarrow> qemud_client \<Rightarrow> sasl_call \<Rightarrow> sasl_result \<times> qemud_client" where
  "sasl_invoke E client call = (sasl_err (sasl E) call, observe client (SASL call))"

text \<open>The value of a C \<^verbatim>\<open>int\<close> expression: 32 bits, two's complement.\<close>

definition to_int32 :: "int \<Rightarrow> int" where
  "to_int32 n = (n + 2 ^ 31) mod 2 ^ 32 - 2 ^ 31"

definition mul_int32 :: "int \<Rightarrow> int \<Rightarrow> int" where
  "mul_int32 a b = to_int32 (a * b)"

section \<open>Helpers\<close>

definition get_nonnull_domain ::
  "env \<Rightarrow> qemud_client \<Rightarrow> virConnectPtr \<Rightarrow> remote_nonnull_domain \<Rightarrow> virDomain option \<times> qemud_client" where
  "get_nonnull_domain E client c domain =
     (let (vdom, client) =
            hyp_dom E client (LibCall ''virGetDomain'' [A_conn c, A_str (rd_name domain), A_bytes (rd_uuid domain)])
      in (case vdom of None \<Rightarrow> (None, client)
          | Some d \<Rightarrow> (Some (d\<lparr>vd_id := rd_id domain\<rparr>), client)))"

definition get_nonnull_network ::
  "env \<Rightarrow> qemud_client \<Rightarrow> virConnectPtr \<Rightarrow> remote_nonnull_network \<Rightarrow> virNetwork option \<times> qemud_client" where
  "get_nonnull_network E client c network =
     hyp_net E client (LibCall ''virGetNetwork'' [A_conn c, A_str (rn_name network), A_bytes (rn_uuid network)])"

definition make_nonnull_domain :: "qemud_client \<Rightarrow> virDomain \<Rightarrow> remote_nonnull_domain \<times> qemud_client" where
  "make_nonnull_domain client dom_src =
     (\<lparr>rd_name = vd_name dom_src, rd_uuid = vd_uuid dom_src, rd_id = vd_id dom_src\<rparr>,
      allocate_unchecked client (Strdup (vd_name dom_src)))"

definition make_nonnull_network :: "qemud_client \<Rightarrow> virNetwork \<Rightarrow> remote_nonnull_network \<times> qemud_client" where
  "make_nonnull_network client net_src =
     (\<lparr>rn_name = vn_name net_src, rn_uuid = vn_uuid net_src\<rparr>,
      allocate_unchecked client (Strdup (vn_name net_src)))"

section \<open>The handlers\<close>

text \<open>
  A handler returns its code (0, -1 or -2), the result structure (read by the
  dispatcher only when the code is 0; \<open>[]\<close> when there is none) and the session.
\<close>

type_synonym dispatch_result = "int \<times> remote_ret \<times> qemud_client"

definition CHECK_CONN ::
  "env \<Rightarrow> qemud_client \<Rightarrow> remote_message_header \<Rightarrow> (virConnectPtr \<Rightarrow> dispatch_result) \<Rightarrow> dispatch_result" where
  "CHECK_CONN E client req body =
     (case conn client of
        None \<Rightarrow> (- 2, [], remoteDispatchError E client (Some req) ''connection not open'')
      | Some c \<Rightarrow> body c)"

text \<open>The local variable \<^verbatim>\<open>flags\<close> of \<^verbatim>\<open>remoteDispatchOpen\<close> when the connection is opened.\<close>

definition open_flags :: "env \<Rightarrow> qemud_client \<Rightarrow> int \<Rightarrow> int" where
  "open_flags E client flags =
     (if readonly client then flags OR VIR_CONNECT_RO (protocol E) else flags)"

definition remoteDispatchOpen ::
  "env \<Rightarrow> qemud_client \<Rightarrow> remote_message_header \<Rightarrow> string option \<times> int \<Rightarrow> dispatch_result" where
  "remoteDispatchOpen E client req args =
     (case args of (name, a_flags) \<Rightarrow>
        if conn client \<noteq> None
        then (- 2, [], remoteDispatchError E client (Some req) ''connection already open'')
        else
          let flags = open_flags E client a_flags;
              (c, client) =
                (if flags AND VIR_CONNECT_RO (protocol E) \<noteq> 0
                 then hyp_conn E client (LibCall ''virConnectOpenReadOnly'' [A_opt_str name])
                 else hyp_conn E client (LibCall ''virConnectOpen'' [A_opt_str name]));
              client = client\<lparr>conn := c\<rparr>
          in (if conn client \<noteq> None then 0 else - 1, [], client))"

definition remoteDispatchClose ::
  "env \<Rightarrow> qemud_client \<Rightarrow> remote_message_header \<Rightarrow> dispatch_result" where
  "remoteDispatchClose E client req =
     CHECK_CONN E client req (\<lambda>c.
       let (rv, client) = hyp_int E client (LibCall ''virConnectClose'' [A_conn c]);
           client = (if rv = 0 then client\<lparr>conn := None\<rparr> else client)
       in (rv, [], client))"

definition remoteDispatchSupportsFeature ::
  "env \<Rightarrow> qemud_client \<Rightarrow> remote_message_header \<Rightarrow> int \<Rightarrow> dispatch_result" where
  "remoteDispatchSupportsFeature E client req feature =
     CHECK_CONN E client req (\<lambda>c.
       let (supported, client) = hyp_int E client (LibCall ''__virDrvSupportsFeature'' [A_conn c, A_int feature])
       in if supported = - 1 then (- 1, [], client)
          else (0, [X_int supported], client))"

definition remoteDispatchGetType ::
  "env \<Rightarrow> qemud_client \<Rightarrow> remote_message_header \<Rightarrow> dispatch_result" where
  "remoteDispatchGetType E client req =
     CHECK_CONN E client req (\<lambda>c.
       let (ty, client) = hyp_str E client (LibCall ''virConnectGetType'' [A_conn c])
       in (case ty of
             None \<Rightarrow> (- 1, [], client)
           | Some t \<Rightarrow>
               let (ok, client) = allocate E client (Strdup t)
               in if \<not> ok then (- 2, [], remoteDispatchError E client (Some req) ''out of memory in strdup'')
                  else (0, [X_string t], client)))"

definition remoteDispatchGetVersion ::
  "env \<Rightarrow> qemud_client \<Rightarrow> remote_message_header \<Rightarrow> dispatch_result" where
  "remoteDispatchGetVersion E client req =
     CHECK_CONN E client req (\<lambda>c.
       let call = LibCall ''virConnectGetVersion'' [A_conn c];
           (r, client) = hyp_int E client call
       in if r = - 1 then (- 1, [], client)
          else (0, [X_int (out_int (hyp E) call)], client))"

definition remoteDispatchGetHostname ::
  "env \<Rightarrow> qemud_client \<Rightarrow> remote_message_header \<Rightarrow> dispatch_result" where
  "remoteDispatchGetHostname E client req =
     CHECK_CONN E client req (\<lambda>c.
       let (hostname, client) = hyp_str E client (LibCall ''virConnectGetHostname'' [A_conn c])
       in (case hostname of
             None \<Rightarrow> (- 1, [], client)
           | Some h \<Rightarrow> (0, [X_string h], client)))"

definition remoteDispatchGetMaxVcpus ::
  "env \<Rightarrow> qemud_client \<Rightarrow> remote_message_header \<Rightarrow> string option \<Rightarrow> dispatch_result" where
  "remoteDispatchGetMaxVcpus E client req a_type =
     CHECK_CONN E client req (\<lambda>c.
       let (max_vcpus, client) = hyp_int E client (LibCall ''virConnectGetMaxVcpus'' [A_conn c, A_opt_str a_type])
       in if max_vcpus = - 1 then (- 1, [], client)
          else (0, [X_int max_vcpus], client))"

definition remoteDispatchNodeGetInfo ::
  "env \<Rightarrow> qemud_client \<Rightarrow> remote_message_header \<Rightarrow> dispatch_result" where
  "remoteDispatchNodeGetInfo E client req =
     CHECK_CONN E client req (\<lambda>c.
       let call = LibCall ''virNodeGetInfo'' [A_conn c];
           (r, client) = hyp_int E client call
       in if r = - 1 then (- 1, [], client)
          else (case out_node_info (hyp E) call of
                  (model, memory, cpus, mhz, nodes, sockets, cores, threads) \<Rightarrow>
                    (0, [X_string model, X_int memory, X_int cpus, X_int mhz, X_int nodes,
                         X_int sockets, X_int cores, X_int threads], client)))"

definition remoteDispatchGetCapabilities ::
  "env \<Rightarrow> qemud_client \<Rightarrow> remote_message_header \<Rightarrow> dispatch_result" where
  "remoteDispatchGetCapabilities E client req =
     CHECK_CONN E client req (\<lambda>c.
       let (caps, client) = hyp_str E client (LibCall ''virConnectGetCapabilities'' [A_conn c])
       in (case caps of
             None \<Rightarrow> (- 1, [], client)
           | Some s \<Rightarrow> (0, [X_string s], client)))"

definition remoteDispatchDomainGetSchedulerType ::
  "env \<Rightarrow> qemud_client \<Rightarrow> remote_message_header \<Rightarrow> remote_nonnull_domain \<Rightarrow> dispatch_result" where
  "remoteDispatchDomainGetSchedulerType E client req a_dom =
     CHECK_CONN E client req (\<lambda>c.
       let (vdom, client) = get_nonnull_domain E client c a_dom
       in (case vdom of
             None \<Rightarrow> (- 2, [], remoteDispatchError E client (Some req) ''domain not found'')
           | Some vdom \<Rightarrow>
               let call = LibCall ''virDomainGetSchedulerType'' [A_dom vdom];
                   (ty, client) = hyp_str E client call
               in (case ty of
                     None \<Rightarrow> (- 1, [], virDomainFree client vdom)
                   | Some t \<Rightarrow>
                       (0, [X_string t, X_int (out_int (hyp E) call)], virDomainFree client vdom))))"

text \<open>
  The loop of \<^verbatim>\<open>remoteDispatchDomainGetSchedulerParameters\<close> that serialises the
  parameters: the \<^verbatim>\<open>switch\<close> on the type of one parameter, and the loop, which stops at
  the first failure with the message of the error it sends.
\<close>

definition serialise_param :: "virSchedParameter \<Rightarrow> remote_sched_param option" where
  "serialise_param p =
     (case sp_type p of
        VIR_DOMAIN_SCHED_FIELD_INT \<Rightarrow>
          Some \<lparr>rsp_field = sp_field p, rsp_type = sp_type p,
                rsp_value_u = no_value\<lparr>v_i := v_i (sp_value p)\<rparr>\<rparr>
      | VIR_DOMAIN_SCHED_FIELD_UINT \<Rightarrow>
          Some \<lparr>rsp_field = sp_field p, rsp_type = sp_type p,
                rsp_value_u = no_value\<lparr>v_ui := v_ui (sp_value p)\<rparr>\<rparr>
      | VIR_DOMAIN_SCHED_FIELD_LLONG \<Rightarrow>
          Some \<lparr>rsp_field = sp_field p, rsp_type = sp_type p,
                rsp_value_u = no_value\<lparr>v_l := v_l (sp_value p)\<rparr>\<rparr>
      | VIR_DOMAIN_SCHED_FIELD_ULLONG \<Rightarrow>
          Some \<lparr>rsp_field = sp_field p, rsp_type = sp_type p,
                rsp_value_u = no_value\<lparr>v_ul := v_ul (sp_value p)\<rparr>\<rparr>
      | VIR_DOMAIN_SCHED_FIELD_DOUBLE \<Rightarrow>
          Some \<lparr>rsp_field = sp_field p, rsp_type = sp_type p,
                rsp_value_u = no_value\<lparr>v_d := v_d (sp_value p)\<rparr>\<rparr>
      | VIR_DOMAIN_SCHED_FIELD_BOOLEAN \<Rightarrow>
          Some \<lparr>rsp_field = sp_field p, rsp_type = sp_type p,
                rsp_value_u = no_value\<lparr>v_b := v_b (sp_value p)\<rparr>\<rparr>
      | VIR_DOMAIN_SCHED_FIELD_UNKNOWN n \<Rightarrow> None)"

fun serialise_params ::
  "env \<Rightarrow> qemud_client \<Rightarrow> virSchedParameter list \<Rightarrow> (string + remote_sched_param list) \<times> qemud_client" where
  "serialise_params E client [] = (Inr [], client)"
| "serialise_params E client (p # ps) =
     (let (ok, client) = allocate E client (Strdup (sp_field p))
      in if \<not> ok then (Inl ''out of memory allocating return array'', client)
         else (case serialise_param p of
                 None \<Rightarrow> (Inl ''unknown type'', client)
               | Some v \<Rightarrow>
                   (case serialise_params E client ps of
                      (Inl msg, client) \<Rightarrow> (Inl msg, client)
                    | (Inr vs, client) \<Rightarrow> (Inr (v # vs), client))))"

definition remoteDispatchDomainGetSchedulerParameters ::
  "env \<Rightarrow> qemud_client \<Rightarrow> remote_message_header \<Rightarrow> remote_nonnull_domain \<times> int \<Rightarrow> dispatch_result" where
  "remoteDispatchDomainGetSchedulerParameters E client req args =
     (case args of (a_dom, a_nparams) \<Rightarrow>
     CHECK_CONN E client req (\<lambda>c.
       let nparams = a_nparams
       in if nparams > REMOTE_DOMAIN_SCHEDULER_PARAMETERS_MAX (protocol E)
          then (- 2, [], remoteDispatchError E client (Some req) ''nparams too large'')
          else
            let (ok, client) = allocate E client (Malloc ''virSchedParameter'' nparams)
            in if \<not> ok
               then (- 2, [], remoteDispatchError E client (Some req) ''out of memory allocating array'')
               else
                 let (vdom, client) = get_nonnull_domain E client c a_dom
                 in (case vdom of
                       None \<Rightarrow> (- 2, [], remoteDispatchError E client (Some req) ''domain not found'')
                     | Some vdom \<Rightarrow>
                         let call = LibCall ''virDomainGetSchedulerParameters'' [A_dom vdom, A_int nparams];
                             (r, client) = hyp_int E client call
                         in if r = - 1 then (- 1, [], virDomainFree client vdom)
                            else
                              let params = out_params (hyp E) call;
                                  nparams = int (length params);
                                  (ok, client) = allocate E client (Malloc ''struct remote_sched_param'' nparams)
                              in if \<not> ok
                                 then (- 2, [], remoteDispatchError E (virDomainFree client vdom) (Some req)
                                                  ''out of memory allocating return array'')
                                 else
                                   (case serialise_params E client params of
                                      (Inl msg, client) \<Rightarrow>
                                        (- 2, [], remoteDispatchError E (virDomainFree client vdom) (Some req) msg)
                                    | (Inr vals, client) \<Rightarrow>
                                        (0, [X_int nparams, X_params vals], virDomainFree client vdom)))))"

text \<open>
  The loop of \<^verbatim>\<open>remoteDispatchDomainSetSchedulerParameters\<close> that deserialises one
  parameter: \<^verbatim>\<open>strncpy\<close> and the terminating zero keep at most
  \<^verbatim>\<open>VIR_DOMAIN_SCHED_FIELD_LENGTH - 1\<close> characters of the name; the \<^verbatim>\<open>switch\<close> has no
  \<^verbatim>\<open>default\<close>, so a type that is none of the six leaves the value unwritten.
\<close>

definition deserialise_param :: "env \<Rightarrow> remote_sched_param \<Rightarrow> virSchedParameter" where
  "deserialise_param E a =
     \<lparr>sp_field = take (VIR_DOMAIN_SCHED_FIELD_LENGTH (protocol E) - 1) (rsp_field a),
      sp_type = rsp_type a,
      sp_value =
        (case rsp_type a of
           VIR_DOMAIN_SCHED_FIELD_INT \<Rightarrow> no_value\<lparr>v_i := v_i (rsp_value_u a)\<rparr>
         | VIR_DOMAIN_SCHED_FIELD_UINT \<Rightarrow> no_value\<lparr>v_ui := v_ui (rsp_value_u a)\<rparr>
         | VIR_DOMAIN_SCHED_FIELD_LLONG \<Rightarrow> no_value\<lparr>v_l := v_l (rsp_value_u a)\<rparr>
         | VIR_DOMAIN_SCHED_FIELD_ULLONG \<Rightarrow> no_value\<lparr>v_ul := v_ul (rsp_value_u a)\<rparr>
         | VIR_DOMAIN_SCHED_FIELD_DOUBLE \<Rightarrow> no_value\<lparr>v_d := v_d (rsp_value_u a)\<rparr>
         | VIR_DOMAIN_SCHED_FIELD_BOOLEAN \<Rightarrow> no_value\<lparr>v_b := v_b (rsp_value_u a)\<rparr>
         | VIR_DOMAIN_SCHED_FIELD_UNKNOWN n \<Rightarrow> no_value)\<rparr>"

definition remoteDispatchDomainSetSchedulerParameters ::
  "env \<Rightarrow> qemud_client \<Rightarrow> remote_message_header \<Rightarrow> remote_nonnull_domain \<times> remote_sched_param list \<Rightarrow> dispatch_result" where
  "remoteDispatchDomainSetSchedulerParameters E client req args =
     (case args of (a_dom, a_params) \<Rightarrow>
     CHECK_CONN E client req (\<lambda>c.
       let nparams = to_int32 (int (length a_params))
       in if nparams > REMOTE_DOMAIN_SCHEDULER_PARAMETERS_MAX (protocol E)
          then (- 2, [], remoteDispatchError E client (Some req) ''nparams too large'')
          else
            let (ok, client) = allocate E client (Malloc ''virSchedParameter'' nparams)
            in if \<not> ok
               then (- 2, [], remoteDispatchError E client (Some req) ''out of memory allocating array'')
               else
                 let params = map (deserialise_param E) (take (nat nparams) a_params);
                     (vdom, client) = get_nonnull_domain E client c a_dom
                 in (case vdom of
                       None \<Rightarrow> (- 2, [], remoteDispatchError E client (Some req) ''domain not found'')
                     | Some vdom \<Rightarrow>
                         let (r, client) =
                               hyp_int E client
                                 (LibCall ''virDomainSetSchedulerParameters'' [A_dom vdom, A_params params, A_int nparams]);
                             client = virDomainFree client vdom
                         in if r = - 1 then (- 1, [], client) else (0, [], client))))"


text \<open>
  The two statistics handlers return without \<^verbatim>\<open>virDomainFree\<close> on both paths.
\<close>

definition remoteDispatchDomainBlockStats ::
  "env \<Rightarrow> qemud_client \<Rightarrow> remote_message_header \<Rightarrow> remote_nonnull_domain \<times> string \<Rightarrow> dispatch_result" where
  "remoteDispatchDomainBlockStats E client req args =
     (case args of (a_dom, path) \<Rightarrow>
     CHECK_CONN E client req (\<lambda>c.
       let (vdom, client) = get_nonnull_domain E client c a_dom
       in (case vdom of
             None \<Rightarrow> (- 2, [], remoteDispatchError E client (Some req) ''domain not found'')
           | Some vdom \<Rightarrow>
               let call = LibCall ''virDomainBlockStats'' [A_dom vdom, A_str path];
                   (r, client) = hyp_int E client call
               in if r = - 1 then (- 1, [], client)
                  else (case out_block_stats (hyp E) call of
                          (rd_req, rd_bytes, wr_req, wr_bytes, errs) \<Rightarrow>
                            (0, [X_int rd_req, X_int rd_bytes, X_int wr_req, X_int wr_bytes, X_int errs],
                             client)))))"

definition remoteDispatchDomainInterfaceStats ::
  "env \<Rightarrow> qemud_client \<Rightarrow> remote_message_header \<Rightarrow> remote_nonnull_domain \<times> string \<Rightarrow> dispatch_result" where
  "remoteDispatchDomainInterfaceStats E client req args =
     (case args of (a_dom, path) \<Rightarrow>
     CHECK_CONN E client req (\<lambda>c.
       let (vdom, client) = get_nonnull_domain E client c a_dom
       in (case vdom of
             None \<Rightarrow> (- 2, [], remoteDispatchError E client (Some req) ''domain not found'')
           | Some vdom \<Rightarrow>
               let call = LibCall ''virDomainInterfaceStats'' [A_dom vdom, A_str path];
                   (r, client) = hyp_int E client call
               in if r = - 1 then (- 1, [], client)
                  else (case out_interface_stats (hyp E) call of
                          (rx_bytes, rx_packets, rx_errs, rx_drop, tx_bytes, tx_packets, tx_errs, tx_drop) \<Rightarrow>
                            (0, [X_int rx_bytes, X_int rx_packets, X_int rx_errs, X_int rx_drop,
                                 X_int tx_bytes, X_int tx_packets, X_int tx_errs, X_int tx_drop],
                             client)))))"

definition remoteDispatchDomainAttachDevice ::
  "env \<Rightarrow> qemud_client \<Rightarrow> remote_message_header \<Rightarrow> remote_nonnull_domain \<times> string \<Rightarrow> dispatch_result" where
  "remoteDispatchDomainAttachDevice E client req args =
     (case args of (a_dom, xml) \<Rightarrow>
     CHECK_CONN E client req (\<lambda>c.
       let (vdom, client) = get_nonnull_domain E client c a_dom
       in (case vdom of
             None \<Rightarrow> (- 2, [], remoteDispatchError E client (Some req) ''domain not found'')
           | Some vdom \<Rightarrow>
               let (r, client) = hyp_int E client (LibCall ''virDomainAttachDevice'' [A_dom vdom, A_str xml])
               in if r = - 1 then (- 1, [], virDomainFree client vdom)
                  else (0, [], virDomainFree client vdom))))"

definition remoteDispatchDomainCreate ::
  "env \<Rightarrow> qemud_client \<Rightarrow> remote_message_header \<Rightarrow> remote_nonnull_domain \<Rightarrow> dispatch_result" where
  "remoteDispatchDomainCreate E client req a_dom =
     CHECK_CONN E client req (\<lambda>c.
       let (vdom, client) = get_nonnull_domain E client c a_dom
       in (case vdom of
             None \<Rightarrow> (- 2, [], remoteDispatchError E client (Some req) ''domain not found'')
           | Some vdom \<Rightarrow>
               let (r, client) = hyp_int E client (LibCall ''virDomainCreate'' [A_dom vdom])
               in if r = - 1 then (- 1, [], virDomainFree client vdom)
                  else (0, [], virDomainFree client vdom)))"

definition remoteDispatchDomainCreateLinux ::
  "env \<Rightarrow> qemud_client \<Rightarrow> remote_message_header \<Rightarrow> string \<times> int \<Rightarrow> dispatch_result" where
  "remoteDispatchDomainCreateLinux E client req args =
     (case args of (xml_desc, flags) \<Rightarrow>
     CHECK_CONN E client req (\<lambda>c.
       let (vdom, client) = hyp_dom E client (LibCall ''virDomainCreateLinux'' [A_conn c, A_str xml_desc, A_int flags])
       in (case vdom of
             None \<Rightarrow> (- 1, [], client)
           | Some vdom \<Rightarrow>
               let (r, client) = make_nonnull_domain client vdom
               in (0, [X_domain r], virDomainFree client vdom))))"

definition remoteDispatchDomainDefineXml ::
  "env \<Rightarrow> qemud_client \<Rightarrow> remote_message_header \<Rightarrow> string \<Rightarrow> dispatch_result" where
  "remoteDispatchDomainDefineXml E client req xml =
     CHECK_CONN E client req (\<lambda>c.
       let (vdom, client) = hyp_dom E client (LibCall ''virDomainDefineXML'' [A_conn c, A_str xml])
       in (case vdom of
             None \<Rightarrow> (- 1, [], client)
           | Some vdom \<Rightarrow>
               let (r, client) = make_nonnull_domain client vdom
               in (0, [X_domain r], virDomainFree client vdom)))"

text \<open>
  \<^verbatim>\<open>remoteDispatchDomainDestroy\<close> never calls \<^verbatim>\<open>virDomainFree\<close>: "No need to free dom -
  destroy does it for us" on success, and the failure path returns at once.
\<close>

definition remoteDispatchDomainDestroy ::
  "env \<Rightarrow> qemud_client \<Rightarrow> remote_message_header \<Rightarrow> remote_nonnull_domain \<Rightarrow> dispatch_result" where
  "remoteDispatchDomainDestroy E client req a_dom =
     CHECK_CONN E client req (\<lambda>c.
       let (vdom, client) = get_nonnull_domain E client c a_dom
       in (case vdom of
             None \<Rightarrow> (- 2, [], remoteDispatchError E client (Some req) ''domain not found'')
           | Some vdom \<Rightarrow>
               let (r, client) = hyp_int E client (LibCall ''virDomainDestroy'' [A_dom vdom])
               in if r = - 1 then (- 1, [], client)
                  else (0, [], client)))"

definition remoteDispatchDomainDetachDevice ::
  "env \<Rightarrow> qemud_client \<Rightarrow> remote_message_header \<Rightarrow> remote_nonnull_domain \<times> string \<Rightarrow> dispatch_result" where
  "remoteDispatchDomainDetachDevice E client req args =
     (case args of (a_dom, xml) \<Rightarrow>
     CHECK_CONN E client req (\<lambda>c.
       let (vdom, client) = get_nonnull_domain E client c a_dom
       in (case vdom of
             None \<Rightarrow> (- 2, [], remoteDispatchError E client (Some req) ''domain not found'')
           | Some vdom \<Rightarrow>
               let (r, client) = hyp_int E client (LibCall ''virDomainDetachDevice'' [A_dom vdom, A_str xml])
               in if r = - 1 then (- 1, [], virDomainFree client vdom)
                  else (0, [], virDomainFree client vdom))))"

definition remoteDispatchDomainDumpXml ::
  "env \<Rightarrow> qemud_client \<Rightarrow> remote_message_header \<Rightarrow> remote_nonnull_domain \<times> int \<Rightarrow> dispatch_result" where
  "remoteDispatchDomainDumpXml E client req args =
     (case args of (a_dom, flags) \<Rightarrow>
     CHECK_CONN E client req (\<lambda>c.
       let (vdom, client) = get_nonnull_domain E client c a_dom
       in (case vdom of
             None \<Rightarrow> (- 2, [], remoteDispatchError E client (Some req) ''domain not found'')
           | Some vdom \<Rightarrow>
               let (s, client) = hyp_str E client (LibCall ''virDomainGetXMLDesc'' [A_dom vdom, A_int flags])
               in (case s of
                     None \<Rightarrow> (- 1, [], virDomainFree client vdom)
                   | Some s \<Rightarrow> (0, [X_string s], virDomainFree client vdom)))))"

definition remoteDispatchDomainGetAutostart ::
  "env \<Rightarrow> qemud_client \<Rightarrow> remote_message_header \<Rightarrow> remote_nonnull_domain \<Rightarrow> dispatch_result" where
  "remoteDispatchDomainGetAutostart E client req a_dom =
     CHECK_CONN E client req (\<lambda>c.
       let (vdom, client) = get_nonnull_domain E client c a_dom
       in (case vdom of
             None \<Rightarrow> (- 2, [], remoteDispatchError E client (Some req) ''domain not found'')
           | Some vdom \<Rightarrow>
               let call = LibCall ''virDomainGetAutostart'' [A_dom vdom];
                   (r, client) = hyp_int E client call
               in if r = - 1 then (- 1, [], virDomainFree client vdom)
                  else (0, [X_int (out_int (hyp E) call)], virDomainFree client vdom)))"

definition remoteDispatchDomainGetInfo ::
  "env \<Rightarrow> qemud_client \<Rightarrow> remote_message_header \<Rightarrow> remote_nonnull_domain \<Rightarrow> dispatch_result" where
  "remoteDispatchDomainGetInfo E client req a_dom =
     CHECK_CONN E client req (\<lambda>c.
       let (vdom, client) = get_nonnull_domain E client c a_dom
       in (case vdom of
             None \<Rightarrow> (- 2, [], remoteDispatchError E client (Some req) ''domain not found'')
           | Some vdom \<Rightarrow>
               let call = LibCall ''virDomainGetInfo'' [A_dom vdom];
                   (r, client) = hyp_int E client call
               in if r = - 1 then (- 1, [], virDomainFree client vdom)
                  else (case out_domain_info (hyp E) call of
                          (state, maxMem, memory, nrVirtCpu, cpuTime) \<Rightarrow>
                            (0, [X_int state, X_int maxMem, X_int memory, X_int nrVirtCpu, X_int cpuTime],
                             virDomainFree client vdom))))"

definition remoteDispatchDomainGetMaxMemory ::
  "env \<Rightarrow> qemud_client \<Rightarrow> remote_message_header \<Rightarrow> remote_nonnull_domain \<Rightarrow> dispatch_result" where
  "remoteDispatchDomainGetMaxMemory E client req a_dom =
     CHECK_CONN E client req (\<lambda>c.
       let (vdom, client) = get_nonnull_domain E client c a_dom
       in (case vdom of
             None \<Rightarrow> (- 2, [], remoteDispatchError E client (Some req) ''domain not found'')
           | Some vdom \<Rightarrow>
               let (v, client) = hyp_int E client (LibCall ''virDomainGetMaxMemory'' [A_dom vdom])
               in if v = 0 then (- 1, [], virDomainFree client vdom)
                  else (0, [X_int v], virDomainFree client vdom)))"

definition remoteDispatchDomainGetMaxVcpus ::
  "env \<Rightarrow> qemud_client \<Rightarrow> remote_message_header \<Rightarrow> remote_nonnull_domain \<Rightarrow> dispatch_result" where
  "remoteDispatchDomainGetMaxVcpus E client req a_dom =
     CHECK_CONN E client req (\<lambda>c.
       let (vdom, client) = get_nonnull_domain E client c a_dom
       in (case vdom of
             None \<Rightarrow> (- 2, [], remoteDispatchError E client (Some req) ''domain not found'')
           | Some vdom \<Rightarrow>
               let (v, client) = hyp_int E client (LibCall ''virDomainGetMaxVcpus'' [A_dom vdom])
               in if v = - 1 then (- 1, [], virDomainFree client vdom)
                  else (0, [X_int v], virDomainFree client vdom)))"

definition remoteDispatchDomainGetOsType ::
  "env \<Rightarrow> qemud_client \<Rightarrow> remote_message_header \<Rightarrow> remote_nonnull_domain \<Rightarrow> dispatch_result" where
  "remoteDispatchDomainGetOsType E client req a_dom =
     CHECK_CONN E client req (\<lambda>c.
       let (vdom, client) = get_nonnull_domain E client c a_dom
       in (case vdom of
             None \<Rightarrow> (- 2, [], remoteDispatchError E client (Some req) ''domain not found'')
           | Some vdom \<Rightarrow>
               let (s, client) = hyp_str E client (LibCall ''virDomainGetOSType'' [A_dom vdom])
               in (case s of
                     None \<Rightarrow> (- 1, [], virDomainFree client vdom)
                   | Some s \<Rightarrow> (0, [X_string s], virDomainFree client vdom))))"

text \<open>
  \<^verbatim>\<open>remoteDispatchDomainGetVcpus\<close>. \<^verbatim>\<open>args->maxinfo * args->maplen\<close> is a product of two
  C integers: \<open>mul_int32\<close>.
\<close>

definition remoteDispatchDomainGetVcpus ::
  "env \<Rightarrow> qemud_client \<Rightarrow> remote_message_header \<Rightarrow> remote_nonnull_domain \<times> int \<times> int \<Rightarrow> dispatch_result" where
  "remoteDispatchDomainGetVcpus E client req args =
     (case args of (a_dom, maxinfo, maplen) \<Rightarrow>
     CHECK_CONN E client req (\<lambda>c.
       let (vdom, client) = get_nonnull_domain E client c a_dom
       in (case vdom of
             None \<Rightarrow> (- 2, [], remoteDispatchError E client (Some req) ''domain not found'')
           | Some vdom \<Rightarrow>
               if maxinfo > REMOTE_VCPUINFO_MAX (protocol E)
               then (- 2, [], remoteDispatchError E (virDomainFree client vdom) (Some req)
                                ''maxinfo > REMOTE_VCPUINFO_MAX'')
               else if mul_int32 maxinfo maplen > REMOTE_CPUMAPS_MAX (protocol E)
               then (- 2, [], remoteDispatchError E (virDomainFree client vdom) (Some req)
                                ''maxinfo * maplen > REMOTE_CPUMAPS_MAX'')
               else
                 let client = allocate_unchecked client (Malloc ''virVcpuInfo'' maxinfo);
                     client = allocate_unchecked client (Malloc ''unsigned char'' (mul_int32 maxinfo maplen));
                     call = LibCall ''virDomainGetVcpus'' [A_dom vdom, A_int maxinfo, A_int maplen];
                     (info_len, client) = hyp_int E client call
                 in if info_len = - 1 then (- 1, [], virDomainFree client vdom)
                    else
                      let client = allocate_unchecked client (Malloc ''remote_vcpu_info'' info_len)
                      in (0, [X_int info_len, X_vcpu_info (take (nat info_len) (out_vcpu_info (hyp E) call)),
                              X_int (mul_int32 maxinfo maplen), X_opaque (out_bytes (hyp E) call)],
                          virDomainFree client vdom))))"

definition remoteDispatchDomainMigratePrepare ::
  "env \<Rightarrow> qemud_client \<Rightarrow> remote_message_header \<Rightarrow> string option \<times> int \<times> string option \<times> int \<Rightarrow> dispatch_result" where
  "remoteDispatchDomainMigratePrepare E client req args =
     (case args of (uri_in, flags, dname, resource) \<Rightarrow>
     CHECK_CONN E client req (\<lambda>c.
       let client = allocate_unchecked client (Malloc ''char *'' 1);
           call = LibCall ''__virDomainMigratePrepare''
                    [A_conn c, A_opt_str uri_in, A_int flags, A_opt_str dname, A_int resource];
           (r, client) = hyp_int E client call
       in if r = - 1 then (- 1, [], client)
          else (0, [X_int (out_int (hyp E) call), X_opt_opaque (out_opt_bytes (hyp E) call),
                    X_opt_string (out_uri (hyp E) call)], client)))"

text \<open>\<^verbatim>\<open>remoteDispatchDomainMigratePerform\<close> returns without \<^verbatim>\<open>virDomainFree\<close> on both paths.\<close>

definition remoteDispatchDomainMigratePerform ::
  "env \<Rightarrow> qemud_client \<Rightarrow> remote_message_header \<Rightarrow>
     remote_nonnull_domain \<times> bytes \<times> string \<times> int \<times> string option \<times> int \<Rightarrow> dispatch_result" where
  "remoteDispatchDomainMigratePerform E client req args =
     (case args of (a_dom, cookie, uri, flags, dname, resource) \<Rightarrow>
     CHECK_CONN E client req (\<lambda>c.
       let (vdom, client) = get_nonnull_domain E client c a_dom
       in (case vdom of
             None \<Rightarrow> (- 2, [], remoteDispatchError E client (Some req) ''domain not found'')
           | Some vdom \<Rightarrow>
               let (r, client) =
                     hyp_int E client
                       (LibCall ''__virDomainMigratePerform''
                          [A_dom vdom, A_bytes cookie, A_int (int (length cookie)), A_str uri, A_int flags,
                           A_opt_str dname, A_int resource])
               in if r = - 1 then (- 1, [], client)
                  else (0, [], client))))"

definition remoteDispatchDomainMigrateFinish ::
  "env \<Rightarrow> qemud_client \<Rightarrow> remote_message_header \<Rightarrow> string \<times> bytes \<times> string \<times> int \<Rightarrow> dispatch_result" where
  "remoteDispatchDomainMigrateFinish E client req args =
     (case args of (dname, cookie, uri, flags) \<Rightarrow>
     CHECK_CONN E client req (\<lambda>c.
       let (ddom, client) =
             hyp_dom E client
               (LibCall ''__virDomainMigrateFinish''
                  [A_conn c, A_str dname, A_bytes cookie, A_int (int (length cookie)), A_str uri, A_int flags])
       in (case ddom of
             None \<Rightarrow> (- 1, [], client)
           | Some ddom \<Rightarrow>
               let (r, client) = make_nonnull_domain client ddom
               in (0, [X_domain r], client))))"

definition remoteDispatchListDefinedDomains ::
  "env \<Rightarrow> qemud_client \<Rightarrow> remote_message_header \<Rightarrow> int \<Rightarrow> dispatch_result" where
  "remoteDispatchListDefinedDomains E client req maxnames =
     CHECK_CONN E client req (\<lambda>c.
       if maxnames > REMOTE_DOMAIN_NAME_LIST_MAX (protocol E)
       then (- 2, [], remoteDispatchError E client (Some req) ''maxnames > REMOTE_DOMAIN_NAME_LIST_MAX'')
       else
         let client = allocate_unchecked client (Malloc ''char *'' maxnames);
             call = LibCall ''virConnectListDefinedDomains'' [A_conn c, A_int maxnames];
             (len, client) = hyp_int E client call
         in if len = - 1 then (- 1, [], client)
            else (0, [X_int len, X_strings (out_names (hyp E) call)], client))"

definition remoteDispatchDomainLookupById ::
  "env \<Rightarrow> qemud_client \<Rightarrow> remote_message_header \<Rightarrow> int \<Rightarrow> dispatch_result" where
  "remoteDispatchDomainLookupById E client req a_id =
     CHECK_CONN E client req (\<lambda>c.
       let (vdom, client) = hyp_dom E client (LibCall ''virDomainLookupByID'' [A_conn c, A_int a_id])
       in (case vdom of
             None \<Rightarrow> (- 1, [], client)
           | Some vdom \<Rightarrow>
               let (r, client) = make_nonnull_domain client vdom
               in (0, [X_domain r], virDomainFree client vdom)))"

definition remoteDispatchDomainLookupByName ::
  "env \<Rightarrow> qemud_client \<Rightarrow> remote_message_header \<Rightarrow> string \<Rightarrow> dispatch_result" where
  "remoteDispatchDomainLookupByName E client req name =
     CHECK_CONN E client req (\<lambda>c.
       let (vdom, client) = hyp_dom E client (LibCall ''virDomainLookupByName'' [A_conn c, A_str name])
       in (case vdom of
             None \<Rightarrow> (- 1, [], client)
           | Some vdom \<Rightarrow>
               let (r, client) = make_nonnull_domain client vdom
               in (0, [X_domain r], virDomainFree client vdom)))"

definition remoteDispatchDomainLookupByUuid ::
  "env \<Rightarrow> qemud_client \<Rightarrow> remote_message_header \<Rightarrow> bytes \<Rightarrow> dispatch_result" where
  "remoteDispatchDomainLookupByUuid E client req uuid =
     CHECK_CONN E client req (\<lambda>c.
       let (vdom, client) = hyp_dom E client (LibCall ''virDomainLookupByUUID'' [A_conn c, A_bytes uuid])
       in (case vdom of
             None \<Rightarrow> (- 1, [], client)
           | Some vdom \<Rightarrow>
               let (r, client) = make_nonnull_domain client vdom
               in (0, [X_domain r], virDomainFree client vdom)))"

definition remoteDispatchNumOfDefinedDomains ::
  "env \<Rightarrow> qemud_client \<Rightarrow> remote_message_header \<Rightarrow> dispatch_result" where
  "remoteDispatchNumOfDefinedDomains E client req =
     CHECK_CONN E client req (\<lambda>c.
       let (num, client) = hyp_int E client (LibCall ''virConnectNumOfDefinedDomains'' [A_conn c])
       in if num = - 1 then (- 1, [], client)
          else (0, [X_int num], client))"

definition remoteDispatchDomainPinVcpu ::
  "env \<Rightarrow> qemud_client \<Rightarrow> remote_message_header \<Rightarrow> remote_nonnull_domain \<times> int \<times> bytes \<Rightarrow> dispatch_result" where
  "remoteDispatchDomainPinVcpu E client req args =
     (case args of (a_dom, vcpu, cpumap) \<Rightarrow>
     CHECK_CONN E client req (\<lambda>c.
       let (vdom, client) = get_nonnull_domain E client c a_dom
       in (case vdom of
             None \<Rightarrow> (- 2, [], remoteDispatchError E client (Some req) ''domain not found'')
           | Some vdom \<Rightarrow>
               if int (length cpumap) > REMOTE_CPUMAP_MAX (protocol E)
               then (- 2, [], remoteDispatchError E (virDomainFree client vdom) (Some req)
                                ''cpumap_len > REMOTE_CPUMAP_MAX'')
               else
                 let (rv, client) =
                       hyp_int E client
                         (LibCall ''virDomainPinVcpu'' [A_dom vdom, A_int vcpu, A_bytes cpumap, A_int (int (length cpumap))])
                 in if rv = - 1 then (- 1, [], virDomainFree client vdom)
                    else (0, [], virDomainFree client vdom))))"

definition remoteDispatchDomainReboot ::
  "env \<Rightarrow> qemud_client \<Rightarrow> remote_message_header \<Rightarrow> remote_nonnull_domain \<times> int \<Rightarrow> dispatch_result" where
  "remoteDispatchDomainReboot E client req args =
     (case args of (a_dom, flags) \<Rightarrow>
     CHECK_CONN E client req (\<lambda>c.
       let (vdom, client) = get_nonnull_domain E client c a_dom
       in (case vdom of
             None \<Rightarrow> (- 2, [], remoteDispatchError E client (Some req) ''domain not found'')
           | Some vdom \<Rightarrow>
               let (r, client) = hyp_int E client (LibCall ''virDomainReboot'' [A_dom vdom, A_int flags])
               in if r = - 1 then (- 1, [], virDomainFree client vdom)
                  else (0, [], virDomainFree client vdom))))"

definition remoteDispatchDomainRestore ::
  "env \<Rightarrow> qemud_client \<Rightarrow> remote_message_header \<Rightarrow> string \<Rightarrow> dispatch_result" where
  "remoteDispatchDomainRestore E client req a_from =
     CHECK_CONN E client req (\<lambda>c.
       let (r, client) = hyp_int E client (LibCall ''virDomainRestore'' [A_conn c, A_str a_from])
       in if r = - 1 then (- 1, [], client)
          else (0, [], client))"

definition remoteDispatchDomainResume ::
  "env \<Rightarrow> qemud_client \<Rightarrow> remote_message_header \<Rightarrow> remote_nonnull_domain \<Rightarrow> dispatch_result" where
  "remoteDispatchDomainResume E client req a_dom =
     CHECK_CONN E client req (\<lambda>c.
       let (vdom, client) = get_nonnull_domain E client c a_dom
       in (case vdom of
             None \<Rightarrow> (- 2, [], remoteDispatchError E client (Some req) ''domain not found'')
           | Some vdom \<Rightarrow>
               let (r, client) = hyp_int E client (LibCall ''virDomainResume'' [A_dom vdom])
               in if r = - 1 then (- 1, [], virDomainFree client vdom)
                  else (0, [], virDomainFree client vdom)))"

definition remoteDispatchDomainSave ::
  "env \<Rightarrow> qemud_client \<Rightarrow> remote_message_header \<Rightarrow> remote_nonnull_domain \<times> string \<Rightarrow> dispatch_result" where
  "remoteDispatchDomainSave E client req args =
     (case args of (a_dom, a_to) \<Rightarrow>
     CHECK_CONN E client req (\<lambda>c.
       let (vdom, client) = get_nonnull_domain E client c a_dom
       in (case vdom of
             None \<Rightarrow> (- 2, [], remoteDispatchError E client (Some req) ''domain not found'')
           | Some vdom \<Rightarrow>
               let (r, client) = hyp_int E client (LibCall ''virDomainSave'' [A_dom vdom, A_str a_to])
               in if r = - 1 then (- 1, [], virDomainFree client vdom)
                  else (0, [], virDomainFree client vdom))))"

definition remoteDispatchDomainCoreDump ::
  "env \<Rightarrow> qemud_client \<Rightarrow> remote_message_header \<Rightarrow> remote_nonnull_domain \<times> string \<times> int \<Rightarrow> dispatch_result" where
  "remoteDispatchDomainCoreDump E client req args =
     (case args of (a_dom, a_to, flags) \<Rightarrow>
     CHECK_CONN E client req (\<lambda>c.
       let (vdom, client) = get_nonnull_domain E client c a_dom
       in (case vdom of
             None \<Rightarrow> (- 2, [], remoteDispatchError E client (Some req) ''domain not found'')
           | Some vdom \<Rightarrow>
               let (r, client) = hyp_int E client (LibCall ''virDomainCoreDump'' [A_dom vdom, A_str a_to, A_int flags])
               in if r = - 1 then (- 1, [], virDomainFree client vdom)
                  else (0, [], virDomainFree client vdom))))"

definition remoteDispatchDomainSetAutostart ::
  "env \<Rightarrow> qemud_client \<Rightarrow> remote_message_header \<Rightarrow> remote_nonnull_domain \<times> int \<Rightarrow> dispatch_result" where
  "remoteDispatchDomainSetAutostart E client req args =
     (case args of (a_dom, autostart) \<Rightarrow>
     CHECK_CONN E client req (\<lambda>c.
       let (vdom, client) = get_nonnull_domain E client c a_dom
       in (case vdom of
             None \<Rightarrow> (- 2, [], remoteDispatchError E client (Some req) ''domain not found'')
           | Some vdom \<Rightarrow>
               let (r, client) = hyp_int E client (LibCall ''virDomainSetAutostart'' [A_dom vdom, A_int autostart])
               in if r = - 1 then (- 1, [], virDomainFree client vdom)
                  else (0, [], virDomainFree client vdom))))"

definition remoteDispatchDomainSetMaxMemory ::
  "env \<Rightarrow> qemud_client \<Rightarrow> remote_message_header \<Rightarrow> remote_nonnull_domain \<times> int \<Rightarrow> dispatch_result" where
  "remoteDispatchDomainSetMaxMemory E client req args =
     (case args of (a_dom, memory) \<Rightarrow>
     CHECK_CONN E client req (\<lambda>c.
       let (vdom, client) = get_nonnull_domain E client c a_dom
       in (case vdom of
             None \<Rightarrow> (- 2, [], remoteDispatchError E client (Some req) ''domain not found'')
           | Some vdom \<Rightarrow>
               let (r, client) = hyp_int E client (LibCall ''virDomainSetMaxMemory'' [A_dom vdom, A_int memory])
               in if r = - 1 then (- 1, [], virDomainFree client vdom)
                  else (0, [], virDomainFree client vdom))))"

definition remoteDispatchDomainSetMemory ::
  "env \<Rightarrow> qemud_client \<Rightarrow> remote_message_header \<Rightarrow> remote_nonnull_domain \<times> int \<Rightarrow> dispatch_result" where
  "remoteDispatchDomainSetMemory E client req args =
     (case args of (a_dom, memory) \<Rightarrow>
     CHECK_CONN E client req (\<lambda>c.
       let (vdom, client) = get_nonnull_domain E client c a_dom
       in (case vdom of
             None \<Rightarrow> (- 2, [], remoteDispatchError E client (Some req) ''domain not found'')
           | Some vdom \<Rightarrow>
               let (r, client) = hyp_int E client (LibCall ''virDomainSetMemory'' [A_dom vdom, A_int memory])
               in if r = - 1 then (- 1, [], virDomainFree client vdom)
                  else (0, [], virDomainFree client vdom))))"

definition remoteDispatchDomainSetVcpus ::
  "env \<Rightarrow> qemud_client \<Rightarrow> remote_message_header \<Rightarrow> remote_nonnull_domain \<times> int \<Rightarrow> dispatch_result" where
  "remoteDispatchDomainSetVcpus E client req args =
     (case args of (a_dom, nvcpus) \<Rightarrow>
     CHECK_CONN E client req (\<lambda>c.
       let (vdom, client) = get_nonnull_domain E client c a_dom
       in (case vdom of
             None \<Rightarrow> (- 2, [], remoteDispatchError E client (Some req) ''domain not found'')
           | Some vdom \<Rightarrow>
               let (r, client) = hyp_int E client (LibCall ''virDomainSetVcpus'' [A_dom vdom, A_int nvcpus])
               in if r = - 1 then (- 1, [], virDomainFree client vdom)
                  else (0, [], virDomainFree client vdom))))"

definition remoteDispatchDomainShutdown ::
  "env \<Rightarrow> qemud_client \<Rightarrow> remote_message_header \<Rightarrow> remote_nonnull_domain \<Rightarrow> dispatch_result" where
  "remoteDispatchDomainShutdown E client req a_dom =
     CHECK_CONN E client req (\<lambda>c.
       let (vdom, client) = get_nonnull_domain E client c a_dom
       in (case vdom of
             None \<Rightarrow> (- 2, [], remoteDispatchError E client (Some req) ''domain not found'')
           | Some vdom \<Rightarrow>
               let (r, client) = hyp_int E client (LibCall ''virDomainShutdown'' [A_dom vdom])
               in if r = - 1 then (- 1, [], virDomainFree client vdom)
                  else (0, [], virDomainFree client vdom)))"

definition remoteDispatchDomainSuspend ::
  "env \<Rightarrow> qemud_client \<Rightarrow> remote_message_header \<Rightarrow> remote_nonnull_domain \<Rightarrow> dispatch_result" where
  "remoteDispatchDomainSuspend E client req a_dom =
     CHECK_CONN E client req (\<lambda>c.
       let (vdom, client) = get_nonnull_domain E client c a_dom
       in (case vdom of
             None \<Rightarrow> (- 2, [], remoteDispatchError E client (Some req) ''domain not found'')
           | Some vdom \<Rightarrow>
               let (r, client) = hyp_int E client (LibCall ''virDomainSuspend'' [A_dom vdom])
               in if r = - 1 then (- 1, [], virDomainFree client vdom)
                  else (0, [], virDomainFree client vdom)))"

definition remoteDispatchDomainUndefine ::
  "env \<Rightarrow> qemud_client \<Rightarrow> remote_message_header \<Rightarrow> remote_nonnull_domain \<Rightarrow> dispatch_result" where
  "remoteDispatchDomainUndefine E client req a_dom =
     CHECK_CONN E client req (\<lambda>c.
       let (vdom, client) = get_nonnull_domain E client c a_dom
       in (case vdom of
             None \<Rightarrow> (- 2, [], remoteDispatchError E client (Some req) ''domain not found'')
           | Some vdom \<Rightarrow>
               let (r, client) = hyp_int E client (LibCall ''virDomainUndefine'' [A_dom vdom])
               in if r = - 1 then (- 1, [], virDomainFree client vdom)
                  else (0, [], virDomainFree client vdom)))"

definition remoteDispatchListDefinedNetworks ::
  "env \<Rightarrow> qemud_client \<Rightarrow> remote_message_header \<Rightarrow> int \<Rightarrow> dispatch_result" where
  "remoteDispatchListDefinedNetworks E client req maxnames =
     CHECK_CONN E client req (\<lambda>c.
       if maxnames > REMOTE_NETWORK_NAME_LIST_MAX (protocol E)
       then (- 2, [], remoteDispatchError E client (Some req) ''maxnames > REMOTE_NETWORK_NAME_LIST_MAX'')
       else
         let client = allocate_unchecked client (Malloc ''char *'' maxnames);
             call = LibCall ''virConnectListDefinedNetworks'' [A_conn c, A_int maxnames];
             (len, client) = hyp_int E client call
         in if len = - 1 then (- 1, [], client)
            else (0, [X_int len, X_strings (out_names (hyp E) call)], client))"

definition remoteDispatchListDomains ::
  "env \<Rightarrow> qemud_client \<Rightarrow> remote_message_header \<Rightarrow> int \<Rightarrow> dispatch_result" where
  "remoteDispatchListDomains E client req maxids =
     CHECK_CONN E client req (\<lambda>c.
       if maxids > REMOTE_DOMAIN_ID_LIST_MAX (protocol E)
       then (- 2, [], remoteDispatchError E client (Some req) ''maxids > REMOTE_DOMAIN_ID_LIST_MAX'')
       else
         let client = allocate_unchecked client (Malloc ''int'' maxids);
             call = LibCall ''virConnectListDomains'' [A_conn c, A_int maxids];
             (len, client) = hyp_int E client call
         in if len = - 1 then (- 1, [], client)
            else (0, [X_int len, X_ints (out_ids (hyp E) call)], client))"

definition remoteDispatchListNetworks ::
  "env \<Rightarrow> qemud_client \<Rightarrow> remote_message_header \<Rightarrow> int \<Rightarrow> dispatch_result" where
  "remoteDispatchListNetworks E client req maxnames =
     CHECK_CONN E client req (\<lambda>c.
       if maxnames > REMOTE_NETWORK_NAME_LIST_MAX (protocol E)
       then (- 2, [], remoteDispatchError E client (Some req) ''maxnames > REMOTE_NETWORK_NAME_LIST_MAX'')
       else
         let client = allocate_unchecked client (Malloc ''char *'' maxnames);
             call = LibCall ''virConnectListNetworks'' [A_conn c, A_int maxnames];
             (len, client) = hyp_int E client call
         in if len = - 1 then (- 1, [], client)
            else (0, [X_int len, X_strings (out_names (hyp E) call)], client))"

definition remoteDispatchNetworkCreate ::
  "env \<Rightarrow> qemud_client \<Rightarrow> remote_message_header \<Rightarrow> remote_nonnull_network \<Rightarrow> dispatch_result" where
  "remoteDispatchNetworkCreate E client req a_net =
     CHECK_CONN E client req (\<lambda>c.
       let (vnet, client) = get_nonnull_network E client c a_net
       in (case vnet of
             None \<Rightarrow> (- 2, [], remoteDispatchError E client (Some req) ''network not found'')
           | Some vnet \<Rightarrow>
               let (r, client) = hyp_int E client (LibCall ''virNetworkCreate'' [A_net vnet])
               in if r = - 1 then (- 1, [], virNetworkFree client vnet)
                  else (0, [], virNetworkFree client vnet)))"

definition remoteDispatchNetworkCreateXml ::
  "env \<Rightarrow> qemud_client \<Rightarrow> remote_message_header \<Rightarrow> string \<Rightarrow> dispatch_result" where
  "remoteDispatchNetworkCreateXml E client req xml =
     CHECK_CONN E client req (\<lambda>c.
       let (vnet, client) = hyp_net E client (LibCall ''virNetworkCreateXML'' [A_conn c, A_str xml])
       in (case vnet of
             None \<Rightarrow> (- 1, [], client)
           | Some vnet \<Rightarrow>
               let (r, client) = make_nonnull_network client vnet
               in (0, [X_network r], virNetworkFree client vnet)))"

definition remoteDispatchNetworkDefineXml ::
  "env \<Rightarrow> qemud_client \<Rightarrow> remote_message_header \<Rightarrow> string \<Rightarrow> dispatch_result" where
  "remoteDispatchNetworkDefineXml E client req xml =
     CHECK_CONN E client req (\<lambda>c.
       let (vnet, client) = hyp_net E client (LibCall ''virNetworkDefineXML'' [A_conn c, A_str xml])
       in (case vnet of
             None \<Rightarrow> (- 1, [], client)
           | Some vnet \<Rightarrow>
               let (r, client) = make_nonnull_network client vnet
               in (0, [X_network r], virNetworkFree client vnet)))"

definition remoteDispatchNetworkDestroy ::
  "env \<Rightarrow> qemud_client \<Rightarrow> remote_message_header \<Rightarrow> remote_nonnull_network \<Rightarrow> dispatch_result" where
  "remoteDispatchNetworkDestroy E client req a_net =
     CHECK_CONN E client req (\<lambda>c.
       let (vnet, client) = get_nonnull_network E client c a_net
       in (case vnet of
             None \<Rightarrow> (- 2, [], remoteDispatchError E client (Some req) ''network not found'')
           | Some vnet \<Rightarrow>
               let (r, client) = hyp_int E client (LibCall ''virNetworkDestroy'' [A_net vnet])
               in if r = - 1 then (- 1, [], virNetworkFree client vnet)
                  else (0, [], virNetworkFree client vnet)))"

definition remoteDispatchNetworkDumpXml ::
  "env \<Rightarrow> qemud_client \<Rightarrow> remote_message_header \<Rightarrow> remote_nonnull_network \<times> int \<Rightarrow> dispatch_result" where
  "remoteDispatchNetworkDumpXml E client req args =
     (case args of (a_net, flags) \<Rightarrow>
     CHECK_CONN E client req (\<lambda>c.
       let (vnet, client) = get_nonnull_network E client c a_net
       in (case vnet of
             None \<Rightarrow> (- 2, [], remoteDispatchError E client (Some req) ''network not found'')
           | Some vnet \<Rightarrow>
               let (s, client) = hyp_str E client (LibCall ''virNetworkGetXMLDesc'' [A_net vnet, A_int flags])
               in (case s of
                     None \<Rightarrow> (- 1, [], virNetworkFree client vnet)
                   | Some s \<Rightarrow> (0, [X_string s], virNetworkFree client vnet)))))"

definition remoteDispatchNetworkGetAutostart ::
  "env \<Rightarrow> qemud_client \<Rightarrow> remote_message_header \<Rightarrow> remote_nonnull_network \<Rightarrow> dispatch_result" where
  "remoteDispatchNetworkGetAutostart E client req a_net =
     CHECK_CONN E client req (\<lambda>c.
       let (vnet, client) = get_nonnull_network E client c a_net
       in (case vnet of
             None \<Rightarrow> (- 2, [], remoteDispatchError E client (Some req) ''network not found'')
           | Some vnet \<Rightarrow>
               let call = LibCall ''virNetworkGetAutostart'' [A_net vnet];
                   (r, client) = hyp_int E client call
               in if r = - 1 then (- 1, [], virNetworkFree client vnet)
                  else (0, [X_int (out_int (hyp E) call)], virNetworkFree client vnet)))"

definition remoteDispatchNetworkGetBridgeName ::
  "env \<Rightarrow> qemud_client \<Rightarrow> remote_message_header \<Rightarrow> remote_nonnull_network \<Rightarrow> dispatch_result" where
  "remoteDispatchNetworkGetBridgeName E client req a_net =
     CHECK_CONN E client req (\<lambda>c.
       let (vnet, client) = get_nonnull_network E client c a_net
       in (case vnet of
             None \<Rightarrow> (- 2, [], remoteDispatchError E client (Some req) ''network not found'')
           | Some vnet \<Rightarrow>
               let (s, client) = hyp_str E client (LibCall ''virNetworkGetBridgeName'' [A_net vnet])
               in (case s of
                     None \<Rightarrow> (- 1, [], virNetworkFree client vnet)
                   | Some s \<Rightarrow> (0, [X_string s], virNetworkFree client vnet))))"

definition remoteDispatchNetworkLookupByName ::
  "env \<Rightarrow> qemud_client \<Rightarrow> remote_message_header \<Rightarrow> string \<Rightarrow> dispatch_result" where
  "remoteDispatchNetworkLookupByName E client req name =
     CHECK_CONN E client req (\<lambda>c.
       let (vnet, client) = hyp_net E client (LibCall ''virNetworkLookupByName'' [A_conn c, A_str name])
       in (case vnet of
             None \<Rightarrow> (- 1, [], client)
           | Some vnet \<Rightarrow>
               let (r, client) = make_nonnull_network client vnet
               in (0, [X_network r], virNetworkFree client vnet)))"

definition remoteDispatchNetworkLookupByUuid ::
  "env \<Rightarrow> qemud_client \<Rightarrow> remote_message_header \<Rightarrow> bytes \<Rightarrow> dispatch_result" where
  "remoteDispatchNetworkLookupByUuid E client req uuid =
     CHECK_CONN E client req (\<lambda>c.
       let (vnet, client) = hyp_net E client (LibCall ''virNetworkLookupByUUID'' [A_conn c, A_bytes uuid])
       in (case vnet of
             None \<Rightarrow> (- 1, [], client)
           | Some vnet \<Rightarrow>
               let (r, client) = make_nonnull_network client vnet
               in (0, [X_network r], virNetworkFree client vnet)))"

definition remoteDispatchNetworkSetAutostart ::
  "env \<Rightarrow> qemud_client \<Rightarrow> remote_message_header \<Rightarrow> remote_nonnull_network \<times> int \<Rightarrow> dispatch_result" where
  "remoteDispatchNetworkSetAutostart E client req args =
     (case args of (a_net, autostart) \<Rightarrow>
     CHECK_CONN E client req (\<lambda>c.
       let (vnet, client) = get_nonnull_network E client c a_net
       in (case vnet of
             None \<Rightarrow> (- 2, [], remoteDispatchError E client (Some req) ''network not found'')
           | Some vnet \<Rightarrow>
               let (r, client) = hyp_int E client (LibCall ''virNetworkSetAutostart'' [A_net vnet, A_int autostart])
               in if r = - 1 then (- 1, [], virNetworkFree client vnet)
                  else (0, [], virNetworkFree client vnet))))"

definition remoteDispatchNetworkUndefine ::
  "env \<Rightarrow> qemud_client \<Rightarrow> remote_message_header \<Rightarrow> remote_nonnull_network \<Rightarrow> dispatch_result" where
  "remoteDispatchNetworkUndefine E client req a_net =
     CHECK_CONN E client req (\<lambda>c.
       let (vnet, client) = get_nonnull_network E client c a_net
       in (case vnet of
             None \<Rightarrow> (- 2, [], remoteDispatchError E client (Some req) ''network not found'')
           | Some vnet \<Rightarrow>
               let (r, client) = hyp_int E client (LibCall ''virNetworkUndefine'' [A_net vnet])
               in if r = - 1 then (- 1, [], virNetworkFree client vnet)
                  else (0, [], virNetworkFree client vnet)))"

definition remoteDispatchNumOfDefinedNetworks ::
  "env \<Rightarrow> qemud_client \<Rightarrow> remote_message_header \<Rightarrow> dispatch_result" where
  "remoteDispatchNumOfDefinedNetworks E client req =
     CHECK_CONN E client req (\<lambda>c.
       let (num, client) = hyp_int E client (LibCall ''virConnectNumOfDefinedNetworks'' [A_conn c])
       in if num = - 1 then (- 1, [], client)
          else (0, [X_int num], client))"

definition remoteDispatchNumOfDomains ::
  "env \<Rightarrow> qemud_client \<Rightarrow> remote_message_header \<Rightarrow> dispatch_result" where
  "remoteDispatchNumOfDomains E client req =
     CHECK_CONN E client req (\<lambda>c.
       let (num, client) = hyp_int E client (LibCall ''virConnectNumOfDomains'' [A_conn c])
       in if num = - 1 then (- 1, [], client)
          else (0, [X_int num], client))"

definition remoteDispatchNumOfNetworks ::
  "env \<Rightarrow> qemud_client \<Rightarrow> remote_message_header \<Rightarrow> dispatch_result" where
  "remoteDispatchNumOfNetworks E client req =
     CHECK_CONN E client req (\<lambda>c.
       let (num, client) = hyp_int E client (LibCall ''virConnectNumOfNetworks'' [A_conn c])
       in if num = - 1 then (- 1, [], client)
          else (0, [X_int num], client))"

section \<open>Authentication\<close>

definition remoteDispatchAuthList ::
  "env \<Rightarrow> qemud_client \<Rightarrow> remote_message_header \<Rightarrow> dispatch_result" where
  "remoteDispatchAuthList E client req =
     (let (ok, client) = allocate E client (Malloc ''remote_auth_type'' 1)
      in if \<not> ok
         then (- 2, [], remoteDispatchSendError E client (Some req) VIR_ERR_NO_MEMORY ''auth types'')
         else (0, [X_int 1, X_auth_types [auth client]], client))"

definition addrToString ::
  "env \<Rightarrow> qemud_client \<Rightarrow> remote_message_header \<Rightarrow> sockaddr \<Rightarrow> string option \<times> qemud_client" where
  "addrToString E client req sa =
     (case getnameinfo (libc E) sa of
        None \<Rightarrow> (None, remoteDispatchError E client (Some req) ''Cannot resolve address %d: %s'')
      | Some (host, port) \<Rightarrow>
          let (ok, client) =
                allocate E client (Malloc ''char'' (int (length host) + 1 + int (length port) + 1))
          in if \<not> ok then (None, remoteDispatchError E client (Some req) ''cannot allocate address'')
             else (Some (host @ '';'' @ port), client))"

text \<open>
  The SASL handlers, as compiled with \<^verbatim>\<open>HAVE_SASL\<close>. The result of
  \<^verbatim>\<open>remoteDispatchAuthSaslInit\<close> is \<^verbatim>\<open>mechlist\<close>; the result of the other two is
  \<^verbatim>\<open>complete\<close>, \<^verbatim>\<open>nil\<close>, \<^verbatim>\<open>data.data_len\<close>, \<^verbatim>\<open>data.data_val\<close>.
\<close>

definition remoteDispatchAuthSaslInit ::
  "env \<Rightarrow> qemud_client \<Rightarrow> remote_message_header \<Rightarrow> dispatch_result" where
  "remoteDispatchAuthSaslInit E client req =
     (if auth client \<noteq> REMOTE_AUTH_SASL \<or> saslconn client \<noteq> None
      then (- 2, [], remoteDispatchFailAuth E client (Some req))
      else
        (case getsockname (libc E) (fd client) of
           None \<Rightarrow> (- 2, [], remoteDispatchError E client (Some req) ''failed to get sock address %d (%s)'')
         | Some sa \<Rightarrow>
             let (localAddr, client) = addrToString E client req sa
             in (case localAddr of
                   None \<Rightarrow> (- 2, [], client)
                 | Some localAddr \<Rightarrow>
                     (case getpeername (libc E) (fd client) of
                        None \<Rightarrow>
                          (- 2, [], remoteDispatchError E client (Some req) ''failed to get peer address %d (%s)'')
                      | Some sa \<Rightarrow>
                          let (remoteAddr, client) = addrToString E client req sa
                          in (case remoteAddr of
                                None \<Rightarrow> (- 2, [], client)
                              | Some remoteAddr \<Rightarrow>
                                  let new = sasl_server_new localAddr remoteAddr;
                                      (err, client) = sasl_invoke E client new;
                                      client = client\<lparr>saslconn := sasl_new_conn (sasl E) new\<rparr>
                                  in if err \<noteq> SASL_OK
                                     then (- 2, [], (remoteDispatchFailAuth E client (Some req))\<lparr>saslconn := None\<rparr>)
                                     else
                                       let listmech = sasl_listmech (saslconn client);
                                           (err, client) = sasl_invoke E client listmech
                                       in if err \<noteq> SASL_OK
                                          then
                                            let client = remoteDispatchFailAuth E client (Some req);
                                                client = observe client (SASL (sasl_dispose (saslconn client)))
                                            in (- 2, [], client\<lparr>saslconn := None\<rparr>)
                                          else
                                            let mechlist = sasl_mechlist (sasl E) listmech;
                                                (ok, client) = allocate E client (Strdup mechlist)
                                            in if \<not> ok
                                               then
                                                 let client = remoteDispatchFailAuth E client (Some req);
                                                     client = observe client (SASL (sasl_dispose (saslconn client)))
                                                 in (- 2, [], client\<lparr>saslconn := None\<rparr>)
                                               else (0, [X_string mechlist], client))))))"

text \<open>
  What \<^verbatim>\<open>remoteDispatchAuthSaslStart\<close> and \<^verbatim>\<open>remoteDispatchAuthSaslStep\<close> do with the
  answer of the SASL library is the same text in both: \<open>sasl_answer\<close>, from the test of
  \<^verbatim>\<open>err\<close> to the end of the function. \<open>step\<close> is the call that was made.
\<close>

definition sasl_answer ::
  "env \<Rightarrow> qemud_client \<Rightarrow> remote_message_header \<Rightarrow> sasl_call \<Rightarrow> sasl_result \<Rightarrow> dispatch_result" where
  "sasl_answer E client req step err =
     (let serverout = sasl_serverout (sasl E) step;
          serveroutlen = sasl_serveroutlen (sasl E) step
      in if err \<noteq> SASL_OK \<and> err \<noteq> SASL_CONTINUE
         then
           let client = observe client (SASL (sasl_dispose (saslconn client)));
               client = client\<lparr>saslconn := None\<rparr>
           in (- 2, [], remoteDispatchFailAuth E client (Some req))
         else if int serveroutlen > REMOTE_AUTH_SASL_DATA_MAX (protocol E)
         then
           let client = observe client (SASL (sasl_dispose (saslconn client)));
               client = client\<lparr>saslconn := None\<rparr>
           in (- 2, [], remoteDispatchFailAuth E client (Some req))
         else
           let (ok, client) =
                 (case serverout of
                    Some out \<Rightarrow> allocate E client (Malloc ''char'' (int serveroutlen))
                  | None \<Rightarrow> (True, client))
           in if \<not> ok
              then (- 2, [], remoteDispatchError E client (Some req) ''out of memory allocating array'')
              else
                let data_val = map_option (take serveroutlen) serverout;
                    nil = (if serverout \<noteq> None then 0 else 1);
                    data_len = int serveroutlen
                in if err = SASL_CONTINUE
                   then (0, [X_int 0, X_int nil, X_int data_len, X_opt_opaque data_val], client)
                   else (0, [X_int 1, X_int nil, X_int data_len, X_opt_opaque data_val],
                         client\<lparr>auth := REMOTE_AUTH_NONE\<rparr>))"

text \<open>
  The arguments of the two handlers: \<^verbatim>\<open>args->data\<close> is the pointer \<^verbatim>\<open>data_val\<close>, which can be
  \<^verbatim>\<open>NULL\<close> (\<open>None\<close>), and the length \<^verbatim>\<open>data_len\<close>. The handlers hand \<^verbatim>\<open>NULL\<close> to the library
  when \<^verbatim>\<open>args->nil\<close> is non-zero and the pointer as it is otherwise, with the length in both
  cases.
\<close>

definition remoteDispatchAuthSaslStart ::
  "env \<Rightarrow> qemud_client \<Rightarrow> remote_message_header \<Rightarrow>
     string \<times> int \<times> bytes option \<times> nat \<Rightarrow> dispatch_result" where
  "remoteDispatchAuthSaslStart E client req args =
     (case args of (mech, a_nil, data_val, data_len) \<Rightarrow>
        if auth client \<noteq> REMOTE_AUTH_SASL \<or> saslconn client = None
        then (- 2, [], remoteDispatchFailAuth E client (Some req))
        else
          let start = sasl_server_start (saslconn client) mech
                        (if a_nil \<noteq> 0 then None else data_val) data_len;
              (err, client) = sasl_invoke E client start
          in sasl_answer E client req start err)"

definition remoteDispatchAuthSaslStep ::
  "env \<Rightarrow> qemud_client \<Rightarrow> remote_message_header \<Rightarrow> int \<times> bytes option \<times> nat \<Rightarrow> dispatch_result" where
  "remoteDispatchAuthSaslStep E client req args =
     (case args of (a_nil, data_val, data_len) \<Rightarrow>
        if auth client \<noteq> REMOTE_AUTH_SASL \<or> saslconn client = None
        then (- 2, [], remoteDispatchFailAuth E client (Some req))
        else
          let step = sasl_server_step (saslconn client)
                       (if a_nil \<noteq> 0 then None else data_val) data_len;
              (err, client) = sasl_invoke E client step
          in sasl_answer E client req step err)"


section \<open>The argument filters and the procedure switch\<close>

text \<open>
  Modelled from the spec: the argument filters \<^verbatim>\<open>xdr_remote_*_args\<close> (generated code,
  not part of the sources) and the \<^verbatim>\<open>switch\<close> of \<^verbatim>\<open>remote_dispatch_proc_switch.h\<close>
  (not part of the sources), which gives each procedure its handler and its filters.
  A filter accepts the fields of its own structure. As the wire codec of the spec, it
  fails when a bounded length exceeds its protocol maximum and when the discriminant
  of a scheduler parameter is none of the six.
\<close>

definition known_sched_type :: "virSchedParameterType \<Rightarrow> bool" where
  "known_sched_type t = (case t of VIR_DOMAIN_SCHED_FIELD_UNKNOWN n \<Rightarrow> False | _ \<Rightarrow> True)"

definition xdr_void :: "xdr_item list option \<Rightarrow> unit option" where
  "xdr_void payload = Some ()"

definition xdr_remote_open_args ::
  "env \<Rightarrow> xdr_item list option \<Rightarrow> (string option \<times> int) option" where
  "xdr_remote_open_args E payload =
     (case payload of
        Some [X_opt_string name, X_int flags] \<Rightarrow>
          Some (name, flags)
      | _ \<Rightarrow> None)"

definition xdr_remote_supports_feature_args ::
  "env \<Rightarrow> xdr_item list option \<Rightarrow> (int) option" where
  "xdr_remote_supports_feature_args E payload =
     (case payload of
        Some [X_int feature] \<Rightarrow>
          Some feature
      | _ \<Rightarrow> None)"

definition xdr_remote_get_max_vcpus_args ::
  "env \<Rightarrow> xdr_item list option \<Rightarrow> (string option) option" where
  "xdr_remote_get_max_vcpus_args E payload =
     (case payload of
        Some [X_opt_string a_type] \<Rightarrow>
          Some a_type
      | _ \<Rightarrow> None)"

definition xdr_remote_domain_get_scheduler_type_args ::
  "env \<Rightarrow> xdr_item list option \<Rightarrow> (remote_nonnull_domain) option" where
  "xdr_remote_domain_get_scheduler_type_args E payload =
     (case payload of
        Some [X_domain a_dom] \<Rightarrow>
          Some a_dom
      | _ \<Rightarrow> None)"

definition xdr_remote_domain_get_scheduler_parameters_args ::
  "env \<Rightarrow> xdr_item list option \<Rightarrow> (remote_nonnull_domain \<times> int) option" where
  "xdr_remote_domain_get_scheduler_parameters_args E payload =
     (case payload of
        Some [X_domain a_dom, X_int nparams] \<Rightarrow>
          Some (a_dom, nparams)
      | _ \<Rightarrow> None)"

definition xdr_remote_domain_set_scheduler_parameters_args ::
  "env \<Rightarrow> xdr_item list option \<Rightarrow> (remote_nonnull_domain \<times> remote_sched_param list) option" where
  "xdr_remote_domain_set_scheduler_parameters_args E payload =
     (case payload of
        Some [X_domain a_dom, X_params params] \<Rightarrow>
          (if int (length params) \<le> REMOTE_DOMAIN_SCHEDULER_PARAMETERS_MAX (protocol E)
             \<and> list_all (\<lambda>p. known_sched_type (rsp_type p)) params
           then Some (a_dom, params) else None)
      | _ \<Rightarrow> None)"

definition xdr_remote_domain_block_stats_args ::
  "env \<Rightarrow> xdr_item list option \<Rightarrow> (remote_nonnull_domain \<times> string) option" where
  "xdr_remote_domain_block_stats_args E payload =
     (case payload of
        Some [X_domain a_dom, X_string path] \<Rightarrow>
          Some (a_dom, path)
      | _ \<Rightarrow> None)"

definition xdr_remote_domain_interface_stats_args ::
  "env \<Rightarrow> xdr_item list option \<Rightarrow> (remote_nonnull_domain \<times> string) option" where
  "xdr_remote_domain_interface_stats_args E payload =
     (case payload of
        Some [X_domain a_dom, X_string path] \<Rightarrow>
          Some (a_dom, path)
      | _ \<Rightarrow> None)"

definition xdr_remote_domain_attach_device_args ::
  "env \<Rightarrow> xdr_item list option \<Rightarrow> (remote_nonnull_domain \<times> string) option" where
  "xdr_remote_domain_attach_device_args E payload =
     (case payload of
        Some [X_domain a_dom, X_string xml] \<Rightarrow>
          Some (a_dom, xml)
      | _ \<Rightarrow> None)"

definition xdr_remote_domain_create_args ::
  "env \<Rightarrow> xdr_item list option \<Rightarrow> (remote_nonnull_domain) option" where
  "xdr_remote_domain_create_args E payload =
     (case payload of
        Some [X_domain a_dom] \<Rightarrow>
          Some a_dom
      | _ \<Rightarrow> None)"

definition xdr_remote_domain_create_linux_args ::
  "env \<Rightarrow> xdr_item list option \<Rightarrow> (string \<times> int) option" where
  "xdr_remote_domain_create_linux_args E payload =
     (case payload of
        Some [X_string xml_desc, X_int flags] \<Rightarrow>
          Some (xml_desc, flags)
      | _ \<Rightarrow> None)"

definition xdr_remote_domain_define_xml_args ::
  "env \<Rightarrow> xdr_item list option \<Rightarrow> (string) option" where
  "xdr_remote_domain_define_xml_args E payload =
     (case payload of
        Some [X_string xml] \<Rightarrow>
          Some xml
      | _ \<Rightarrow> None)"

definition xdr_remote_domain_destroy_args ::
  "env \<Rightarrow> xdr_item list option \<Rightarrow> (remote_nonnull_domain) option" where
  "xdr_remote_domain_destroy_args E payload =
     (case payload of
        Some [X_domain a_dom] \<Rightarrow>
          Some a_dom
      | _ \<Rightarrow> None)"

definition xdr_remote_domain_detach_device_args ::
  "env \<Rightarrow> xdr_item list option \<Rightarrow> (remote_nonnull_domain \<times> string) option" where
  "xdr_remote_domain_detach_device_args E payload =
     (case payload of
        Some [X_domain a_dom, X_string xml] \<Rightarrow>
          Some (a_dom, xml)
      | _ \<Rightarrow> None)"

definition xdr_remote_domain_dump_xml_args ::
  "env \<Rightarrow> xdr_item list option \<Rightarrow> (remote_nonnull_domain \<times> int) option" where
  "xdr_remote_domain_dump_xml_args E payload =
     (case payload of
        Some [X_domain a_dom, X_int flags] \<Rightarrow>
          Some (a_dom, flags)
      | _ \<Rightarrow> None)"

definition xdr_remote_domain_get_autostart_args ::
  "env \<Rightarrow> xdr_item list option \<Rightarrow> (remote_nonnull_domain) option" where
  "xdr_remote_domain_get_autostart_args E payload =
     (case payload of
        Some [X_domain a_dom] \<Rightarrow>
          Some a_dom
      | _ \<Rightarrow> None)"

definition xdr_remote_domain_get_info_args ::
  "env \<Rightarrow> xdr_item list option \<Rightarrow> (remote_nonnull_domain) option" where
  "xdr_remote_domain_get_info_args E payload =
     (case payload of
        Some [X_domain a_dom] \<Rightarrow>
          Some a_dom
      | _ \<Rightarrow> None)"

definition xdr_remote_domain_get_max_memory_args ::
  "env \<Rightarrow> xdr_item list option \<Rightarrow> (remote_nonnull_domain) option" where
  "xdr_remote_domain_get_max_memory_args E payload =
     (case payload of
        Some [X_domain a_dom] \<Rightarrow>
          Some a_dom
      | _ \<Rightarrow> None)"

definition xdr_remote_domain_get_max_vcpus_args ::
  "env \<Rightarrow> xdr_item list option \<Rightarrow> (remote_nonnull_domain) option" where
  "xdr_remote_domain_get_max_vcpus_args E payload =
     (case payload of
        Some [X_domain a_dom] \<Rightarrow>
          Some a_dom
      | _ \<Rightarrow> None)"

definition xdr_remote_domain_get_os_type_args ::
  "env \<Rightarrow> xdr_item list option \<Rightarrow> (remote_nonnull_domain) option" where
  "xdr_remote_domain_get_os_type_args E payload =
     (case payload of
        Some [X_domain a_dom] \<Rightarrow>
          Some a_dom
      | _ \<Rightarrow> None)"

definition xdr_remote_domain_get_vcpus_args ::
  "env \<Rightarrow> xdr_item list option \<Rightarrow> (remote_nonnull_domain \<times> int \<times> int) option" where
  "xdr_remote_domain_get_vcpus_args E payload =
     (case payload of
        Some [X_domain a_dom, X_int maxinfo, X_int maplen] \<Rightarrow>
          Some (a_dom, maxinfo, maplen)
      | _ \<Rightarrow> None)"

definition xdr_remote_domain_migrate_prepare_args ::
  "env \<Rightarrow> xdr_item list option \<Rightarrow> (string option \<times> int \<times> string option \<times> int) option" where
  "xdr_remote_domain_migrate_prepare_args E payload =
     (case payload of
        Some [X_opt_string uri_in, X_int flags, X_opt_string dname, X_int resource] \<Rightarrow>
          Some (uri_in, flags, dname, resource)
      | _ \<Rightarrow> None)"

definition xdr_remote_domain_migrate_perform_args ::
  "env \<Rightarrow> xdr_item list option \<Rightarrow> (remote_nonnull_domain \<times> bytes \<times> string \<times> int \<times> string option \<times> int) option" where
  "xdr_remote_domain_migrate_perform_args E payload =
     (case payload of
        Some [X_domain a_dom, X_opaque cookie, X_string uri, X_int flags, X_opt_string dname, X_int resource] \<Rightarrow>
          Some (a_dom, cookie, uri, flags, dname, resource)
      | _ \<Rightarrow> None)"

definition xdr_remote_domain_migrate_finish_args ::
  "env \<Rightarrow> xdr_item list option \<Rightarrow> (string \<times> bytes \<times> string \<times> int) option" where
  "xdr_remote_domain_migrate_finish_args E payload =
     (case payload of
        Some [X_string dname, X_opaque cookie, X_string uri, X_int flags] \<Rightarrow>
          Some (dname, cookie, uri, flags)
      | _ \<Rightarrow> None)"

definition xdr_remote_list_defined_domains_args ::
  "env \<Rightarrow> xdr_item list option \<Rightarrow> (int) option" where
  "xdr_remote_list_defined_domains_args E payload =
     (case payload of
        Some [X_int maxnames] \<Rightarrow>
          Some maxnames
      | _ \<Rightarrow> None)"

definition xdr_remote_domain_lookup_by_id_args ::
  "env \<Rightarrow> xdr_item list option \<Rightarrow> (int) option" where
  "xdr_remote_domain_lookup_by_id_args E payload =
     (case payload of
        Some [X_int a_id] \<Rightarrow>
          Some a_id
      | _ \<Rightarrow> None)"

definition xdr_remote_domain_lookup_by_name_args ::
  "env \<Rightarrow> xdr_item list option \<Rightarrow> (string) option" where
  "xdr_remote_domain_lookup_by_name_args E payload =
     (case payload of
        Some [X_string name] \<Rightarrow>
          Some name
      | _ \<Rightarrow> None)"

definition xdr_remote_domain_lookup_by_uuid_args ::
  "env \<Rightarrow> xdr_item list option \<Rightarrow> (bytes) option" where
  "xdr_remote_domain_lookup_by_uuid_args E payload =
     (case payload of
        Some [X_opaque uuid] \<Rightarrow>
          Some uuid
      | _ \<Rightarrow> None)"

definition xdr_remote_domain_pin_vcpu_args ::
  "env \<Rightarrow> xdr_item list option \<Rightarrow> (remote_nonnull_domain \<times> int \<times> bytes) option" where
  "xdr_remote_domain_pin_vcpu_args E payload =
     (case payload of
        Some [X_domain a_dom, X_int vcpu, X_opaque cpumap] \<Rightarrow>
          (if int (length cpumap) \<le> REMOTE_CPUMAP_MAX (protocol E)
           then Some (a_dom, vcpu, cpumap) else None)
      | _ \<Rightarrow> None)"

definition xdr_remote_domain_reboot_args ::
  "env \<Rightarrow> xdr_item list option \<Rightarrow> (remote_nonnull_domain \<times> int) option" where
  "xdr_remote_domain_reboot_args E payload =
     (case payload of
        Some [X_domain a_dom, X_int flags] \<Rightarrow>
          Some (a_dom, flags)
      | _ \<Rightarrow> None)"

definition xdr_remote_domain_restore_args ::
  "env \<Rightarrow> xdr_item list option \<Rightarrow> (string) option" where
  "xdr_remote_domain_restore_args E payload =
     (case payload of
        Some [X_string a_from] \<Rightarrow>
          Some a_from
      | _ \<Rightarrow> None)"

definition xdr_remote_domain_resume_args ::
  "env \<Rightarrow> xdr_item list option \<Rightarrow> (remote_nonnull_domain) option" where
  "xdr_remote_domain_resume_args E payload =
     (case payload of
        Some [X_domain a_dom] \<Rightarrow>
          Some a_dom
      | _ \<Rightarrow> None)"

definition xdr_remote_domain_save_args ::
  "env \<Rightarrow> xdr_item list option \<Rightarrow> (remote_nonnull_domain \<times> string) option" where
  "xdr_remote_domain_save_args E payload =
     (case payload of
        Some [X_domain a_dom, X_string a_to] \<Rightarrow>
          Some (a_dom, a_to)
      | _ \<Rightarrow> None)"

definition xdr_remote_domain_core_dump_args ::
  "env \<Rightarrow> xdr_item list option \<Rightarrow> (remote_nonnull_domain \<times> string \<times> int) option" where
  "xdr_remote_domain_core_dump_args E payload =
     (case payload of
        Some [X_domain a_dom, X_string a_to, X_int flags] \<Rightarrow>
          Some (a_dom, a_to, flags)
      | _ \<Rightarrow> None)"

definition xdr_remote_domain_set_autostart_args ::
  "env \<Rightarrow> xdr_item list option \<Rightarrow> (remote_nonnull_domain \<times> int) option" where
  "xdr_remote_domain_set_autostart_args E payload =
     (case payload of
        Some [X_domain a_dom, X_int autostart] \<Rightarrow>
          Some (a_dom, autostart)
      | _ \<Rightarrow> None)"

definition xdr_remote_domain_set_max_memory_args ::
  "env \<Rightarrow> xdr_item list option \<Rightarrow> (remote_nonnull_domain \<times> int) option" where
  "xdr_remote_domain_set_max_memory_args E payload =
     (case payload of
        Some [X_domain a_dom, X_int memory] \<Rightarrow>
          Some (a_dom, memory)
      | _ \<Rightarrow> None)"

definition xdr_remote_domain_set_memory_args ::
  "env \<Rightarrow> xdr_item list option \<Rightarrow> (remote_nonnull_domain \<times> int) option" where
  "xdr_remote_domain_set_memory_args E payload =
     (case payload of
        Some [X_domain a_dom, X_int memory] \<Rightarrow>
          Some (a_dom, memory)
      | _ \<Rightarrow> None)"

definition xdr_remote_domain_set_vcpus_args ::
  "env \<Rightarrow> xdr_item list option \<Rightarrow> (remote_nonnull_domain \<times> int) option" where
  "xdr_remote_domain_set_vcpus_args E payload =
     (case payload of
        Some [X_domain a_dom, X_int nvcpus] \<Rightarrow>
          Some (a_dom, nvcpus)
      | _ \<Rightarrow> None)"

definition xdr_remote_domain_shutdown_args ::
  "env \<Rightarrow> xdr_item list option \<Rightarrow> (remote_nonnull_domain) option" where
  "xdr_remote_domain_shutdown_args E payload =
     (case payload of
        Some [X_domain a_dom] \<Rightarrow>
          Some a_dom
      | _ \<Rightarrow> None)"

definition xdr_remote_domain_suspend_args ::
  "env \<Rightarrow> xdr_item list option \<Rightarrow> (remote_nonnull_domain) option" where
  "xdr_remote_domain_suspend_args E payload =
     (case payload of
        Some [X_domain a_dom] \<Rightarrow>
          Some a_dom
      | _ \<Rightarrow> None)"

definition xdr_remote_domain_undefine_args ::
  "env \<Rightarrow> xdr_item list option \<Rightarrow> (remote_nonnull_domain) option" where
  "xdr_remote_domain_undefine_args E payload =
     (case payload of
        Some [X_domain a_dom] \<Rightarrow>
          Some a_dom
      | _ \<Rightarrow> None)"

definition xdr_remote_list_defined_networks_args ::
  "env \<Rightarrow> xdr_item list option \<Rightarrow> (int) option" where
  "xdr_remote_list_defined_networks_args E payload =
     (case payload of
        Some [X_int maxnames] \<Rightarrow>
          Some maxnames
      | _ \<Rightarrow> None)"

definition xdr_remote_list_domains_args ::
  "env \<Rightarrow> xdr_item list option \<Rightarrow> (int) option" where
  "xdr_remote_list_domains_args E payload =
     (case payload of
        Some [X_int maxids] \<Rightarrow>
          Some maxids
      | _ \<Rightarrow> None)"

definition xdr_remote_list_networks_args ::
  "env \<Rightarrow> xdr_item list option \<Rightarrow> (int) option" where
  "xdr_remote_list_networks_args E payload =
     (case payload of
        Some [X_int maxnames] \<Rightarrow>
          Some maxnames
      | _ \<Rightarrow> None)"

definition xdr_remote_network_create_args ::
  "env \<Rightarrow> xdr_item list option \<Rightarrow> (remote_nonnull_network) option" where
  "xdr_remote_network_create_args E payload =
     (case payload of
        Some [X_network a_net] \<Rightarrow>
          Some a_net
      | _ \<Rightarrow> None)"

definition xdr_remote_network_create_xml_args ::
  "env \<Rightarrow> xdr_item list option \<Rightarrow> (string) option" where
  "xdr_remote_network_create_xml_args E payload =
     (case payload of
        Some [X_string xml] \<Rightarrow>
          Some xml
      | _ \<Rightarrow> None)"

definition xdr_remote_network_define_xml_args ::
  "env \<Rightarrow> xdr_item list option \<Rightarrow> (string) option" where
  "xdr_remote_network_define_xml_args E payload =
     (case payload of
        Some [X_string xml] \<Rightarrow>
          Some xml
      | _ \<Rightarrow> None)"

definition xdr_remote_network_destroy_args ::
  "env \<Rightarrow> xdr_item list option \<Rightarrow> (remote_nonnull_network) option" where
  "xdr_remote_network_destroy_args E payload =
     (case payload of
        Some [X_network a_net] \<Rightarrow>
          Some a_net
      | _ \<Rightarrow> None)"

definition xdr_remote_network_dump_xml_args ::
  "env \<Rightarrow> xdr_item list option \<Rightarrow> (remote_nonnull_network \<times> int) option" where
  "xdr_remote_network_dump_xml_args E payload =
     (case payload of
        Some [X_network a_net, X_int flags] \<Rightarrow>
          Some (a_net, flags)
      | _ \<Rightarrow> None)"

definition xdr_remote_network_get_autostart_args ::
  "env \<Rightarrow> xdr_item list option \<Rightarrow> (remote_nonnull_network) option" where
  "xdr_remote_network_get_autostart_args E payload =
     (case payload of
        Some [X_network a_net] \<Rightarrow>
          Some a_net
      | _ \<Rightarrow> None)"

definition xdr_remote_network_get_bridge_name_args ::
  "env \<Rightarrow> xdr_item list option \<Rightarrow> (remote_nonnull_network) option" where
  "xdr_remote_network_get_bridge_name_args E payload =
     (case payload of
        Some [X_network a_net] \<Rightarrow>
          Some a_net
      | _ \<Rightarrow> None)"

definition xdr_remote_network_lookup_by_name_args ::
  "env \<Rightarrow> xdr_item list option \<Rightarrow> (string) option" where
  "xdr_remote_network_lookup_by_name_args E payload =
     (case payload of
        Some [X_string name] \<Rightarrow>
          Some name
      | _ \<Rightarrow> None)"

definition xdr_remote_network_lookup_by_uuid_args ::
  "env \<Rightarrow> xdr_item list option \<Rightarrow> (bytes) option" where
  "xdr_remote_network_lookup_by_uuid_args E payload =
     (case payload of
        Some [X_opaque uuid] \<Rightarrow>
          Some uuid
      | _ \<Rightarrow> None)"

definition xdr_remote_network_set_autostart_args ::
  "env \<Rightarrow> xdr_item list option \<Rightarrow> (remote_nonnull_network \<times> int) option" where
  "xdr_remote_network_set_autostart_args E payload =
     (case payload of
        Some [X_network a_net, X_int autostart] \<Rightarrow>
          Some (a_net, autostart)
      | _ \<Rightarrow> None)"

definition xdr_remote_network_undefine_args ::
  "env \<Rightarrow> xdr_item list option \<Rightarrow> (remote_nonnull_network) option" where
  "xdr_remote_network_undefine_args E payload =
     (case payload of
        Some [X_network a_net] \<Rightarrow>
          Some a_net
      | _ \<Rightarrow> None)"

text \<open>
  Modelled from the spec: the filters of the SASL arguments (generated code, not part of
  the sources), which bound the length of the data. What the spec does not say is the
  pointer they leave for the data: the generated filter decodes the byte array with
  \<^verbatim>\<open>xdr_bytes\<close> of the C library into a structure that the switch has zeroed, and
  \<^verbatim>\<open>xdr_bytes\<close> allocates nothing for a length of zero, so that \<^verbatim>\<open>data_val\<close> is \<^verbatim>\<open>NULL\<close> for
  an empty payload and the buffer of the bytes otherwise.
\<close>

definition xdr_bytes :: "bytes \<Rightarrow> bytes option \<times> nat" where
  "xdr_bytes data = (if data = [] then None else Some data, length data)"

definition xdr_remote_auth_sasl_start_args ::
  "env \<Rightarrow> xdr_item list option \<Rightarrow> (string \<times> int \<times> bytes option \<times> nat) option" where
  "xdr_remote_auth_sasl_start_args E payload =
     (case payload of
        Some [X_string mech, X_int a_nil, X_opaque data] \<Rightarrow>
          (if int (length data) \<le> REMOTE_AUTH_SASL_DATA_MAX (protocol E)
           then Some (mech, a_nil, xdr_bytes data) else None)
      | _ \<Rightarrow> None)"

definition xdr_remote_auth_sasl_step_args ::
  "env \<Rightarrow> xdr_item list option \<Rightarrow> (int \<times> bytes option \<times> nat) option" where
  "xdr_remote_auth_sasl_step_args E payload =
     (case payload of
        Some [X_int a_nil, X_opaque data] \<Rightarrow>
          (if int (length data) \<le> REMOTE_AUTH_SASL_DATA_MAX (protocol E)
           then Some (a_nil, xdr_bytes data) else None)
      | _ \<Rightarrow> None)"

text \<open>
  The result is \<open>None\<close> for the \<^verbatim>\<open>default\<close> of the switch, \<open>Some None\<close> when the
  filter of the procedure rejects the arguments, and otherwise what the handler returns.
\<close>

definition proc_switch ::
  "env \<Rightarrow> qemud_client \<Rightarrow> remote_message_header \<Rightarrow> xdr_item list option \<Rightarrow> dispatch_result option option" where
  "proc_switch E client req payload =
     (case proc req of
        REMOTE_PROC_OPEN \<Rightarrow>
          Some (map_option (remoteDispatchOpen E client req)
                  (xdr_remote_open_args E payload))
      | REMOTE_PROC_CLOSE \<Rightarrow>
          Some (map_option (\<lambda>u. remoteDispatchClose E client req) (xdr_void payload))
      | REMOTE_PROC_SUPPORTS_FEATURE \<Rightarrow>
          Some (map_option (remoteDispatchSupportsFeature E client req)
                  (xdr_remote_supports_feature_args E payload))
      | REMOTE_PROC_GET_TYPE \<Rightarrow>
          Some (map_option (\<lambda>u. remoteDispatchGetType E client req) (xdr_void payload))
      | REMOTE_PROC_GET_VERSION \<Rightarrow>
          Some (map_option (\<lambda>u. remoteDispatchGetVersion E client req) (xdr_void payload))
      | REMOTE_PROC_GET_HOSTNAME \<Rightarrow>
          Some (map_option (\<lambda>u. remoteDispatchGetHostname E client req) (xdr_void payload))
      | REMOTE_PROC_GET_MAX_VCPUS \<Rightarrow>
          Some (map_option (remoteDispatchGetMaxVcpus E client req)
                  (xdr_remote_get_max_vcpus_args E payload))
      | REMOTE_PROC_NODE_GET_INFO \<Rightarrow>
          Some (map_option (\<lambda>u. remoteDispatchNodeGetInfo E client req) (xdr_void payload))
      | REMOTE_PROC_GET_CAPABILITIES \<Rightarrow>
          Some (map_option (\<lambda>u. remoteDispatchGetCapabilities E client req) (xdr_void payload))
      | REMOTE_PROC_DOMAIN_GET_SCHEDULER_TYPE \<Rightarrow>
          Some (map_option (remoteDispatchDomainGetSchedulerType E client req)
                  (xdr_remote_domain_get_scheduler_type_args E payload))
      | REMOTE_PROC_DOMAIN_GET_SCHEDULER_PARAMETERS \<Rightarrow>
          Some (map_option (remoteDispatchDomainGetSchedulerParameters E client req)
                  (xdr_remote_domain_get_scheduler_parameters_args E payload))
      | REMOTE_PROC_DOMAIN_SET_SCHEDULER_PARAMETERS \<Rightarrow>
          Some (map_option (remoteDispatchDomainSetSchedulerParameters E client req)
                  (xdr_remote_domain_set_scheduler_parameters_args E payload))
      | REMOTE_PROC_DOMAIN_BLOCK_STATS \<Rightarrow>
          Some (map_option (remoteDispatchDomainBlockStats E client req)
                  (xdr_remote_domain_block_stats_args E payload))
      | REMOTE_PROC_DOMAIN_INTERFACE_STATS \<Rightarrow>
          Some (map_option (remoteDispatchDomainInterfaceStats E client req)
                  (xdr_remote_domain_interface_stats_args E payload))
      | REMOTE_PROC_DOMAIN_ATTACH_DEVICE \<Rightarrow>
          Some (map_option (remoteDispatchDomainAttachDevice E client req)
                  (xdr_remote_domain_attach_device_args E payload))
      | REMOTE_PROC_DOMAIN_CREATE \<Rightarrow>
          Some (map_option (remoteDispatchDomainCreate E client req)
                  (xdr_remote_domain_create_args E payload))
      | REMOTE_PROC_DOMAIN_CREATE_LINUX \<Rightarrow>
          Some (map_option (remoteDispatchDomainCreateLinux E client req)
                  (xdr_remote_domain_create_linux_args E payload))
      | REMOTE_PROC_DOMAIN_DEFINE_XML \<Rightarrow>
          Some (map_option (remoteDispatchDomainDefineXml E client req)
                  (xdr_remote_domain_define_xml_args E payload))
      | REMOTE_PROC_DOMAIN_DESTROY \<Rightarrow>
          Some (map_option (remoteDispatchDomainDestroy E client req)
                  (xdr_remote_domain_destroy_args E payload))
      | REMOTE_PROC_DOMAIN_DETACH_DEVICE \<Rightarrow>
          Some (map_option (remoteDispatchDomainDetachDevice E client req)
                  (xdr_remote_domain_detach_device_args E payload))
      | REMOTE_PROC_DOMAIN_DUMP_XML \<Rightarrow>
          Some (map_option (remoteDispatchDomainDumpXml E client req)
                  (xdr_remote_domain_dump_xml_args E payload))
      | REMOTE_PROC_DOMAIN_GET_AUTOSTART \<Rightarrow>
          Some (map_option (remoteDispatchDomainGetAutostart E client req)
                  (xdr_remote_domain_get_autostart_args E payload))
      | REMOTE_PROC_DOMAIN_GET_INFO \<Rightarrow>
          Some (map_option (remoteDispatchDomainGetInfo E client req)
                  (xdr_remote_domain_get_info_args E payload))
      | REMOTE_PROC_DOMAIN_GET_MAX_MEMORY \<Rightarrow>
          Some (map_option (remoteDispatchDomainGetMaxMemory E client req)
                  (xdr_remote_domain_get_max_memory_args E payload))
      | REMOTE_PROC_DOMAIN_GET_MAX_VCPUS \<Rightarrow>
          Some (map_option (remoteDispatchDomainGetMaxVcpus E client req)
                  (xdr_remote_domain_get_max_vcpus_args E payload))
      | REMOTE_PROC_DOMAIN_GET_OS_TYPE \<Rightarrow>
          Some (map_option (remoteDispatchDomainGetOsType E client req)
                  (xdr_remote_domain_get_os_type_args E payload))
      | REMOTE_PROC_DOMAIN_GET_VCPUS \<Rightarrow>
          Some (map_option (remoteDispatchDomainGetVcpus E client req)
                  (xdr_remote_domain_get_vcpus_args E payload))
      | REMOTE_PROC_DOMAIN_MIGRATE_PREPARE \<Rightarrow>
          Some (map_option (remoteDispatchDomainMigratePrepare E client req)
                  (xdr_remote_domain_migrate_prepare_args E payload))
      | REMOTE_PROC_DOMAIN_MIGRATE_PERFORM \<Rightarrow>
          Some (map_option (remoteDispatchDomainMigratePerform E client req)
                  (xdr_remote_domain_migrate_perform_args E payload))
      | REMOTE_PROC_DOMAIN_MIGRATE_FINISH \<Rightarrow>
          Some (map_option (remoteDispatchDomainMigrateFinish E client req)
                  (xdr_remote_domain_migrate_finish_args E payload))
      | REMOTE_PROC_LIST_DEFINED_DOMAINS \<Rightarrow>
          Some (map_option (remoteDispatchListDefinedDomains E client req)
                  (xdr_remote_list_defined_domains_args E payload))
      | REMOTE_PROC_DOMAIN_LOOKUP_BY_ID \<Rightarrow>
          Some (map_option (remoteDispatchDomainLookupById E client req)
                  (xdr_remote_domain_lookup_by_id_args E payload))
      | REMOTE_PROC_DOMAIN_LOOKUP_BY_NAME \<Rightarrow>
          Some (map_option (remoteDispatchDomainLookupByName E client req)
                  (xdr_remote_domain_lookup_by_name_args E payload))
      | REMOTE_PROC_DOMAIN_LOOKUP_BY_UUID \<Rightarrow>
          Some (map_option (remoteDispatchDomainLookupByUuid E client req)
                  (xdr_remote_domain_lookup_by_uuid_args E payload))
      | REMOTE_PROC_NUM_OF_DEFINED_DOMAINS \<Rightarrow>
          Some (map_option (\<lambda>u. remoteDispatchNumOfDefinedDomains E client req) (xdr_void payload))
      | REMOTE_PROC_DOMAIN_PIN_VCPU \<Rightarrow>
          Some (map_option (remoteDispatchDomainPinVcpu E client req)
                  (xdr_remote_domain_pin_vcpu_args E payload))
      | REMOTE_PROC_DOMAIN_REBOOT \<Rightarrow>
          Some (map_option (remoteDispatchDomainReboot E client req)
                  (xdr_remote_domain_reboot_args E payload))
      | REMOTE_PROC_DOMAIN_RESTORE \<Rightarrow>
          Some (map_option (remoteDispatchDomainRestore E client req)
                  (xdr_remote_domain_restore_args E payload))
      | REMOTE_PROC_DOMAIN_RESUME \<Rightarrow>
          Some (map_option (remoteDispatchDomainResume E client req)
                  (xdr_remote_domain_resume_args E payload))
      | REMOTE_PROC_DOMAIN_SAVE \<Rightarrow>
          Some (map_option (remoteDispatchDomainSave E client req)
                  (xdr_remote_domain_save_args E payload))
      | REMOTE_PROC_DOMAIN_CORE_DUMP \<Rightarrow>
          Some (map_option (remoteDispatchDomainCoreDump E client req)
                  (xdr_remote_domain_core_dump_args E payload))
      | REMOTE_PROC_DOMAIN_SET_AUTOSTART \<Rightarrow>
          Some (map_option (remoteDispatchDomainSetAutostart E client req)
                  (xdr_remote_domain_set_autostart_args E payload))
      | REMOTE_PROC_DOMAIN_SET_MAX_MEMORY \<Rightarrow>
          Some (map_option (remoteDispatchDomainSetMaxMemory E client req)
                  (xdr_remote_domain_set_max_memory_args E payload))
      | REMOTE_PROC_DOMAIN_SET_MEMORY \<Rightarrow>
          Some (map_option (remoteDispatchDomainSetMemory E client req)
                  (xdr_remote_domain_set_memory_args E payload))
      | REMOTE_PROC_DOMAIN_SET_VCPUS \<Rightarrow>
          Some (map_option (remoteDispatchDomainSetVcpus E client req)
                  (xdr_remote_domain_set_vcpus_args E payload))
      | REMOTE_PROC_DOMAIN_SHUTDOWN \<Rightarrow>
          Some (map_option (remoteDispatchDomainShutdown E client req)
                  (xdr_remote_domain_shutdown_args E payload))
      | REMOTE_PROC_DOMAIN_SUSPEND \<Rightarrow>
          Some (map_option (remoteDispatchDomainSuspend E client req)
                  (xdr_remote_domain_suspend_args E payload))
      | REMOTE_PROC_DOMAIN_UNDEFINE \<Rightarrow>
          Some (map_option (remoteDispatchDomainUndefine E client req)
                  (xdr_remote_domain_undefine_args E payload))
      | REMOTE_PROC_LIST_DEFINED_NETWORKS \<Rightarrow>
          Some (map_option (remoteDispatchListDefinedNetworks E client req)
                  (xdr_remote_list_defined_networks_args E payload))
      | REMOTE_PROC_LIST_DOMAINS \<Rightarrow>
          Some (map_option (remoteDispatchListDomains E client req)
                  (xdr_remote_list_domains_args E payload))
      | REMOTE_PROC_LIST_NETWORKS \<Rightarrow>
          Some (map_option (remoteDispatchListNetworks E client req)
                  (xdr_remote_list_networks_args E payload))
      | REMOTE_PROC_NETWORK_CREATE \<Rightarrow>
          Some (map_option (remoteDispatchNetworkCreate E client req)
                  (xdr_remote_network_create_args E payload))
      | REMOTE_PROC_NETWORK_CREATE_XML \<Rightarrow>
          Some (map_option (remoteDispatchNetworkCreateXml E client req)
                  (xdr_remote_network_create_xml_args E payload))
      | REMOTE_PROC_NETWORK_DEFINE_XML \<Rightarrow>
          Some (map_option (remoteDispatchNetworkDefineXml E client req)
                  (xdr_remote_network_define_xml_args E payload))
      | REMOTE_PROC_NETWORK_DESTROY \<Rightarrow>
          Some (map_option (remoteDispatchNetworkDestroy E client req)
                  (xdr_remote_network_destroy_args E payload))
      | REMOTE_PROC_NETWORK_DUMP_XML \<Rightarrow>
          Some (map_option (remoteDispatchNetworkDumpXml E client req)
                  (xdr_remote_network_dump_xml_args E payload))
      | REMOTE_PROC_NETWORK_GET_AUTOSTART \<Rightarrow>
          Some (map_option (remoteDispatchNetworkGetAutostart E client req)
                  (xdr_remote_network_get_autostart_args E payload))
      | REMOTE_PROC_NETWORK_GET_BRIDGE_NAME \<Rightarrow>
          Some (map_option (remoteDispatchNetworkGetBridgeName E client req)
                  (xdr_remote_network_get_bridge_name_args E payload))
      | REMOTE_PROC_NETWORK_LOOKUP_BY_NAME \<Rightarrow>
          Some (map_option (remoteDispatchNetworkLookupByName E client req)
                  (xdr_remote_network_lookup_by_name_args E payload))
      | REMOTE_PROC_NETWORK_LOOKUP_BY_UUID \<Rightarrow>
          Some (map_option (remoteDispatchNetworkLookupByUuid E client req)
                  (xdr_remote_network_lookup_by_uuid_args E payload))
      | REMOTE_PROC_NETWORK_SET_AUTOSTART \<Rightarrow>
          Some (map_option (remoteDispatchNetworkSetAutostart E client req)
                  (xdr_remote_network_set_autostart_args E payload))
      | REMOTE_PROC_NETWORK_UNDEFINE \<Rightarrow>
          Some (map_option (remoteDispatchNetworkUndefine E client req)
                  (xdr_remote_network_undefine_args E payload))
      | REMOTE_PROC_NUM_OF_DEFINED_NETWORKS \<Rightarrow>
          Some (map_option (\<lambda>u. remoteDispatchNumOfDefinedNetworks E client req) (xdr_void payload))
      | REMOTE_PROC_NUM_OF_DOMAINS \<Rightarrow>
          Some (map_option (\<lambda>u. remoteDispatchNumOfDomains E client req) (xdr_void payload))
      | REMOTE_PROC_NUM_OF_NETWORKS \<Rightarrow>
          Some (map_option (\<lambda>u. remoteDispatchNumOfNetworks E client req) (xdr_void payload))
      | REMOTE_PROC_AUTH_LIST \<Rightarrow>
          Some (map_option (\<lambda>u. remoteDispatchAuthList E client req) (xdr_void payload))
      | REMOTE_PROC_AUTH_SASL_INIT \<Rightarrow>
          Some (map_option (\<lambda>u. remoteDispatchAuthSaslInit E client req) (xdr_void payload))
      | REMOTE_PROC_AUTH_SASL_START \<Rightarrow>
          Some (map_option (remoteDispatchAuthSaslStart E client req)
                  (xdr_remote_auth_sasl_start_args E payload))
      | REMOTE_PROC_AUTH_SASL_STEP \<Rightarrow>
          Some (map_option (remoteDispatchAuthSaslStep E client req)
                  (xdr_remote_auth_sasl_step_args E payload))
      | REMOTE_PROC_UNKNOWN n \<Rightarrow> None)"

section \<open>The dispatcher\<close>

definition decode_header :: "qemud_buffer \<Rightarrow> remote_message_header option" where
  "decode_header b = (case b of BUF_CALL h p \<Rightarrow> h | _ \<Rightarrow> None)"

definition decode_payload :: "qemud_buffer \<Rightarrow> xdr_item list option" where
  "decode_payload b = (case b of BUF_CALL h p \<Rightarrow> p | _ \<Rightarrow> None)"

text \<open>The "Return header" block of \<^verbatim>\<open>remoteDispatchClientRequest\<close>.\<close>

definition reply_header :: "remote_message_header \<Rightarrow> int \<Rightarrow> remote_message_header" where
  "reply_header req rv =
     \<lparr>prog = prog req, vers = vers req, proc = proc req, direction = REMOTE_REPLY,
      serial = serial req, status = (if rv = 0 then REMOTE_OK else REMOTE_ERROR)\<rparr>"

text \<open>The error body built from the last error of the library, or synthesised when it is \<^verbatim>\<open>NULL\<close>.\<close>

definition library_error :: "virError option \<Rightarrow> remote_error" where
  "library_error verr =
     (case verr of
        Some v \<Rightarrow>
          \<lparr>err_code = verr_code v, err_domain = verr_domain v, err_message = verr_message v,
           err_level = verr_level v,
           err_dom = (case verr_dom v of
                        None \<Rightarrow> None
                      | Some d \<Rightarrow> Some \<lparr>rd_name = vd_name d, rd_uuid = vd_uuid d, rd_id = vd_id d\<rparr>),
           err_str1 = verr_str1 v, err_str2 = verr_str2 v, err_str3 = verr_str3 v,
           err_int1 = verr_int1 v, err_int2 = verr_int2 v,
           err_net = (case verr_net v of
                        None \<Rightarrow> None
                      | Some n \<Rightarrow> Some \<lparr>rn_name = vn_name n, rn_uuid = vn_uuid n\<rparr>)\<rparr>
      | None \<Rightarrow>
          dispatch_error VIR_ERR_RPC
            ''remoteDispatchClientRequest: internal error: library function returned error but did not set virterror'')"

text \<open>"Write the length word" and "Set up the output buffer".\<close>

definition write_length ::
  "env \<Rightarrow> qemud_client \<Rightarrow> remote_message_header \<Rightarrow> remote_message_header \<Rightarrow> reply_body \<Rightarrow> qemud_client" where
  "write_length E client req rep body =
     (let len = xdr_getpos (xdr E) rep body
      in if \<not> xdr_setpos (xdr E)
         then remoteDispatchError E (client\<lparr>buffer := BUF_PARTIAL\<rparr>) (Some req) ''xdr_setpos''
         else if \<not> xdr_int (xdr E) len
         then remoteDispatchError E (client\<lparr>buffer := BUF_PARTIAL\<rparr>) (Some req) ''serialise return length''
         else tx_packet client len rep body)"

text \<open>
  \<^verbatim>\<open>remoteDispatchClientRequest\<close>, from the code the handler returned to the end of the
  function.
\<close>

definition dispatch_return ::
  "env \<Rightarrow> qemud_client \<Rightarrow> remote_message_header \<Rightarrow> int \<Rightarrow> remote_ret \<Rightarrow> qemud_client" where
  "dispatch_return E client req rv ret =
     (if rv < - 2 \<or> rv > 0
      then remoteDispatchError E client (Some req)
             ''internal error - dispatch function returned invalid code %d''
      else if rv = - 2 then client
      else
        let rep = reply_header req rv
        in if \<not> xdr_int (xdr E) 0 then remoteDispatchError E client (Some req) ''dummy length''
           else if \<not> xdr_remote_message_header (xdr E) rep
           then remoteDispatchError E (client\<lparr>buffer := BUF_PARTIAL\<rparr>) (Some req) ''serialise reply header''
           else if rv = 0
           then (if \<not> ret_filter (xdr E) ret
                 then remoteDispatchError E (client\<lparr>buffer := BUF_PARTIAL\<rparr>) (Some req)
                        ''serialise return struct''
                 else write_length E client req rep (REPLY_RET ret))
           else
             let (verr, client) =
                   (case conn client of
                      Some c \<Rightarrow> hyp_err E client (LibCall ''virConnGetLastError'' [A_conn c])
                    | None \<Rightarrow> hyp_err E client (LibCall ''virGetLastError'' []));
                 error = library_error verr
             in if \<not> xdr_remote_error (xdr E) error
                then remoteDispatchError E (client\<lparr>buffer := BUF_PARTIAL\<rparr>) (Some req)
                       ''serialise return error''
                else write_length E client req rep (REPLY_ERROR error))"

text \<open>
  \<^verbatim>\<open>remoteDispatchClientRequest\<close>, from the switch on the procedure number to the call
  of the handler. The arguments are decoded after the switch has chosen the filter
  (event \<open>XDR_ARGS\<close>); the code of the handler is the event \<open>FN\<close>.
\<close>

definition call_procedure ::
  "env \<Rightarrow> qemud_client \<Rightarrow> remote_message_header \<Rightarrow> xdr_item list option \<Rightarrow> qemud_client" where
  "call_procedure E client req payload =
     (case proc_switch E (observe client (XDR_ARGS (proc req))) req payload of
        None \<Rightarrow> remoteDispatchError E client (Some req) ''unknown procedure: %d''
      | Some None \<Rightarrow>
          remoteDispatchError E (observe client (XDR_ARGS (proc req))) (Some req) ''parse args failed''
      | Some (Some (rv, ret, client)) \<Rightarrow>
          dispatch_return E (observe client (FN (proc req) rv)) req rv ret)"

text \<open>
  \<^verbatim>\<open>remoteDispatchClientRequest\<close>: the envelope is parsed and checked, then the
  authentication gate, then the procedure is called.
\<close>

definition remoteDispatchClientRequest :: "env \<Rightarrow> qemud_client \<Rightarrow> qemud_client" where
  "remoteDispatchClientRequest E client =
     (case decode_header (buffer client) of
        None \<Rightarrow> remoteDispatchError E client None ''xdr_remote_message_header''
      | Some req \<Rightarrow>
          if prog req \<noteq> REMOTE_PROGRAM (protocol E)
          then remoteDispatchError E client (Some req) ''program mismatch (actual %x, expected %x)''
          else if vers req \<noteq> REMOTE_PROTOCOL_VERSION (protocol E)
          then remoteDispatchError E client (Some req) ''version mismatch (actual %x, expected %x)''
          else if direction req \<noteq> REMOTE_CALL
          then remoteDispatchError E client (Some req) ''direction (%d) != REMOTE_CALL''
          else if status req \<noteq> REMOTE_OK
          then remoteDispatchError E client (Some req) ''status (%d) != REMOTE_OK''
          else if auth client \<noteq> REMOTE_AUTH_NONE \<and>
                  proc req \<noteq> REMOTE_PROC_AUTH_LIST \<and>
                  proc req \<noteq> REMOTE_PROC_AUTH_SASL_INIT \<and>
                  proc req \<noteq> REMOTE_PROC_AUTH_SASL_START \<and>
                  proc req \<noteq> REMOTE_PROC_AUTH_SASL_STEP
          then remoteDispatchError E client (Some req) ''authentication required''
          else call_procedure E client req (decode_payload (buffer client)))"

section \<open>A session over several requests\<close>

text \<open>
  Modelled from the spec: the transport (not part of the sources) calls the dispatcher
  when a full message has been accumulated into the session buffer. A request is the
  message and the collaborators as they answer while it is served.
\<close>

definition receive ::
  "qemud_client \<Rightarrow> remote_message_header option \<Rightarrow> xdr_item list option \<Rightarrow> qemud_client" where
  "receive client h p = client\<lparr>buffer := BUF_CALL h p, mode := QEMUD_MODE_RX\<rparr>"

fun serve ::
  "qemud_client \<Rightarrow> (env \<times> remote_message_header option \<times> xdr_item list option) list \<Rightarrow> qemud_client" where
  "serve client [] = client"
| "serve client ((E, h, p) # rs) = serve (remoteDispatchClientRequest E (receive client h p)) rs"

text \<open>
  Whether, by the history, an \<^verbatim>\<open>OPEN\<close> has succeeded and no \<^verbatim>\<open>CLOSE\<close> has succeeded
  since: the last handler of one of the two that returned 0 was that of \<^verbatim>\<open>OPEN\<close>.
\<close>

definition opened_step :: "bool \<Rightarrow> event \<Rightarrow> bool" where
  "opened_step b ev =
     (if ev = FN REMOTE_PROC_OPEN 0 then True
      else if ev = FN REMOTE_PROC_CLOSE 0 then False
      else b)"

definition opened :: "event list \<Rightarrow> bool" where
  "opened evs = foldl opened_step False evs"


section \<open>Notions used by the theorems\<close>

text \<open>
  All encoders accept the reply with envelope \<open>rep\<close> and body \<open>body\<close>: the five steps
  that frame a reply in the session buffer.
\<close>

definition reply_fits :: "env \<Rightarrow> remote_message_header \<Rightarrow> reply_body \<Rightarrow> bool" where
  "reply_fits E rep body =
     (xdr_int (xdr E) 0 \<and> xdr_remote_message_header (xdr E) rep \<and>
      (case body of
         REPLY_RET ret \<Rightarrow> ret_filter (xdr E) ret
       | REPLY_ERROR e \<Rightarrow> xdr_remote_error (xdr E) e) \<and>
      xdr_setpos (xdr E) \<and> xdr_int (xdr E) (xdr_getpos (xdr E) rep body))"

text \<open>A buffer that holds a reply holds one that echoes the envelope of the call \<open>req\<close>.\<close>

definition echoes :: "remote_message_header \<Rightarrow> qemud_buffer \<Rightarrow> bool" where
  "echoes req b =
     (case b of
        BUF_REPLY len rep body \<Rightarrow>
          prog rep = prog req \<and> vers rep = vers req \<and> proc rep = proc req \<and>
          serial rep = serial req \<and> direction rep = REMOTE_REPLY
      | _ \<Rightarrow> True)"

text \<open>
  What every handler but those of \<^verbatim>\<open>OPEN\<close> and \<^verbatim>\<open>CLOSE\<close> guarantees: the connection
  slot is untouched, and a reply it has put in the buffer echoes the call.
\<close>

definition quiet :: "remote_message_header \<Rightarrow> qemud_client \<Rightarrow> dispatch_result \<Rightarrow> bool" where
  "quiet req c r =
     (case r of (rv, ret, c') \<Rightarrow>
        conn c' = conn c \<and> opened (history c') = opened (history c) \<and>
        (\<not> echoes req (buffer c) \<or> echoes req (buffer c')))"

text \<open>
  The connection slot is non-null exactly when, by the history, an \<^verbatim>\<open>OPEN\<close> has
  succeeded and no \<^verbatim>\<open>CLOSE\<close> has succeeded since.
\<close>

definition slot_invariant :: "qemud_client \<Rightarrow> bool" where
  "slot_invariant c = ((conn c \<noteq> None) = opened (history c))"

text \<open>The number of times the history releases the domain handle \<open>d\<close>.\<close>

definition releases :: "virDomain \<Rightarrow> event list \<Rightarrow> nat" where
  "releases d evs = length (filter (\<lambda>ev. ev = HYP (LibCall ''virDomainFree'' [A_dom d])) evs)"

text \<open>The allocations of a history, in order.\<close>

definition allocations :: "event list \<Rightarrow> alloc list" where
  "allocations evs = concat (map (\<lambda>ev. case ev of ALLOC a \<Rightarrow> [a] | _ \<Rightarrow> []) evs)"

text \<open>
  The number of times the history looks the handle \<open>a\<close> up on the connection \<open>cn\<close>
  (\<^verbatim>\<open>get_nonnull_domain\<close>, \<^verbatim>\<open>get_nonnull_network\<close>), and the number of times it releases a
  network handle.
\<close>

definition lookups :: "virConnectPtr \<Rightarrow> remote_nonnull_domain \<Rightarrow> event list \<Rightarrow> nat" where
  "lookups cn a evs =
     length (filter (\<lambda>ev. ev = HYP (LibCall ''virGetDomain'' [A_conn cn, A_str (rd_name a), A_bytes (rd_uuid a)])) evs)"

definition net_lookups :: "virConnectPtr \<Rightarrow> remote_nonnull_network \<Rightarrow> event list \<Rightarrow> nat" where
  "net_lookups cn a evs =
     length (filter (\<lambda>ev. ev = HYP (LibCall ''virGetNetwork'' [A_conn cn, A_str (rn_name a), A_bytes (rn_uuid a)])) evs)"

definition net_releases :: "virNetwork \<Rightarrow> event list \<Rightarrow> nat" where
  "net_releases n evs = length (filter (\<lambda>ev. ev = HYP (LibCall ''virNetworkFree'' [A_net n])) evs)"

text \<open>
  A handler is balanced on a domain (a network) when it has released the handle as many
  times as it has looked it up, the library answering the lookup with \<open>d\<close>.
\<close>

definition balanced ::
  "virConnectPtr \<Rightarrow> remote_nonnull_domain \<Rightarrow> virDomain \<Rightarrow> qemud_client \<Rightarrow> dispatch_result \<Rightarrow> bool" where
  "balanced cn a d c r =
     (case r of (rv, ret, c') \<Rightarrow>
        releases (d\<lparr>vd_id := rd_id a\<rparr>) (history c') + lookups cn a (history c) =
        lookups cn a (history c') + releases (d\<lparr>vd_id := rd_id a\<rparr>) (history c))"

definition net_balanced ::
  "virConnectPtr \<Rightarrow> remote_nonnull_network \<Rightarrow> virNetwork \<Rightarrow> qemud_client \<Rightarrow> dispatch_result \<Rightarrow> bool" where
  "net_balanced cn a n c r =
     (case r of (rv, ret, c') \<Rightarrow>
        net_releases n (history c') + net_lookups cn a (history c) =
        net_lookups cn a (history c') + net_releases n (history c))"

subsection \<open>A concrete session, for the examples\<close>

definition example_protocol :: remote_protocol where
  "example_protocol =
     \<lparr>REMOTE_PROGRAM = 536903814, REMOTE_PROTOCOL_VERSION = 1,
      REMOTE_DOMAIN_ID_LIST_MAX = 16384, REMOTE_DOMAIN_NAME_LIST_MAX = 1024,
      REMOTE_NETWORK_NAME_LIST_MAX = 256, REMOTE_VCPUINFO_MAX = 2048,
      REMOTE_CPUMAPS_MAX = 16384, REMOTE_CPUMAP_MAX = 256,
      REMOTE_DOMAIN_SCHEDULER_PARAMETERS_MAX = 16, REMOTE_AUTH_SASL_DATA_MAX = 65536,
      VIR_CONNECT_RO = 1, VIR_DOMAIN_SCHED_FIELD_LENGTH = 80\<rparr>"

definition example_domain :: virDomain where
  "example_domain = \<lparr>vd_name = ''guest'', vd_uuid = ''0123456789abcdef'', vd_id = 1\<rparr>"

definition example_network :: virNetwork where
  "example_network = \<lparr>vn_name = ''default'', vn_uuid = ''fedcba9876543210''\<rparr>"

text \<open>A library in which every operation succeeds.\<close>

definition example_hyp :: hypervisor where
  "example_hyp =
     \<lparr>lib_int = (\<lambda>call. 0),
      lib_str = (\<lambda>call. Some ''qemu''),
      lib_conn = (\<lambda>call. Some 1),
      lib_dom = (\<lambda>call. Some example_domain),
      lib_net = (\<lambda>call. Some example_network),
      lib_err = (\<lambda>call. None),
      out_int = (\<lambda>call. 0),
      out_node_info = (\<lambda>call. (''x86_64'', 1024, 1, 1000, 1, 1, 1, 1)),
      out_domain_info = (\<lambda>call. (1, 1024, 1024, 1, 0)),
      out_block_stats = (\<lambda>call. (0, 0, 0, 0, 0)),
      out_interface_stats = (\<lambda>call. (0, 0, 0, 0, 0, 0, 0, 0)),
      out_vcpu_info = (\<lambda>call. []),
      out_params = (\<lambda>call. []),
      out_bytes = (\<lambda>call. []),
      out_opt_bytes = (\<lambda>call. None),
      out_names = (\<lambda>call. []),
      out_ids = (\<lambda>call. []),
      out_uri = (\<lambda>call. None)\<rparr>"

definition example_sasl :: sasl_library where
  "example_sasl =
     \<lparr>sasl_err = (\<lambda>call. SASL_OK),
      sasl_new_conn = (\<lambda>call. Some 7),
      sasl_mechlist = (\<lambda>call. ''ANONYMOUS''),
      sasl_serverout = (\<lambda>call. None),
      sasl_serveroutlen = (\<lambda>call. 0)\<rparr>"

definition example_libc :: c_library where
  "example_libc =
     \<lparr>alloc_ok = (\<lambda>a. True),
      getsockname = (\<lambda>fd. Some ''local''),
      getpeername = (\<lambda>fd. Some ''peer''),
      getnameinfo = (\<lambda>sa. Some (''127.0.0.1'', ''16509''))\<rparr>"

definition example_xdr :: xdr_encoder where
  "example_xdr =
     \<lparr>xdr_int = (\<lambda>n. True),
      xdr_remote_message_header = (\<lambda>h. True),
      xdr_remote_error = (\<lambda>e. True),
      ret_filter = (\<lambda>r. True),
      xdr_getpos = (\<lambda>rep body. 28),
      xdr_setpos = True\<rparr>"

definition example_env :: env where
  "example_env =
     \<lparr>protocol = example_protocol, hyp = example_hyp, sasl = example_sasl,
      libc = example_libc, xdr = example_xdr\<rparr>"

text \<open>A call with a valid envelope and serial 42.\<close>

definition example_call :: "remote_procedure \<Rightarrow> remote_message_header" where
  "example_call p =
     \<lparr>prog = 536903814, vers = 1, proc = p, direction = REMOTE_CALL, serial = 42,
      status = REMOTE_OK\<rparr>"

text \<open>A session that has just received the message \<open>h\<close>, \<open>p\<close>.\<close>

definition example_client :: "remote_message_header option \<Rightarrow> xdr_item list option \<Rightarrow> qemud_client" where
  "example_client h p =
     \<lparr>conn = None, auth = REMOTE_AUTH_NONE, saslconn = None, readonly = False, tls = False,
      fd = 3, mode = QEMUD_MODE_RX, tls_direction = QEMUD_TLS_DIRECTION_READ,
      buffer = BUF_CALL h p, bufferLength = 0, bufferOffset = 0, history = []\<rparr>"

text \<open>A library in which every operation fails with -1.\<close>

definition failing_hyp :: hypervisor where
  "failing_hyp = example_hyp\<lparr>lib_int := (\<lambda>call. - 1)\<rparr>"

text \<open>The handle of the example domain as a client sends it.\<close>

definition example_remote_domain :: remote_nonnull_domain where
  "example_remote_domain = \<lparr>rd_name = ''guest'', rd_uuid = ''0123456789abcdef'', rd_id = 1\<rparr>"

text \<open>A library whose scheduler reports one parameter of a type that is none of the six.\<close>

definition unknown_hyp :: hypervisor where
  "unknown_hyp = example_hyp\<lparr>out_params :=
     (\<lambda>call. [\<lparr>sp_field = ''weight'', sp_type = VIR_DOMAIN_SCHED_FIELD_UNKNOWN 7, sp_value = no_value\<rparr>])\<rparr>"

definition unknown_env :: env where
  "unknown_env = example_env\<lparr>hyp := unknown_hyp\<rparr>"

text \<open>The same parameter as a client would send it.\<close>

definition unknown_remote_param :: remote_sched_param where
  "unknown_remote_param =
     \<lparr>rsp_field = ''weight'', rsp_type = VIR_DOMAIN_SCHED_FIELD_UNKNOWN 7, rsp_value_u = no_value\<rparr>"

section \<open>Basic facts\<close>

lemma observe_simps [simp]:
  "conn (observe c e) = conn c"
  "auth (observe c e) = auth c"
  "saslconn (observe c e) = saslconn c"
  "readonly (observe c e) = readonly c"
  "tls (observe c e) = tls c"
  "fd (observe c e) = fd c"
  "mode (observe c e) = mode c"
  "tls_direction (observe c e) = tls_direction c"
  "buffer (observe c e) = buffer c"
  "bufferLength (observe c e) = bufferLength c"
  "bufferOffset (observe c e) = bufferOffset c"
  "history (observe c e) = history c @ [e]"
  by (simp_all add: observe_def)

lemmas prim_defs =
  hyp_int_def hyp_str_def hyp_conn_def hyp_dom_def hyp_net_def hyp_err_def
  virDomainFree_def virNetworkFree_def allocate_def allocate_unchecked_def sasl_invoke_def
  get_nonnull_domain_def get_nonnull_network_def make_nonnull_domain_def make_nonnull_network_def

lemmas example_defs =
  example_env_def example_protocol_def example_hyp_def example_sasl_def example_libc_def
  example_xdr_def example_call_def example_client_def example_domain_def example_network_def

lemma sendError_frame [simp]:
  "conn (remoteDispatchSendError E c req code msg) = conn c"
  "auth (remoteDispatchSendError E c req code msg) = auth c"
  "saslconn (remoteDispatchSendError E c req code msg) = saslconn c"
  "readonly (remoteDispatchSendError E c req code msg) = readonly c"
  "tls (remoteDispatchSendError E c req code msg) = tls c"
  "fd (remoteDispatchSendError E c req code msg) = fd c"
  "history (remoteDispatchSendError E c req code msg) = history c"
  by (simp_all add: remoteDispatchSendError_def tx_packet_def Let_def)

lemma error_frame [simp]:
  "conn (remoteDispatchError E c req msg) = conn c"
  "auth (remoteDispatchError E c req msg) = auth c"
  "saslconn (remoteDispatchError E c req msg) = saslconn c"
  "readonly (remoteDispatchError E c req msg) = readonly c"
  "tls (remoteDispatchError E c req msg) = tls c"
  "fd (remoteDispatchError E c req msg) = fd c"
  "history (remoteDispatchError E c req msg) = history c"
  "conn (remoteDispatchFailAuth E c req) = conn c"
  "auth (remoteDispatchFailAuth E c req) = auth c"
  "saslconn (remoteDispatchFailAuth E c req) = saslconn c"
  "readonly (remoteDispatchFailAuth E c req) = readonly c"
  "tls (remoteDispatchFailAuth E c req) = tls c"
  "fd (remoteDispatchFailAuth E c req) = fd c"
  "history (remoteDispatchFailAuth E c req) = history c"
  by (simp_all add: remoteDispatchError_def remoteDispatchFailAuth_def)

text \<open>When the encoders accept the error reply it is framed and the session turns to sending.\<close>

lemma sendError_sent:
  assumes "reply_fits E (error_header E req) (REPLY_ERROR (dispatch_error code msg))"
  shows "remoteDispatchSendError E c req code msg =
           tx_packet c (xdr_getpos (xdr E) (error_header E req) (REPLY_ERROR (dispatch_error code msg)))
             (error_header E req) (REPLY_ERROR (dispatch_error code msg))"
  using assms by (simp add: remoteDispatchSendError_def reply_fits_def Let_def)

text \<open>When one of them refuses, nothing is sent: the mode stays and the buffer holds no reply of this call.\<close>

lemma sendError_unsent:
  assumes "\<not> reply_fits E (error_header E req) (REPLY_ERROR (dispatch_error code msg))"
  shows "mode (remoteDispatchSendError E c req code msg) = mode c \<and>
         (buffer (remoteDispatchSendError E c req code msg) = buffer c \<or>
          buffer (remoteDispatchSendError E c req code msg) = BUF_PARTIAL)"
  using assms by (auto simp add: remoteDispatchSendError_def reply_fits_def Let_def)

text \<open>Whatever reply \<^verbatim>\<open>remoteDispatchSendError\<close> leaves in the buffer is an error reply with its envelope.\<close>

lemma sendError_reply:
  assumes "buffer (remoteDispatchSendError E c req code msg) = BUF_REPLY len rep body"
      and "buffer c \<noteq> BUF_REPLY len rep body"
  shows "rep = error_header E req \<and> body = REPLY_ERROR (dispatch_error code msg)"
  using assms
  by (auto simp add: remoteDispatchSendError_def tx_packet_def Let_def split: if_splits)

lemma sendError_echoes [simp]:
  "echoes req (buffer c) \<Longrightarrow> echoes req (buffer (remoteDispatchSendError E c (Some req) code msg))"
  by (simp add: remoteDispatchSendError_def tx_packet_def Let_def echoes_def error_header_def)

lemma error_echoes [simp]:
  "echoes req (buffer c) \<Longrightarrow> echoes req (buffer (remoteDispatchError E c (Some req) msg))"
  "echoes req (buffer c) \<Longrightarrow> echoes req (buffer (remoteDispatchFailAuth E c (Some req)))"
  by (simp_all add: remoteDispatchError_def remoteDispatchFailAuth_def)

lemma echoes_simps [simp]:
  "echoes req (BUF_CALL h p)"
  "echoes req BUF_PARTIAL"
  by (simp_all add: echoes_def)

lemma opened_append [simp]: "opened (evs @ evs') = foldl opened_step (opened evs) evs'"
  by (simp add: opened_def)

lemma opened_step_simps [simp]:
  "opened_step b (HYP call) = b"
  "opened_step b (SASL s) = b"
  "opened_step b (ALLOC a) = b"
  "opened_step b (XDR_ARGS p) = b"
  by (simp_all add: opened_step_def)

section \<open>Errors before the envelope is known\<close>

text \<open>
  C10. When the envelope of the request fails to decode, the dispatcher sends
  (\<^verbatim>\<open>remoteDispatchSendError\<close> with no request) an RPC error with the message
  \<^verbatim>\<open>xdr_remote_message_header\<close>; a reply it leaves in the buffer has the synthesised
  envelope: program \<^verbatim>\<open>REMOTE_PROGRAM\<close>, version \<^verbatim>\<open>REMOTE_PROTOCOL_VERSION\<close>, procedure
  \<^verbatim>\<open>OPEN\<close>, direction \<^verbatim>\<open>REPLY\<close>, serial 1, status \<^verbatim>\<open>ERROR\<close>; and the reply is sent whenever
  the encoders accept it.
\<close>

theorem blind_error_envelope:
  assumes "buffer client = BUF_CALL None payload"
  shows "remoteDispatchClientRequest E client =
           remoteDispatchSendError E client None VIR_ERR_RPC ''xdr_remote_message_header'' \<and>
         (\<forall>len rep body.
            buffer (remoteDispatchClientRequest E client) = BUF_REPLY len rep body \<longrightarrow>
              rep = \<lparr>prog = REMOTE_PROGRAM (protocol E), vers = REMOTE_PROTOCOL_VERSION (protocol E),
                     proc = REMOTE_PROC_OPEN, direction = REMOTE_REPLY, serial = 1,
                     status = REMOTE_ERROR\<rparr> \<and>
              body = REPLY_ERROR (dispatch_error VIR_ERR_RPC ''xdr_remote_message_header'')) \<and>
         (reply_fits E (error_header E None)
            (REPLY_ERROR (dispatch_error VIR_ERR_RPC ''xdr_remote_message_header'')) \<longrightarrow>
            mode (remoteDispatchClientRequest E client) = QEMUD_MODE_TX_PACKET \<and>
            (\<exists>len. buffer (remoteDispatchClientRequest E client) =
                     BUF_REPLY len
                       \<lparr>prog = REMOTE_PROGRAM (protocol E), vers = REMOTE_PROTOCOL_VERSION (protocol E),
                        proc = REMOTE_PROC_OPEN, direction = REMOTE_REPLY, serial = 1,
                        status = REMOTE_ERROR\<rparr>
                       (REPLY_ERROR (dispatch_error VIR_ERR_RPC ''xdr_remote_message_header''))))"
proof -
  let ?c = "remoteDispatchSendError E client None VIR_ERR_RPC ''xdr_remote_message_header''"
  have run: "remoteDispatchClientRequest E client = ?c"
    using assms by (simp add: remoteDispatchClientRequest_def decode_header_def remoteDispatchError_def)
  have any: "rep = error_header E None \<and>
             body = REPLY_ERROR (dispatch_error VIR_ERR_RPC ''xdr_remote_message_header'')"
    if "buffer ?c = BUF_REPLY len rep body" for len rep body
    using sendError_reply [OF that] assms by simp
  have sent: "mode ?c = QEMUD_MODE_TX_PACKET \<and>
              (\<exists>len. buffer ?c = BUF_REPLY len (error_header E None)
                        (REPLY_ERROR (dispatch_error VIR_ERR_RPC ''xdr_remote_message_header'')))"
    if "reply_fits E (error_header E None)
          (REPLY_ERROR (dispatch_error VIR_ERR_RPC ''xdr_remote_message_header''))"
    using sendError_sent [OF that, of client] by (simp add: tx_packet_def)
  show ?thesis
    using run any sent by (simp add: error_header_def)
qed

theorem blind_error_envelope_witness:
  "buffer (example_client None None) = BUF_CALL None None \<and>
   mode (remoteDispatchClientRequest example_env (example_client None None)) = QEMUD_MODE_TX_PACKET \<and>
   (\<exists>len. buffer (remoteDispatchClientRequest example_env (example_client None None)) =
           BUF_REPLY len
             \<lparr>prog = 536903814, vers = 1, proc = REMOTE_PROC_OPEN, direction = REMOTE_REPLY,
              serial = 1, status = REMOTE_ERROR\<rparr>
             (REPLY_ERROR (dispatch_error VIR_ERR_RPC ''xdr_remote_message_header'')))"
proof -
  have h: "buffer (example_client None None) = BUF_CALL None None"
    by (simp add: example_client_def)
  have fits: "reply_fits example_env (error_header example_env None)
                (REPLY_ERROR (dispatch_error VIR_ERR_RPC ''xdr_remote_message_header''))"
    by (simp add: reply_fits_def example_env_def example_xdr_def)
  have p: "REMOTE_PROGRAM (protocol example_env) = 536903814"
          "REMOTE_PROTOCOL_VERSION (protocol example_env) = 1"
    by (simp_all add: example_env_def example_protocol_def)
  from blind_error_envelope [OF h, of example_env] fits
  have "mode (remoteDispatchClientRequest example_env (example_client None None)) = QEMUD_MODE_TX_PACKET \<and>
        (\<exists>len. buffer (remoteDispatchClientRequest example_env (example_client None None)) =
           BUF_REPLY len
             \<lparr>prog = REMOTE_PROGRAM (protocol example_env),
              vers = REMOTE_PROTOCOL_VERSION (protocol example_env),
              proc = REMOTE_PROC_OPEN, direction = REMOTE_REPLY,
              serial = 1, status = REMOTE_ERROR\<rparr>
             (REPLY_ERROR (dispatch_error VIR_ERR_RPC ''xdr_remote_message_header'')))"
    by blast
  then show ?thesis using h by (simp only: p) 
qed

section \<open>What every handler leaves alone\<close>

lemma quiet_SupportsFeature: "quiet req c (remoteDispatchSupportsFeature E c req a)"
  by (simp add: quiet_def remoteDispatchSupportsFeature_def CHECK_CONN_def prim_defs Let_def
           split: option.split prod.split)

lemma quiet_GetType: "quiet req c (remoteDispatchGetType E c req)"
  by (simp add: quiet_def remoteDispatchGetType_def CHECK_CONN_def prim_defs Let_def
           split: option.split prod.split)

lemma quiet_GetVersion: "quiet req c (remoteDispatchGetVersion E c req)"
  by (simp add: quiet_def remoteDispatchGetVersion_def CHECK_CONN_def prim_defs Let_def
           split: option.split prod.split)

lemma quiet_GetHostname: "quiet req c (remoteDispatchGetHostname E c req)"
  by (simp add: quiet_def remoteDispatchGetHostname_def CHECK_CONN_def prim_defs Let_def
           split: option.split prod.split)

lemma quiet_GetMaxVcpus: "quiet req c (remoteDispatchGetMaxVcpus E c req a)"
  by (simp add: quiet_def remoteDispatchGetMaxVcpus_def CHECK_CONN_def prim_defs Let_def
           split: option.split prod.split)

lemma quiet_NodeGetInfo: "quiet req c (remoteDispatchNodeGetInfo E c req)"
  by (simp add: quiet_def remoteDispatchNodeGetInfo_def CHECK_CONN_def prim_defs Let_def
           split: option.split prod.split)

lemma quiet_GetCapabilities: "quiet req c (remoteDispatchGetCapabilities E c req)"
  by (simp add: quiet_def remoteDispatchGetCapabilities_def CHECK_CONN_def prim_defs Let_def
           split: option.split prod.split)

lemma quiet_DomainGetSchedulerType: "quiet req c (remoteDispatchDomainGetSchedulerType E c req a)"
  by (simp add: quiet_def remoteDispatchDomainGetSchedulerType_def CHECK_CONN_def prim_defs Let_def
           split: option.split prod.split)

lemma quiet_DomainSetSchedulerParameters: "quiet req c (remoteDispatchDomainSetSchedulerParameters E c req a)"
  by (simp add: quiet_def remoteDispatchDomainSetSchedulerParameters_def CHECK_CONN_def prim_defs Let_def
           split: option.split prod.split)

lemma quiet_DomainBlockStats: "quiet req c (remoteDispatchDomainBlockStats E c req a)"
  by (simp add: quiet_def remoteDispatchDomainBlockStats_def CHECK_CONN_def prim_defs Let_def
           split: option.split prod.split)

lemma quiet_DomainInterfaceStats: "quiet req c (remoteDispatchDomainInterfaceStats E c req a)"
  by (simp add: quiet_def remoteDispatchDomainInterfaceStats_def CHECK_CONN_def prim_defs Let_def
           split: option.split prod.split)

lemma quiet_DomainAttachDevice: "quiet req c (remoteDispatchDomainAttachDevice E c req a)"
  by (simp add: quiet_def remoteDispatchDomainAttachDevice_def CHECK_CONN_def prim_defs Let_def
           split: option.split prod.split)

lemma quiet_DomainCreate: "quiet req c (remoteDispatchDomainCreate E c req a)"
  by (simp add: quiet_def remoteDispatchDomainCreate_def CHECK_CONN_def prim_defs Let_def
           split: option.split prod.split)

lemma quiet_DomainCreateLinux: "quiet req c (remoteDispatchDomainCreateLinux E c req a)"
  by (simp add: quiet_def remoteDispatchDomainCreateLinux_def CHECK_CONN_def prim_defs Let_def
           split: option.split prod.split)

lemma quiet_DomainDefineXml: "quiet req c (remoteDispatchDomainDefineXml E c req a)"
  by (simp add: quiet_def remoteDispatchDomainDefineXml_def CHECK_CONN_def prim_defs Let_def
           split: option.split prod.split)

lemma quiet_DomainDestroy: "quiet req c (remoteDispatchDomainDestroy E c req a)"
  by (simp add: quiet_def remoteDispatchDomainDestroy_def CHECK_CONN_def prim_defs Let_def
           split: option.split prod.split)

lemma quiet_DomainDetachDevice: "quiet req c (remoteDispatchDomainDetachDevice E c req a)"
  by (simp add: quiet_def remoteDispatchDomainDetachDevice_def CHECK_CONN_def prim_defs Let_def
           split: option.split prod.split)

lemma quiet_DomainDumpXml: "quiet req c (remoteDispatchDomainDumpXml E c req a)"
  by (simp add: quiet_def remoteDispatchDomainDumpXml_def CHECK_CONN_def prim_defs Let_def
           split: option.split prod.split)

lemma quiet_DomainGetAutostart: "quiet req c (remoteDispatchDomainGetAutostart E c req a)"
  by (simp add: quiet_def remoteDispatchDomainGetAutostart_def CHECK_CONN_def prim_defs Let_def
           split: option.split prod.split)

lemma quiet_DomainGetInfo: "quiet req c (remoteDispatchDomainGetInfo E c req a)"
  by (simp add: quiet_def remoteDispatchDomainGetInfo_def CHECK_CONN_def prim_defs Let_def
           split: option.split prod.split)

lemma quiet_DomainGetMaxMemory: "quiet req c (remoteDispatchDomainGetMaxMemory E c req a)"
  by (simp add: quiet_def remoteDispatchDomainGetMaxMemory_def CHECK_CONN_def prim_defs Let_def
           split: option.split prod.split)

lemma quiet_DomainGetMaxVcpus: "quiet req c (remoteDispatchDomainGetMaxVcpus E c req a)"
  by (simp add: quiet_def remoteDispatchDomainGetMaxVcpus_def CHECK_CONN_def prim_defs Let_def
           split: option.split prod.split)

lemma quiet_DomainGetOsType: "quiet req c (remoteDispatchDomainGetOsType E c req a)"
  by (simp add: quiet_def remoteDispatchDomainGetOsType_def CHECK_CONN_def prim_defs Let_def
           split: option.split prod.split)

lemma quiet_DomainGetVcpus: "quiet req c (remoteDispatchDomainGetVcpus E c req a)"
  by (simp add: quiet_def remoteDispatchDomainGetVcpus_def CHECK_CONN_def prim_defs Let_def
           split: option.split prod.split)

lemma quiet_DomainMigratePrepare: "quiet req c (remoteDispatchDomainMigratePrepare E c req a)"
  by (simp add: quiet_def remoteDispatchDomainMigratePrepare_def CHECK_CONN_def prim_defs Let_def
           split: option.split prod.split)

lemma quiet_DomainMigratePerform: "quiet req c (remoteDispatchDomainMigratePerform E c req a)"
  by (simp add: quiet_def remoteDispatchDomainMigratePerform_def CHECK_CONN_def prim_defs Let_def
           split: option.split prod.split)

lemma quiet_DomainMigrateFinish: "quiet req c (remoteDispatchDomainMigrateFinish E c req a)"
  by (simp add: quiet_def remoteDispatchDomainMigrateFinish_def CHECK_CONN_def prim_defs Let_def
           split: option.split prod.split)

lemma quiet_ListDefinedDomains: "quiet req c (remoteDispatchListDefinedDomains E c req a)"
  by (simp add: quiet_def remoteDispatchListDefinedDomains_def CHECK_CONN_def prim_defs Let_def
           split: option.split prod.split)

lemma quiet_DomainLookupById: "quiet req c (remoteDispatchDomainLookupById E c req a)"
  by (simp add: quiet_def remoteDispatchDomainLookupById_def CHECK_CONN_def prim_defs Let_def
           split: option.split prod.split)

lemma quiet_DomainLookupByName: "quiet req c (remoteDispatchDomainLookupByName E c req a)"
  by (simp add: quiet_def remoteDispatchDomainLookupByName_def CHECK_CONN_def prim_defs Let_def
           split: option.split prod.split)

lemma quiet_DomainLookupByUuid: "quiet req c (remoteDispatchDomainLookupByUuid E c req a)"
  by (simp add: quiet_def remoteDispatchDomainLookupByUuid_def CHECK_CONN_def prim_defs Let_def
           split: option.split prod.split)

lemma quiet_NumOfDefinedDomains: "quiet req c (remoteDispatchNumOfDefinedDomains E c req)"
  by (simp add: quiet_def remoteDispatchNumOfDefinedDomains_def CHECK_CONN_def prim_defs Let_def
           split: option.split prod.split)

lemma quiet_DomainPinVcpu: "quiet req c (remoteDispatchDomainPinVcpu E c req a)"
  by (simp add: quiet_def remoteDispatchDomainPinVcpu_def CHECK_CONN_def prim_defs Let_def
           split: option.split prod.split)

lemma quiet_DomainReboot: "quiet req c (remoteDispatchDomainReboot E c req a)"
  by (simp add: quiet_def remoteDispatchDomainReboot_def CHECK_CONN_def prim_defs Let_def
           split: option.split prod.split)

lemma quiet_DomainRestore: "quiet req c (remoteDispatchDomainRestore E c req a)"
  by (simp add: quiet_def remoteDispatchDomainRestore_def CHECK_CONN_def prim_defs Let_def
           split: option.split prod.split)

lemma quiet_DomainResume: "quiet req c (remoteDispatchDomainResume E c req a)"
  by (simp add: quiet_def remoteDispatchDomainResume_def CHECK_CONN_def prim_defs Let_def
           split: option.split prod.split)

lemma quiet_DomainSave: "quiet req c (remoteDispatchDomainSave E c req a)"
  by (simp add: quiet_def remoteDispatchDomainSave_def CHECK_CONN_def prim_defs Let_def
           split: option.split prod.split)

lemma quiet_DomainCoreDump: "quiet req c (remoteDispatchDomainCoreDump E c req a)"
  by (simp add: quiet_def remoteDispatchDomainCoreDump_def CHECK_CONN_def prim_defs Let_def
           split: option.split prod.split)

lemma quiet_DomainSetAutostart: "quiet req c (remoteDispatchDomainSetAutostart E c req a)"
  by (simp add: quiet_def remoteDispatchDomainSetAutostart_def CHECK_CONN_def prim_defs Let_def
           split: option.split prod.split)

lemma quiet_DomainSetMaxMemory: "quiet req c (remoteDispatchDomainSetMaxMemory E c req a)"
  by (simp add: quiet_def remoteDispatchDomainSetMaxMemory_def CHECK_CONN_def prim_defs Let_def
           split: option.split prod.split)

lemma quiet_DomainSetMemory: "quiet req c (remoteDispatchDomainSetMemory E c req a)"
  by (simp add: quiet_def remoteDispatchDomainSetMemory_def CHECK_CONN_def prim_defs Let_def
           split: option.split prod.split)

lemma quiet_DomainSetVcpus: "quiet req c (remoteDispatchDomainSetVcpus E c req a)"
  by (simp add: quiet_def remoteDispatchDomainSetVcpus_def CHECK_CONN_def prim_defs Let_def
           split: option.split prod.split)

lemma quiet_DomainShutdown: "quiet req c (remoteDispatchDomainShutdown E c req a)"
  by (simp add: quiet_def remoteDispatchDomainShutdown_def CHECK_CONN_def prim_defs Let_def
           split: option.split prod.split)

lemma quiet_DomainSuspend: "quiet req c (remoteDispatchDomainSuspend E c req a)"
  by (simp add: quiet_def remoteDispatchDomainSuspend_def CHECK_CONN_def prim_defs Let_def
           split: option.split prod.split)

lemma quiet_DomainUndefine: "quiet req c (remoteDispatchDomainUndefine E c req a)"
  by (simp add: quiet_def remoteDispatchDomainUndefine_def CHECK_CONN_def prim_defs Let_def
           split: option.split prod.split)

lemma quiet_ListDefinedNetworks: "quiet req c (remoteDispatchListDefinedNetworks E c req a)"
  by (simp add: quiet_def remoteDispatchListDefinedNetworks_def CHECK_CONN_def prim_defs Let_def
           split: option.split prod.split)

lemma quiet_ListDomains: "quiet req c (remoteDispatchListDomains E c req a)"
  by (simp add: quiet_def remoteDispatchListDomains_def CHECK_CONN_def prim_defs Let_def
           split: option.split prod.split)

lemma quiet_ListNetworks: "quiet req c (remoteDispatchListNetworks E c req a)"
  by (simp add: quiet_def remoteDispatchListNetworks_def CHECK_CONN_def prim_defs Let_def
           split: option.split prod.split)

lemma quiet_NetworkCreate: "quiet req c (remoteDispatchNetworkCreate E c req a)"
  by (simp add: quiet_def remoteDispatchNetworkCreate_def CHECK_CONN_def prim_defs Let_def
           split: option.split prod.split)

lemma quiet_NetworkCreateXml: "quiet req c (remoteDispatchNetworkCreateXml E c req a)"
  by (simp add: quiet_def remoteDispatchNetworkCreateXml_def CHECK_CONN_def prim_defs Let_def
           split: option.split prod.split)

lemma quiet_NetworkDefineXml: "quiet req c (remoteDispatchNetworkDefineXml E c req a)"
  by (simp add: quiet_def remoteDispatchNetworkDefineXml_def CHECK_CONN_def prim_defs Let_def
           split: option.split prod.split)

lemma quiet_NetworkDestroy: "quiet req c (remoteDispatchNetworkDestroy E c req a)"
  by (simp add: quiet_def remoteDispatchNetworkDestroy_def CHECK_CONN_def prim_defs Let_def
           split: option.split prod.split)

lemma quiet_NetworkDumpXml: "quiet req c (remoteDispatchNetworkDumpXml E c req a)"
  by (simp add: quiet_def remoteDispatchNetworkDumpXml_def CHECK_CONN_def prim_defs Let_def
           split: option.split prod.split)

lemma quiet_NetworkGetAutostart: "quiet req c (remoteDispatchNetworkGetAutostart E c req a)"
  by (simp add: quiet_def remoteDispatchNetworkGetAutostart_def CHECK_CONN_def prim_defs Let_def
           split: option.split prod.split)

lemma quiet_NetworkGetBridgeName: "quiet req c (remoteDispatchNetworkGetBridgeName E c req a)"
  by (simp add: quiet_def remoteDispatchNetworkGetBridgeName_def CHECK_CONN_def prim_defs Let_def
           split: option.split prod.split)

lemma quiet_NetworkLookupByName: "quiet req c (remoteDispatchNetworkLookupByName E c req a)"
  by (simp add: quiet_def remoteDispatchNetworkLookupByName_def CHECK_CONN_def prim_defs Let_def
           split: option.split prod.split)

lemma quiet_NetworkLookupByUuid: "quiet req c (remoteDispatchNetworkLookupByUuid E c req a)"
  by (simp add: quiet_def remoteDispatchNetworkLookupByUuid_def CHECK_CONN_def prim_defs Let_def
           split: option.split prod.split)

lemma quiet_NetworkSetAutostart: "quiet req c (remoteDispatchNetworkSetAutostart E c req a)"
  by (simp add: quiet_def remoteDispatchNetworkSetAutostart_def CHECK_CONN_def prim_defs Let_def
           split: option.split prod.split)

lemma quiet_NetworkUndefine: "quiet req c (remoteDispatchNetworkUndefine E c req a)"
  by (simp add: quiet_def remoteDispatchNetworkUndefine_def CHECK_CONN_def prim_defs Let_def
           split: option.split prod.split)

lemma quiet_NumOfDefinedNetworks: "quiet req c (remoteDispatchNumOfDefinedNetworks E c req)"
  by (simp add: quiet_def remoteDispatchNumOfDefinedNetworks_def CHECK_CONN_def prim_defs Let_def
           split: option.split prod.split)

lemma quiet_NumOfDomains: "quiet req c (remoteDispatchNumOfDomains E c req)"
  by (simp add: quiet_def remoteDispatchNumOfDomains_def CHECK_CONN_def prim_defs Let_def
           split: option.split prod.split)

lemma quiet_NumOfNetworks: "quiet req c (remoteDispatchNumOfNetworks E c req)"
  by (simp add: quiet_def remoteDispatchNumOfNetworks_def CHECK_CONN_def prim_defs Let_def
           split: option.split prod.split)

lemma quiet_AuthList: "quiet req c (remoteDispatchAuthList E c req)"
  by (simp add: quiet_def remoteDispatchAuthList_def CHECK_CONN_def prim_defs Let_def
           split: option.split prod.split)

lemma quiet_AuthSaslInit: "quiet req c (remoteDispatchAuthSaslInit E c req)"
  by (simp add: quiet_def remoteDispatchAuthSaslInit_def CHECK_CONN_def addrToString_def prim_defs Let_def
           split: option.split prod.split)

lemma quiet_AuthSaslStart: "quiet req c (remoteDispatchAuthSaslStart E c req a)"
  by (simp add: quiet_def remoteDispatchAuthSaslStart_def CHECK_CONN_def sasl_answer_def prim_defs Let_def
           split: option.split prod.split)

lemma quiet_AuthSaslStep: "quiet req c (remoteDispatchAuthSaslStep E c req a)"
  by (simp add: quiet_def remoteDispatchAuthSaslStep_def CHECK_CONN_def sasl_answer_def prim_defs Let_def
           split: option.split prod.split)

lemma serialise_params_frame:
  "serialise_params E c ps = (r, c') \<Longrightarrow>
     conn c' = conn c \<and> buffer c' = buffer c \<and> opened (history c') = opened (history c)"
proof (induction ps arbitrary: c r c')
  case Nil
  then show ?case by simp
next
  case (Cons p ps)
  then show ?case
    by (fastforce simp add: prim_defs Let_def split: if_splits option.splits prod.splits sum.splits)
qed

lemma quiet_DomainGetSchedulerParameters:
  "quiet req c (remoteDispatchDomainGetSchedulerParameters E c req a)"
  by (auto simp add: quiet_def remoteDispatchDomainGetSchedulerParameters_def CHECK_CONN_def prim_defs Let_def
           split: option.split prod.split sum.split dest!: serialise_params_frame)

lemmas quiet_handlers =
  quiet_SupportsFeature quiet_GetType quiet_GetVersion
  quiet_GetHostname quiet_GetMaxVcpus quiet_NodeGetInfo
  quiet_GetCapabilities quiet_DomainGetSchedulerType quiet_DomainSetSchedulerParameters
  quiet_DomainBlockStats quiet_DomainInterfaceStats quiet_DomainAttachDevice
  quiet_DomainCreate quiet_DomainCreateLinux quiet_DomainDefineXml
  quiet_DomainDestroy quiet_DomainDetachDevice quiet_DomainDumpXml
  quiet_DomainGetAutostart quiet_DomainGetInfo quiet_DomainGetMaxMemory
  quiet_DomainGetMaxVcpus quiet_DomainGetOsType quiet_DomainGetVcpus
  quiet_DomainMigratePrepare quiet_DomainMigratePerform quiet_DomainMigrateFinish
  quiet_ListDefinedDomains quiet_DomainLookupById quiet_DomainLookupByName
  quiet_DomainLookupByUuid quiet_NumOfDefinedDomains quiet_DomainPinVcpu
  quiet_DomainReboot quiet_DomainRestore quiet_DomainResume
  quiet_DomainSave quiet_DomainCoreDump quiet_DomainSetAutostart
  quiet_DomainSetMaxMemory quiet_DomainSetMemory quiet_DomainSetVcpus
  quiet_DomainShutdown quiet_DomainSuspend quiet_DomainUndefine
  quiet_ListDefinedNetworks quiet_ListDomains quiet_ListNetworks
  quiet_NetworkCreate quiet_NetworkCreateXml quiet_NetworkDefineXml
  quiet_NetworkDestroy quiet_NetworkDumpXml quiet_NetworkGetAutostart
  quiet_NetworkGetBridgeName quiet_NetworkLookupByName quiet_NetworkLookupByUuid
  quiet_NetworkSetAutostart quiet_NetworkUndefine quiet_NumOfDefinedNetworks
  quiet_NumOfDomains quiet_NumOfNetworks quiet_AuthList
  quiet_AuthSaslInit quiet_AuthSaslStart quiet_AuthSaslStep
  quiet_DomainGetSchedulerParameters


lemma proc_switch_quiet:
  assumes "proc_switch E c req payload = Some (Some r)"
      and "proc req \<noteq> REMOTE_PROC_OPEN" and "proc req \<noteq> REMOTE_PROC_CLOSE"
  shows "quiet req c r"
  using assms unfolding proc_switch_def
  by (cases "proc req") (auto simp add: quiet_handlers)

section \<open>The connection slot\<close>

lemma open_slot:
  "remoteDispatchOpen E c req a = (rv, ret, c') \<Longrightarrow>
     (conn c' \<noteq> None) = opened_step (conn c \<noteq> None) (FN REMOTE_PROC_OPEN rv) \<and>
     opened (history c') = opened (history c) \<and>
     (\<not> echoes req (buffer c) \<or> echoes req (buffer c'))"
  by (cases a)
     (auto simp add: remoteDispatchOpen_def prim_defs Let_def opened_step_def split: if_splits)

lemma close_slot:
  "remoteDispatchClose E c req = (rv, ret, c') \<Longrightarrow>
     (conn c' \<noteq> None) = opened_step (conn c \<noteq> None) (FN REMOTE_PROC_CLOSE rv) \<and>
     opened (history c') = opened (history c) \<and>
     (\<not> echoes req (buffer c) \<or> echoes req (buffer c'))"
  by (auto simp add: remoteDispatchClose_def CHECK_CONN_def prim_defs Let_def opened_step_def
           split: if_splits option.splits)

lemma proc_switch_slot:
  assumes "proc_switch E c req payload = Some (Some (rv, ret, c'))"
  shows "(conn c' \<noteq> None) = opened_step (conn c \<noteq> None) (FN (proc req) rv) \<and>
         opened (history c') = opened (history c) \<and>
         (\<not> echoes req (buffer c) \<or> echoes req (buffer c'))"
proof -
  consider (opn) "proc req = REMOTE_PROC_OPEN" | (cls) "proc req = REMOTE_PROC_CLOSE"
    | (other) "proc req \<noteq> REMOTE_PROC_OPEN" "proc req \<noteq> REMOTE_PROC_CLOSE"
    by blast
  then show ?thesis
  proof cases
    case opn
    then obtain a where "remoteDispatchOpen E c req a = (rv, ret, c')"
      using assms by (auto simp add: proc_switch_def)
    from open_slot [OF this] opn show ?thesis by simp
  next
    case cls
    then have "remoteDispatchClose E c req = (rv, ret, c')"
      using assms by (auto simp add: proc_switch_def)
    from close_slot [OF this] cls show ?thesis by simp
  next
    case other
    then have "quiet req c (rv, ret, c')"
      using proc_switch_quiet [OF assms] by simp
    then show ?thesis
      using other by (simp add: quiet_def opened_step_def)
  qed
qed

lemma tx_packet_frame [simp]:
  "conn (tx_packet c len rep body) = conn c"
  "auth (tx_packet c len rep body) = auth c"
  "saslconn (tx_packet c len rep body) = saslconn c"
  "history (tx_packet c len rep body) = history c"
  "buffer (tx_packet c len rep body) = BUF_REPLY len rep body"
  "mode (tx_packet c len rep body) = QEMUD_MODE_TX_PACKET"
  by (simp_all add: tx_packet_def)

lemma write_length_frame [simp]:
  "conn (write_length E c req rep body) = conn c"
  "auth (write_length E c req rep body) = auth c"
  "saslconn (write_length E c req rep body) = saslconn c"
  "history (write_length E c req rep body) = history c"
  by (simp_all add: write_length_def Let_def)

lemma echoes_reply [simp]:
  "echoes req (BUF_REPLY len rep body) =
     (prog rep = prog req \<and> vers rep = vers req \<and> proc rep = proc req \<and>
      serial rep = serial req \<and> direction rep = REMOTE_REPLY)"
  by (simp add: echoes_def)

lemma write_length_echoes [simp]:
  "echoes req (buffer (write_length E c req (reply_header req rv) body))"
  by (simp add: write_length_def Let_def reply_header_def)

lemma dispatch_return_frame:
  "conn (dispatch_return E c req rv ret) = conn c"
  "auth (dispatch_return E c req rv ret) = auth c"
  "saslconn (dispatch_return E c req rv ret) = saslconn c"
  "opened (history (dispatch_return E c req rv ret)) = opened (history c)"
  by (simp_all add: dispatch_return_def Let_def prim_defs split: option.split)

lemma dispatch_return_echoes:
  "echoes req (buffer c) \<Longrightarrow> echoes req (buffer (dispatch_return E c req rv ret))"
  by (simp add: dispatch_return_def Let_def prim_defs split: option.split)

lemma call_procedure_echoes:
  assumes "echoes req (buffer c)"
  shows "echoes req (buffer (call_procedure E c req payload))"
proof (cases "proc_switch E (observe c (XDR_ARGS (proc req))) req payload")
  case None
  then show ?thesis using assms by (simp add: call_procedure_def)
next
  case (Some r)
  show ?thesis
  proof (cases r)
    case None
    then show ?thesis using Some assms by (simp add: call_procedure_def)
  next
    case inner: (Some t)
    obtain rv ret c' where t: "t = (rv, ret, c')" by (cases t)
    have "echoes req (buffer c')"
      using proc_switch_slot [of E "observe c (XDR_ARGS (proc req))" req payload rv ret c']
        Some inner t assms by simp
    then show ?thesis
      using Some inner t by (simp add: call_procedure_def dispatch_return_echoes)
  qed
qed

lemma call_procedure_slot:
  assumes "slot_invariant c"
  shows "slot_invariant (call_procedure E c req payload)"
proof (cases "proc_switch E (observe c (XDR_ARGS (proc req))) req payload")
  case None
  then show ?thesis using assms by (simp add: call_procedure_def slot_invariant_def)
next
  case (Some r)
  show ?thesis
  proof (cases r)
    case None
    then show ?thesis using Some assms by (simp add: call_procedure_def slot_invariant_def)
  next
    case inner: (Some t)
    obtain rv ret c' where t: "t = (rv, ret, c')" by (cases t)
    have "(conn c' \<noteq> None) = opened_step (conn c \<noteq> None) (FN (proc req) rv) \<and>
          opened (history c') = opened (history c)"
      using proc_switch_slot [of E "observe c (XDR_ARGS (proc req))" req payload rv ret c']
        Some inner t by simp
    then show ?thesis
      using Some inner t assms
      by (simp add: call_procedure_def slot_invariant_def dispatch_return_frame)
  qed
qed

text \<open>Every reply the dispatcher leaves in the buffer echoes the call.\<close>

lemma dispatcher_echoes:
  assumes "buffer c = BUF_CALL (Some req) payload"
  shows "echoes req (buffer (remoteDispatchClientRequest E c))"
  using assms
  by (simp add: remoteDispatchClientRequest_def decode_header_def call_procedure_echoes)

lemma dispatcher_slot:
  assumes "slot_invariant c"
  shows "slot_invariant (remoteDispatchClientRequest E c)"
proof -
  have "slot_invariant (remoteDispatchError E c r m)" for r m
    using assms by (simp add: slot_invariant_def)
  then show ?thesis
    using assms
    by (simp add: remoteDispatchClientRequest_def call_procedure_slot split: option.split)
qed

lemma receive_slot [simp]: "slot_invariant (receive c h p) = slot_invariant c"
  by (simp add: slot_invariant_def receive_def)

lemma serve_slot: "slot_invariant c \<Longrightarrow> slot_invariant (serve c rs)"
  by (induction c rs rule: serve.induct) (simp_all add: dispatcher_slot)

section \<open>The envelope of a reply\<close>

text \<open>
  C2. For a call whose envelope decodes, every reply the dispatcher puts in the
  session buffer (a result, a library error, or a dispatch error such as a program
  mismatch) carries the program, version, procedure and serial of the call, with
  direction \<^verbatim>\<open>REPLY\<close>.
\<close>

theorem reply_echoes_call:
  assumes "buffer client = BUF_CALL (Some req) payload"
      and "buffer (remoteDispatchClientRequest E client) = BUF_REPLY len rep body"
  shows "prog rep = prog req \<and> vers rep = vers req \<and> proc rep = proc req \<and>
         serial rep = serial req \<and> direction rep = REMOTE_REPLY"
  using dispatcher_echoes [OF assms(1), of E] assms(2) by simp

text \<open>The program of the call is off by one: the reply keeps it, and the serial 42.\<close>

theorem reply_echoes_call_witness:
  "buffer (example_client (Some ((example_call REMOTE_PROC_GET_HOSTNAME)\<lparr>prog := 536903815\<rparr>)) (Some []))
     = BUF_CALL (Some ((example_call REMOTE_PROC_GET_HOSTNAME)\<lparr>prog := 536903815\<rparr>)) (Some []) \<and>
   buffer (remoteDispatchClientRequest example_env
             (example_client (Some ((example_call REMOTE_PROC_GET_HOSTNAME)\<lparr>prog := 536903815\<rparr>)) (Some [])))
     = BUF_REPLY 28
         \<lparr>prog = 536903815, vers = 1, proc = REMOTE_PROC_GET_HOSTNAME, direction = REMOTE_REPLY,
          serial = 42, status = REMOTE_ERROR\<rparr>
         (REPLY_ERROR (dispatch_error VIR_ERR_RPC ''program mismatch (actual %x, expected %x)'')) \<and>
   serial \<lparr>prog = 536903815, vers = 1, proc = REMOTE_PROC_GET_HOSTNAME, direction = REMOTE_REPLY,
           serial = 42, status = REMOTE_ERROR\<rparr>
     = serial ((example_call REMOTE_PROC_GET_HOSTNAME)\<lparr>prog := 536903815\<rparr>)"
proof -
  let ?req = "(example_call REMOTE_PROC_GET_HOSTNAME)\<lparr>prog := 536903815\<rparr>"
  let ?rep = "\<lparr>prog = 536903815, vers = 1, proc = REMOTE_PROC_GET_HOSTNAME, direction = REMOTE_REPLY,
               serial = 42, status = REMOTE_ERROR\<rparr>"
  have h1: "buffer (example_client (Some ?req) (Some [])) = BUF_CALL (Some ?req) (Some [])"
    by (simp add: example_client_def)
  have h2: "buffer (remoteDispatchClientRequest example_env (example_client (Some ?req) (Some [])))
              = BUF_REPLY 28 ?rep
                  (REPLY_ERROR (dispatch_error VIR_ERR_RPC ''program mismatch (actual %x, expected %x)''))"
    by (simp add: example_defs remoteDispatchClientRequest_def decode_header_def
          remoteDispatchError_def remoteDispatchSendError_def error_header_def tx_packet_def)
  from reply_echoes_call [OF h1 h2] have "serial ?rep = serial ?req"
    by blast
  with h1 h2 show ?thesis
    by blast
qed

section \<open>The authentication gate\<close>

lemma error_sent:
  assumes "reply_fits E (error_header E req) (REPLY_ERROR (dispatch_error VIR_ERR_RPC msg))"
  shows "mode (remoteDispatchError E c req msg) = QEMUD_MODE_TX_PACKET \<and>
         buffer (remoteDispatchError E c req msg) =
           BUF_REPLY (xdr_getpos (xdr E) (error_header E req) (REPLY_ERROR (dispatch_error VIR_ERR_RPC msg)))
             (error_header E req) (REPLY_ERROR (dispatch_error VIR_ERR_RPC msg))"
  using sendError_sent [OF assms, of c] by (simp add: remoteDispatchError_def)

text \<open>
  C1. On a session that still requires authentication, a request for a procedure other
  than \<^verbatim>\<open>AUTH_LIST\<close>, \<^verbatim>\<open>AUTH_SASL_INIT\<close>, \<^verbatim>\<open>AUTH_SASL_START\<close>, \<^verbatim>\<open>AUTH_SASL_STEP\<close> ends in
  \<^verbatim>\<open>remoteDispatchError\<close> (with the message \<^verbatim>\<open>authentication required\<close> when the envelope
  is valid, with that of the failed envelope check otherwise). The history of the
  session is unchanged: the arguments were not decoded and no operation of the
  library was invoked. The error reply, with status \<^verbatim>\<open>ERROR\<close> and the serial of the
  call, is sent whenever the encoders accept it.
\<close>

theorem auth_gate:
  assumes "buffer client = BUF_CALL (Some req) payload"
      and "auth client \<noteq> REMOTE_AUTH_NONE"
      and "proc req \<noteq> REMOTE_PROC_AUTH_LIST"
      and "proc req \<noteq> REMOTE_PROC_AUTH_SASL_INIT"
      and "proc req \<noteq> REMOTE_PROC_AUTH_SASL_START"
      and "proc req \<noteq> REMOTE_PROC_AUTH_SASL_STEP"
  shows "\<exists>msg.
           remoteDispatchClientRequest E client = remoteDispatchError E client (Some req) msg \<and>
           (prog req = REMOTE_PROGRAM (protocol E) \<and> vers req = REMOTE_PROTOCOL_VERSION (protocol E) \<and>
            direction req = REMOTE_CALL \<and> status req = REMOTE_OK \<longrightarrow>
              msg = ''authentication required'') \<and>
           history (remoteDispatchClientRequest E client) = history client \<and>
           (reply_fits E (error_header E (Some req)) (REPLY_ERROR (dispatch_error VIR_ERR_RPC msg)) \<longrightarrow>
              mode (remoteDispatchClientRequest E client) = QEMUD_MODE_TX_PACKET \<and>
              (\<exists>len rep. buffer (remoteDispatchClientRequest E client) =
                            BUF_REPLY len rep (REPLY_ERROR (dispatch_error VIR_ERR_RPC msg)) \<and>
                          status rep = REMOTE_ERROR \<and> serial rep = serial req \<and>
                          proc rep = proc req \<and> direction rep = REMOTE_REPLY))"
proof -
  have sent: "mode (remoteDispatchError E client (Some req) msg) = QEMUD_MODE_TX_PACKET \<and>
              (\<exists>len rep. buffer (remoteDispatchError E client (Some req) msg) =
                            BUF_REPLY len rep (REPLY_ERROR (dispatch_error VIR_ERR_RPC msg)) \<and>
                          status rep = REMOTE_ERROR \<and> serial rep = serial req \<and>
                          proc rep = proc req \<and> direction rep = REMOTE_REPLY)"
    if "reply_fits E (error_header E (Some req)) (REPLY_ERROR (dispatch_error VIR_ERR_RPC msg))" for msg
    using error_sent [OF that, of client] by (simp add: error_header_def)
  define msg where
    "msg = (if prog req \<noteq> REMOTE_PROGRAM (protocol E) then ''program mismatch (actual %x, expected %x)''
            else if vers req \<noteq> REMOTE_PROTOCOL_VERSION (protocol E)
            then ''version mismatch (actual %x, expected %x)''
            else if direction req \<noteq> REMOTE_CALL then ''direction (%d) != REMOTE_CALL''
            else if status req \<noteq> REMOTE_OK then ''status (%d) != REMOTE_OK''
            else ''authentication required'')"
  have run: "remoteDispatchClientRequest E client = remoteDispatchError E client (Some req) msg"
    using assms by (simp add: remoteDispatchClientRequest_def decode_header_def msg_def)
  have valid: "msg = ''authentication required''"
    if "prog req = REMOTE_PROGRAM (protocol E) \<and> vers req = REMOTE_PROTOCOL_VERSION (protocol E) \<and>
        direction req = REMOTE_CALL \<and> status req = REMOTE_OK"
    using that by (simp add: msg_def)
  show ?thesis
    using run valid sent [of msg] by (intro exI [of _ msg]) simp
qed

text \<open>Before authenticating, \<^verbatim>\<open>GET_HOSTNAME\<close> is answered with the error and nothing else happens.\<close>

theorem auth_gate_witness:
  "buffer ((example_client (Some (example_call REMOTE_PROC_GET_HOSTNAME)) (Some []))\<lparr>auth := REMOTE_AUTH_SASL\<rparr>)
     = BUF_CALL (Some (example_call REMOTE_PROC_GET_HOSTNAME)) (Some []) \<and>
   auth ((example_client (Some (example_call REMOTE_PROC_GET_HOSTNAME)) (Some []))\<lparr>auth := REMOTE_AUTH_SASL\<rparr>)
     \<noteq> REMOTE_AUTH_NONE \<and>
   history (remoteDispatchClientRequest example_env
     ((example_client (Some (example_call REMOTE_PROC_GET_HOSTNAME)) (Some []))\<lparr>auth := REMOTE_AUTH_SASL\<rparr>)) = [] \<and>
   buffer (remoteDispatchClientRequest example_env
     ((example_client (Some (example_call REMOTE_PROC_GET_HOSTNAME)) (Some []))\<lparr>auth := REMOTE_AUTH_SASL\<rparr>))
     = BUF_REPLY 28
         \<lparr>prog = 536903814, vers = 1, proc = REMOTE_PROC_GET_HOSTNAME, direction = REMOTE_REPLY,
          serial = 42, status = REMOTE_ERROR\<rparr>
         (REPLY_ERROR (dispatch_error VIR_ERR_RPC ''authentication required''))"
proof -
  let ?req = "example_call REMOTE_PROC_GET_HOSTNAME"
  let ?c = "(example_client (Some ?req) (Some []))\<lparr>auth := REMOTE_AUTH_SASL\<rparr>"
  have h1: "buffer ?c = BUF_CALL (Some ?req) (Some [])"
    by (simp add: example_client_def)
  have h2: "auth ?c \<noteq> REMOTE_AUTH_NONE"
    by simp
  have h3: "proc ?req \<noteq> REMOTE_PROC_AUTH_LIST" "proc ?req \<noteq> REMOTE_PROC_AUTH_SASL_INIT"
           "proc ?req \<noteq> REMOTE_PROC_AUTH_SASL_START" "proc ?req \<noteq> REMOTE_PROC_AUTH_SASL_STEP"
    by (simp_all add: example_call_def)
  have start: "history ?c = []"
    by (simp add: example_client_def)
  from auth_gate [OF h1 h2 h3, of example_env]
  have quiet: "history (remoteDispatchClientRequest example_env ?c) = history ?c"
    by blast
  have reply: "buffer (remoteDispatchClientRequest example_env ?c)
     = BUF_REPLY 28
         \<lparr>prog = 536903814, vers = 1, proc = REMOTE_PROC_GET_HOSTNAME, direction = REMOTE_REPLY,
          serial = 42, status = REMOTE_ERROR\<rparr>
         (REPLY_ERROR (dispatch_error VIR_ERR_RPC ''authentication required''))"
    by (simp add: example_defs remoteDispatchClientRequest_def decode_header_def
          remoteDispatchError_def remoteDispatchSendError_def error_header_def tx_packet_def)
  show ?thesis
    using h1 h2 quiet start reply by (simp only: simp_thms)
qed

section \<open>Opening and closing the connection\<close>

lemma or_and_same: "(f OR r) AND r = (r :: int)"
  by (auto simp add: bit_eq_iff bit_and_iff bit_or_iff)

text \<open>
  C5. On a read-only session the flags of \<^verbatim>\<open>remoteDispatchOpen\<close> include the read-only
  bit whatever flags the client sent, and (the bit being a bit) the connection is
  opened with \<^verbatim>\<open>virConnectOpenReadOnly\<close>: when no connection is open yet, that is
  the one operation of the library the handler invokes, and its result fills the slot.
\<close>

theorem readonly_open:
  assumes "readonly client" and "VIR_CONNECT_RO (protocol E) \<noteq> 0"
  shows "open_flags E client flags AND VIR_CONNECT_RO (protocol E) = VIR_CONNECT_RO (protocol E) \<and>
         (conn client = None \<longrightarrow>
            history (snd (snd (remoteDispatchOpen E client req (name, flags)))) =
              history client @ [HYP (LibCall ''virConnectOpenReadOnly'' [A_opt_str name])] \<and>
            conn (snd (snd (remoteDispatchOpen E client req (name, flags)))) =
              lib_conn (hyp E) (LibCall ''virConnectOpenReadOnly'' [A_opt_str name]))"
  using assms
  by (simp add: remoteDispatchOpen_def open_flags_def or_and_same prim_defs Let_def)

text \<open>A read-only session, \<^verbatim>\<open>OPEN\<close> with no name and flags 0.\<close>

theorem readonly_open_witness:
  "readonly ((example_client None None)\<lparr>readonly := True\<rparr>) \<and>
   VIR_CONNECT_RO (protocol example_env) \<noteq> 0 \<and>
   conn ((example_client None None)\<lparr>readonly := True\<rparr>) = None \<and>
   history (snd (snd (remoteDispatchOpen example_env ((example_client None None)\<lparr>readonly := True\<rparr>)
                        (example_call REMOTE_PROC_OPEN) (None, 0)))) =
     [HYP (LibCall ''virConnectOpenReadOnly'' [A_opt_str None])]"
proof -
  let ?c = "(example_client None None)\<lparr>readonly := True\<rparr>"
  have h1: "readonly ?c" by simp
  have h2: "VIR_CONNECT_RO (protocol example_env) \<noteq> 0"
    by (simp add: example_env_def example_protocol_def)
  have h3: "conn ?c = None" by (simp add: example_client_def)
  have h4: "history ?c = []" by (simp add: example_client_def)
  from readonly_open [OF h1 h2, of 0 "example_call REMOTE_PROC_OPEN" None] h3
  have "history (snd (snd (remoteDispatchOpen example_env ?c (example_call REMOTE_PROC_OPEN) (None, 0)))) =
          history ?c @ [HYP (LibCall ''virConnectOpenReadOnly'' [A_opt_str None])]"
    by blast
  then show ?thesis
    using h1 h2 h3 by (simp only: h4 append_Nil simp_thms)
qed

text \<open>
  C6. From a state in which the connection slot is non-null exactly when an \<^verbatim>\<open>OPEN\<close>
  has succeeded and no \<^verbatim>\<open>CLOSE\<close> has succeeded since (such is a new session: the slot
  is null and nothing has happened), the same holds after any sequence of requests,
  whatever the collaborators answer. \<^verbatim>\<open>OPEN\<close> on a session with a connection returns the
  dispatch error \<^verbatim>\<open>connection already open\<close> and leaves the slot as it is; \<^verbatim>\<open>CLOSE\<close> returns
  what \<^verbatim>\<open>virConnectClose\<close> returns and clears the slot exactly when that is 0.
\<close>

theorem conn_slot:
  assumes "(conn client \<noteq> None) = opened (history client)"
  shows "(conn (serve client rs) \<noteq> None) = opened (history (serve client rs)) \<and>
         (conn client \<noteq> None \<longrightarrow>
            remoteDispatchOpen E client req args =
              (- 2, [], remoteDispatchError E client (Some req) ''connection already open'') \<and>
            conn (remoteDispatchError E client (Some req) ''connection already open'') = conn client) \<and>
         (\<forall>c. conn client = Some c \<longrightarrow>
            fst (remoteDispatchClose E client req) = lib_int (hyp E) (LibCall ''virConnectClose'' [A_conn c]) \<and>
            conn (snd (snd (remoteDispatchClose E client req))) =
              (if lib_int (hyp E) (LibCall ''virConnectClose'' [A_conn c]) = 0 then None else Some c))"
proof -
  have "slot_invariant (serve client rs)"
    using assms by (intro serve_slot) (simp add: slot_invariant_def)
  then have run: "(conn (serve client rs) \<noteq> None) = opened (history (serve client rs))"
    by (simp add: slot_invariant_def)
  have opn: "remoteDispatchOpen E client req args =
               (- 2, [], remoteDispatchError E client (Some req) ''connection already open'')"
    if "conn client \<noteq> None"
    using that by (cases args) (simp add: remoteDispatchOpen_def)
  have cls: "fst (remoteDispatchClose E client req) = lib_int (hyp E) (LibCall ''virConnectClose'' [A_conn c]) \<and>
             conn (snd (snd (remoteDispatchClose E client req))) =
               (if lib_int (hyp E) (LibCall ''virConnectClose'' [A_conn c]) = 0 then None else Some c)"
    if "conn client = Some c" for c
    using that by (simp add: remoteDispatchClose_def CHECK_CONN_def prim_defs Let_def)
  show ?thesis
    using run opn cls by simp
qed

text \<open>
  A new session serves \<^verbatim>\<open>OPEN\<close>, \<^verbatim>\<open>GET_HOSTNAME\<close> and \<^verbatim>\<open>CLOSE\<close>, all of which succeed: the slot
  is null again, and by the history the connection is not open.
\<close>

theorem conn_slot_witness:
  "(conn (example_client None None) \<noteq> None) = opened (history (example_client None None)) \<and>
   conn (serve (example_client None None)
           [(example_env, Some (example_call REMOTE_PROC_OPEN), Some [X_opt_string None, X_int 0]),
            (example_env, Some (example_call REMOTE_PROC_GET_HOSTNAME), Some []),
            (example_env, Some (example_call REMOTE_PROC_CLOSE), Some [])]) = None \<and>
   \<not> opened (history (serve (example_client None None)
           [(example_env, Some (example_call REMOTE_PROC_OPEN), Some [X_opt_string None, X_int 0]),
            (example_env, Some (example_call REMOTE_PROC_GET_HOSTNAME), Some []),
            (example_env, Some (example_call REMOTE_PROC_CLOSE), Some [])]))"
proof -
  let ?rs = "[(example_env, Some (example_call REMOTE_PROC_OPEN), Some [X_opt_string None, X_int 0]),
              (example_env, Some (example_call REMOTE_PROC_GET_HOSTNAME), Some []),
              (example_env, Some (example_call REMOTE_PROC_CLOSE), Some [])]"
  have h: "(conn (example_client None None) \<noteq> None) = opened (history (example_client None None))"
    by (simp add: example_client_def opened_def)
  have e: "conn (serve (example_client None None) ?rs) = None"
    by (simp add: example_defs receive_def remoteDispatchClientRequest_def call_procedure_def
          decode_header_def decode_payload_def proc_switch_def xdr_remote_open_args_def xdr_void_def
          remoteDispatchOpen_def remoteDispatchGetHostname_def remoteDispatchClose_def
          open_flags_def CHECK_CONN_def prim_defs Let_def dispatch_return_frame)
  from conn_slot [OF h, of ?rs]
  have "(conn (serve (example_client None None) ?rs) \<noteq> None) =
          opened (history (serve (example_client None None) ?rs))"
    by blast
  with e have "\<not> opened (history (serve (example_client None None) ?rs))"
    by simp
  with h e show ?thesis
    by blast
qed

section \<open>The SASL negotiation\<close>


lemma sasl_answer_oom:
  assumes "err = SASL_OK \<or> err = SASL_CONTINUE"
      and "int (sasl_serveroutlen (sasl E) call) \<le> REMOTE_AUTH_SASL_DATA_MAX (protocol E)"
      and "sasl_serverout (sasl E) call \<noteq> None"
      and "\<not> alloc_ok (libc E) (Malloc ''char'' (int (sasl_serveroutlen (sasl E) call)))"
  shows "sasl_answer E c req call err =
           (- 2, [],
            remoteDispatchError E (observe c (ALLOC (Malloc ''char'' (int (sasl_serveroutlen (sasl E) call)))))
              (Some req) ''out of memory allocating array'')"
  using assms by (auto simp add: sasl_answer_def Let_def prim_defs)

lemma sasl_answer_accepted:
  assumes "err = SASL_OK \<or> err = SASL_CONTINUE"
      and "int (sasl_serveroutlen (sasl E) call) \<le> REMOTE_AUTH_SASL_DATA_MAX (protocol E)"
      and "sasl_serverout (sasl E) call = None \<or>
           alloc_ok (libc E) (Malloc ''char'' (int (sasl_serveroutlen (sasl E) call)))"
  shows "sasl_answer E c req call err =
           (0,
            [X_int (if err = SASL_CONTINUE then 0 else 1),
             X_int (if sasl_serverout (sasl E) call \<noteq> None then 0 else 1),
             X_int (int (sasl_serveroutlen (sasl E) call)),
             X_opt_opaque (map_option (take (sasl_serveroutlen (sasl E) call)) (sasl_serverout (sasl E) call))],
            (if sasl_serverout (sasl E) call = None then c
             else observe c (ALLOC (Malloc ''char'' (int (sasl_serveroutlen (sasl E) call)))))
              \<lparr>auth := (if err = SASL_CONTINUE then auth c else REMOTE_AUTH_NONE)\<rparr>)"
  using assms by (auto simp add: sasl_answer_def Let_def prim_defs)

lemma sasl_answer_zero:
  assumes "fst (sasl_answer E c req call err) = 0"
  shows "(err = SASL_OK \<or> err = SASL_CONTINUE) \<and>
         int (sasl_serveroutlen (sasl E) call) \<le> REMOTE_AUTH_SASL_DATA_MAX (protocol E) \<and>
         (sasl_serverout (sasl E) call = None \<or>
          alloc_ok (libc E) (Malloc ''char'' (int (sasl_serveroutlen (sasl E) call))))"
  using assms
  by (auto simp add: sasl_answer_def Let_def prim_defs split: if_splits option.splits)

lemma sasl_start_answer:
  assumes "auth client = REMOTE_AUTH_SASL" and "saslconn client = Some s"
  shows "remoteDispatchAuthSaslStart E client req (mech, a_nil, data_val, data_len) =
           sasl_answer E
             (observe client
                (SASL (sasl_server_start (Some s) mech (if a_nil \<noteq> 0 then None else data_val) data_len)))
             req (sasl_server_start (Some s) mech (if a_nil \<noteq> 0 then None else data_val) data_len)
             (sasl_err (sasl E)
                (sasl_server_start (Some s) mech (if a_nil \<noteq> 0 then None else data_val) data_len))"
  using assms by (simp add: remoteDispatchAuthSaslStart_def prim_defs Let_def)

lemma sasl_step_answer:
  assumes "auth client = REMOTE_AUTH_SASL" and "saslconn client = Some s"
  shows "remoteDispatchAuthSaslStep E client req (a_nil, data_val, data_len) =
           sasl_answer E
             (observe client
                (SASL (sasl_server_step (Some s) (if a_nil \<noteq> 0 then None else data_val) data_len)))
             req (sasl_server_step (Some s) (if a_nil \<noteq> 0 then None else data_val) data_len)
             (sasl_err (sasl E)
                (sasl_server_step (Some s) (if a_nil \<noteq> 0 then None else data_val) data_len))"
  using assms by (simp add: remoteDispatchAuthSaslStep_def prim_defs Let_def)

lemma sasl_answer_history:
  "\<exists>rest. history (snd (snd (sasl_answer E c req call err))) = history c @ rest"
  by (simp add: sasl_answer_def Let_def prim_defs split: option.split)



text \<open>
  What the handlers do with \<^verbatim>\<open>nil\<close>. On a negotiating session the first thing either
  handler does is the call of the SASL library; the client payload of that call is
  \<^verbatim>\<open>NULL\<close> when \<^verbatim>\<open>nil\<close> is non-zero and the pointer \<^verbatim>\<open>args->data.data_val\<close> as it is when
  \<^verbatim>\<open>nil\<close> is 0. When the handler returns 0, \<^verbatim>\<open>nil\<close> of the result is 1 exactly when the
  library returned no server-out payload and 0 otherwise, whatever the length it returned.
\<close>

lemma sasl_nil_handling:
  assumes "auth client = REMOTE_AUTH_SASL" and "saslconn client = Some s"
      and "r = remoteDispatchAuthSaslStart E client req (mech, a_nil, data_val, data_len) \<and>
           call = (\<lambda>clientin. sasl_server_start (Some s) mech clientin data_len) \<or>
           r = remoteDispatchAuthSaslStep E client req (a_nil, data_val, data_len) \<and>
           call = (\<lambda>clientin. sasl_server_step (Some s) clientin data_len)"
  shows "\<exists>clientin rest.
           history (snd (snd r)) = history client @ SASL (call clientin) # rest \<and>
           clientin = (if a_nil \<noteq> 0 then None else data_val) \<and>
           (fst r = 0 \<longrightarrow>
              (\<exists>complete nil len val.
                 fst (snd r) = [X_int complete, X_int nil, X_int len, X_opt_opaque val] \<and>
                 (nil = 1) = (sasl_serverout (sasl E) (call clientin) = None) \<and>
                 (nil = 0) = (sasl_serverout (sasl E) (call clientin) \<noteq> None) \<and>
                 (val = None) = (sasl_serverout (sasl E) (call clientin) = None) \<and>
                 len = int (sasl_serveroutlen (sasl E) (call clientin))))"
proof -
  let ?in = "if a_nil \<noteq> 0 then None else data_val"
  let ?out = "sasl_serverout (sasl E) (call ?in)"
  let ?n = "sasl_serveroutlen (sasl E) (call ?in)"
  let ?err = "sasl_err (sasl E) (call ?in)"
  have r: "r = sasl_answer E (observe client (SASL (call ?in))) req (call ?in) ?err"
    using assms(3) sasl_start_answer [OF assms(1,2)] sasl_step_answer [OF assms(1,2)] by auto
  obtain rest where "history (snd (snd r)) = history (observe client (SASL (call ?in))) @ rest"
    using sasl_answer_history [of E "observe client (SASL (call ?in))" req "call ?in" ?err] r by blast
  then have hist: "history (snd (snd r)) = history client @ SASL (call ?in) # rest"
    by simp
  have ret: "fst (snd r) =
               [X_int (if ?err = SASL_CONTINUE then 0 else 1), X_int (if ?out \<noteq> None then 0 else 1),
                X_int (int ?n), X_opt_opaque (map_option (take ?n) ?out)]"
    if "fst r = 0"
  proof -
    have z: "(?err = SASL_OK \<or> ?err = SASL_CONTINUE) \<and>
             int ?n \<le> REMOTE_AUTH_SASL_DATA_MAX (protocol E) \<and>
             (?out = None \<or> alloc_ok (libc E) (Malloc ''char'' (int ?n)))"
      using sasl_answer_zero [of E "observe client (SASL (call ?in))" req "call ?in" ?err] r that
      by simp
    show ?thesis
      using sasl_answer_accepted [of ?err E "call ?in" "observe client (SASL (call ?in))" req] z r
      by simp
  qed
  have "(fst r = 0 \<longrightarrow>
          (\<exists>complete nil len val.
             fst (snd r) = [X_int complete, X_int nil, X_int len, X_opt_opaque val] \<and>
             (nil = 1) = (?out = None) \<and> (nil = 0) = (?out \<noteq> None) \<and>
             (val = None) = (?out = None) \<and> len = int ?n))"
    using ret by auto
  with hist show ?thesis
    by (intro exI [of _ ?in] exI [of _ rest]) simp
qed

text \<open>
  The handler of \<^verbatim>\<open>AUTH_SASL_STEP\<close> on the arguments of a request with \<^verbatim>\<open>nil\<close> = 0 and an
  empty payload (\<^verbatim>\<open>data_val\<close> is \<^verbatim>\<open>NULL\<close>, \<^verbatim>\<open>data_len\<close> is 0): the library is handed \<^verbatim>\<open>NULL\<close>.
  With a payload of one byte it is handed the payload.
\<close>

lemma sasl_step_examples:
  "remoteDispatchAuthSaslStep example_env
     ((example_client None None)\<lparr>auth := REMOTE_AUTH_SASL, saslconn := Some 7\<rparr>)
     (example_call REMOTE_PROC_AUTH_SASL_STEP) (0, None, 0) =
   (0, [X_int 1, X_int 1, X_int 0, X_opt_opaque None],
    (example_client None None)
      \<lparr>auth := REMOTE_AUTH_NONE, saslconn := Some 7,
       history := [SASL (sasl_server_step (Some 7) None 0)]\<rparr>)"
  "remoteDispatchAuthSaslStep example_env
     ((example_client None None)\<lparr>auth := REMOTE_AUTH_SASL, saslconn := Some 7\<rparr>)
     (example_call REMOTE_PROC_AUTH_SASL_STEP) (0, Some ''x'', 1) =
   (0, [X_int 1, X_int 1, X_int 0, X_opt_opaque None],
    (example_client None None)
      \<lparr>auth := REMOTE_AUTH_NONE, saslconn := Some 7,
       history := [SASL (sasl_server_step (Some 7) (Some ''x'') 1)]\<rparr>)"
  by (simp_all add: remoteDispatchAuthSaslStep_def sasl_answer_def prim_defs Let_def
        example_env_def example_sasl_def example_protocol_def example_client_def)

lemma xdr_bytes_payload:
  "data \<noteq> [] \<Longrightarrow> xdr_bytes data = (Some data, length data)"
  "xdr_bytes [] = (None, 0)"
  by (simp_all add: xdr_bytes_def)

text \<open>
  C8. A request with \<^verbatim>\<open>nil\<close> = 0 and an empty payload reaches the SASL library as \<^verbatim>\<open>NULL\<close>,
  as does the request with \<^verbatim>\<open>nil\<close> = 1: on a negotiating session, the dispatcher serves
  \<^verbatim>\<open>AUTH_SASL_STEP\<close> with the payloads \<^verbatim>\<open>{nil = 0, data = ""}\<close> and \<^verbatim>\<open>{nil = 1, data = ""}\<close> by
  the same call \<^verbatim>\<open>sasl_server_step (conn, NULL, 0)\<close>, and \<^verbatim>\<open>AUTH_SASL_START\<close> by the same
  call \<^verbatim>\<open>sasl_server_start (conn, mech, NULL, 0)\<close>. The empty payload is not told from the
  absent one.
\<close>

theorem sasl_empty_payload_null:
  "history (remoteDispatchClientRequest example_env
      ((example_client (Some (example_call REMOTE_PROC_AUTH_SASL_STEP)) (Some [X_int 0, X_opaque []]))
         \<lparr>auth := REMOTE_AUTH_SASL, saslconn := Some 7\<rparr>)) =
     [XDR_ARGS REMOTE_PROC_AUTH_SASL_STEP, SASL (sasl_server_step (Some 7) None 0),
      FN REMOTE_PROC_AUTH_SASL_STEP 0] \<and>
   history (remoteDispatchClientRequest example_env
      ((example_client (Some (example_call REMOTE_PROC_AUTH_SASL_STEP)) (Some [X_int 1, X_opaque []]))
         \<lparr>auth := REMOTE_AUTH_SASL, saslconn := Some 7\<rparr>)) =
     [XDR_ARGS REMOTE_PROC_AUTH_SASL_STEP, SASL (sasl_server_step (Some 7) None 0),
      FN REMOTE_PROC_AUTH_SASL_STEP 0] \<and>
   history (remoteDispatchClientRequest example_env
      ((example_client (Some (example_call REMOTE_PROC_AUTH_SASL_START))
          (Some [X_string ''ANONYMOUS'', X_int 0, X_opaque []]))
         \<lparr>auth := REMOTE_AUTH_SASL, saslconn := Some 7\<rparr>)) =
     [XDR_ARGS REMOTE_PROC_AUTH_SASL_START, SASL (sasl_server_start (Some 7) ''ANONYMOUS'' None 0),
      FN REMOTE_PROC_AUTH_SASL_START 0] \<and>
   history (remoteDispatchClientRequest example_env
      ((example_client (Some (example_call REMOTE_PROC_AUTH_SASL_START))
          (Some [X_string ''ANONYMOUS'', X_int 1, X_opaque []]))
         \<lparr>auth := REMOTE_AUTH_SASL, saslconn := Some 7\<rparr>)) =
     [XDR_ARGS REMOTE_PROC_AUTH_SASL_START, SASL (sasl_server_start (Some 7) ''ANONYMOUS'' None 0),
      FN REMOTE_PROC_AUTH_SASL_START 0]"
proof -
  have step: "history (remoteDispatchClientRequest example_env
      ((example_client (Some (example_call REMOTE_PROC_AUTH_SASL_STEP)) (Some [X_int n, X_opaque []]))
         \<lparr>auth := REMOTE_AUTH_SASL, saslconn := Some 7\<rparr>)) =
     [XDR_ARGS REMOTE_PROC_AUTH_SASL_STEP, SASL (sasl_server_step (Some 7) None 0),
      FN REMOTE_PROC_AUTH_SASL_STEP 0]" for n
    by (simp add: remoteDispatchClientRequest_def call_procedure_def decode_header_def decode_payload_def
          proc_switch_def xdr_remote_auth_sasl_step_args_def xdr_bytes_def
          remoteDispatchAuthSaslStep_def sasl_answer_def prim_defs Let_def
          dispatch_return_def reply_header_def write_length_def tx_packet_def library_error_def
          example_defs)
  have start: "history (remoteDispatchClientRequest example_env
      ((example_client (Some (example_call REMOTE_PROC_AUTH_SASL_START))
          (Some [X_string ''ANONYMOUS'', X_int n, X_opaque []]))
         \<lparr>auth := REMOTE_AUTH_SASL, saslconn := Some 7\<rparr>)) =
     [XDR_ARGS REMOTE_PROC_AUTH_SASL_START, SASL (sasl_server_start (Some 7) ''ANONYMOUS'' None 0),
      FN REMOTE_PROC_AUTH_SASL_START 0]" for n
    by (simp add: remoteDispatchClientRequest_def call_procedure_def decode_header_def decode_payload_def
          proc_switch_def xdr_remote_auth_sasl_start_args_def xdr_bytes_def
          remoteDispatchAuthSaslStart_def sasl_answer_def prim_defs Let_def
          dispatch_return_def reply_header_def write_length_def tx_packet_def library_error_def
          example_defs)
  from step [of 0] step [of 1] start [of 0] start [of 1] show ?thesis
    by (simp only: simp_thms)
qed

section \<open>Scheduler parameters of an unknown type\<close>

lemma serialise_params_known:
  "serialise_params E c ps = (Inr vs, c') \<Longrightarrow> list_all (\<lambda>p. known_sched_type (sp_type p)) ps"
proof (induction ps arbitrary: c vs c')
  case Nil
  then show ?case by simp
next
  case (Cons p ps)
  then show ?case
    by (auto simp add: prim_defs Let_def serialise_param_def known_sched_type_def
          split: if_splits option.splits prod.splits sum.splits virSchedParameterType.splits)
qed

lemma serialise_params_unknown:
  assumes "\<And>a. alloc_ok (libc E) a"
  shows "\<not> list_all (\<lambda>p. known_sched_type (sp_type p)) ps \<Longrightarrow>
           fst (serialise_params E c ps) = Inl ''unknown type''"
proof (induction ps arbitrary: c)
  case Nil
  then show ?case by simp
next
  case (Cons p ps)
  show ?case
  proof (cases "known_sched_type (sp_type p)")
    case True
    then obtain v where v: "serialise_param p = Some v"
      by (auto simp add: serialise_param_def known_sched_type_def split: virSchedParameterType.splits)
    from True Cons.prems have "\<not> list_all (\<lambda>p. known_sched_type (sp_type p)) ps"
      by simp
    from Cons.IH [OF this, of "observe c (ALLOC (Strdup (sp_field p)))"]
    obtain c1 where "serialise_params E (observe c (ALLOC (Strdup (sp_field p)))) ps = (Inl ''unknown type'', c1)"
      by (cases "serialise_params E (observe c (ALLOC (Strdup (sp_field p)))) ps") simp
    with v assms show ?thesis
      by (simp add: prim_defs Let_def)
  next
    case False
    then have "serialise_param p = None"
      by (simp add: serialise_param_def known_sched_type_def split: virSchedParameterType.splits)
    then show ?thesis
      using assms by (simp add: prim_defs Let_def)
  qed
qed

text \<open>
  The handler of \<^verbatim>\<open>DOMAIN_SET_SCHEDULER_PARAMETERS\<close> itself has no \<^verbatim>\<open>default\<close> in its
  \<^verbatim>\<open>switch\<close>: a parameter of an unknown type that reached it would go to the library
  with its value unwritten. It is the argument filter that keeps such a parameter away.
\<close>

lemma deserialise_param_unknown:
  "deserialise_param E \<lparr>rsp_field = f, rsp_type = VIR_DOMAIN_SCHED_FIELD_UNKNOWN n, rsp_value_u = u\<rparr> =
     \<lparr>sp_field = take (VIR_DOMAIN_SCHED_FIELD_LENGTH (protocol E) - 1) f,
      sp_type = VIR_DOMAIN_SCHED_FIELD_UNKNOWN n, sp_value = no_value\<rparr>"
  by (simp add: deserialise_param_def)

text \<open>
  C9. A scheduler parameter whose type is none of the six is rejected on both paths.
  \<^verbatim>\<open>GET\<close>: when the library returns such a parameter, the handler never returns 0 (no
  result is serialised), and with every allocation succeeding it returns -2 after the
  dispatch error \<^verbatim>\<open>unknown type\<close>. \<^verbatim>\<open>SET\<close>: a request that carries such a parameter is
  rejected by the argument filter; the dispatcher answers with the error
  \<^verbatim>\<open>parse args failed\<close> and the handler and the library are never reached.
\<close>

theorem unknown_sched_type_rejected:
  "(conn client = Some cn \<and>
    lib_dom (hyp E) (LibCall ''virGetDomain'' [A_conn cn, A_str (rd_name a_dom), A_bytes (rd_uuid a_dom)]) = Some d \<and>
    \<not> list_all (\<lambda>p. known_sched_type (sp_type p))
        (out_params (hyp E)
           (LibCall ''virDomainGetSchedulerParameters'' [A_dom (d\<lparr>vd_id := rd_id a_dom\<rparr>), A_int nparams]))
    \<longrightarrow>
      fst (remoteDispatchDomainGetSchedulerParameters E client req (a_dom, nparams)) \<noteq> 0 \<and>
      ((\<forall>a. alloc_ok (libc E) a) \<and>
       nparams \<le> REMOTE_DOMAIN_SCHEDULER_PARAMETERS_MAX (protocol E) \<and>
       lib_int (hyp E)
         (LibCall ''virDomainGetSchedulerParameters'' [A_dom (d\<lparr>vd_id := rd_id a_dom\<rparr>), A_int nparams]) \<noteq> - 1
       \<longrightarrow>
         (\<exists>c'. remoteDispatchDomainGetSchedulerParameters E client req (a_dom, nparams) =
                 (- 2, [], remoteDispatchError E c' (Some req) ''unknown type'')))) \<and>
   (buffer client' = BUF_CALL (Some req') (Some [X_domain a_dom', X_params ps]) \<and>
    prog req' = REMOTE_PROGRAM (protocol E) \<and> vers req' = REMOTE_PROTOCOL_VERSION (protocol E) \<and>
    direction req' = REMOTE_CALL \<and> status req' = REMOTE_OK \<and>
    auth client' = REMOTE_AUTH_NONE \<and>
    proc req' = REMOTE_PROC_DOMAIN_SET_SCHEDULER_PARAMETERS \<and>
    \<not> list_all (\<lambda>p. known_sched_type (rsp_type p)) ps
    \<longrightarrow>
      remoteDispatchClientRequest E client' =
        remoteDispatchError E (observe client' (XDR_ARGS REMOTE_PROC_DOMAIN_SET_SCHEDULER_PARAMETERS))
          (Some req') ''parse args failed'' \<and>
      history (remoteDispatchClientRequest E client') =
        history client' @ [XDR_ARGS REMOTE_PROC_DOMAIN_SET_SCHEDULER_PARAMETERS])"
proof -
  let ?get = "remoteDispatchDomainGetSchedulerParameters E client req (a_dom, nparams)"
  let ?call = "LibCall ''virDomainGetSchedulerParameters'' [A_dom (d\<lparr>vd_id := rd_id a_dom\<rparr>), A_int nparams]"
  have never: "fst ?get \<noteq> 0"
    if "conn client = Some cn"
       "lib_dom (hyp E) (LibCall ''virGetDomain'' [A_conn cn, A_str (rd_name a_dom), A_bytes (rd_uuid a_dom)]) = Some d"
       "\<not> list_all (\<lambda>p. known_sched_type (sp_type p)) (out_params (hyp E) ?call)"
    using that
    by (auto simp add: remoteDispatchDomainGetSchedulerParameters_def CHECK_CONN_def prim_defs Let_def
          split: prod.splits sum.splits dest: serialise_params_known)
  have error: "\<exists>c'. ?get = (- 2, [], remoteDispatchError E c' (Some req) ''unknown type'')"
    if "conn client = Some cn"
       "lib_dom (hyp E) (LibCall ''virGetDomain'' [A_conn cn, A_str (rd_name a_dom), A_bytes (rd_uuid a_dom)]) = Some d"
       "\<not> list_all (\<lambda>p. known_sched_type (sp_type p)) (out_params (hyp E) ?call)"
       "\<forall>a. alloc_ok (libc E) a"
       "nparams \<le> REMOTE_DOMAIN_SCHEDULER_PARAMETERS_MAX (protocol E)"
       "lib_int (hyp E) ?call \<noteq> - 1"
  proof -
    let ?c = "observe (observe (observe (observe client (ALLOC (Malloc ''virSchedParameter'' nparams)))
                (HYP (LibCall ''virGetDomain'' [A_conn cn, A_str (rd_name a_dom), A_bytes (rd_uuid a_dom)])))
                (HYP ?call))
                (ALLOC (Malloc ''struct remote_sched_param'' (int (length (out_params (hyp E) ?call)))))"
    have "fst (serialise_params E ?c (out_params (hyp E) ?call)) = Inl ''unknown type''"
      using serialise_params_unknown [of E "out_params (hyp E) ?call" ?c] that(3,4) by blast
    then obtain c1 where "serialise_params E ?c (out_params (hyp E) ?call) = (Inl ''unknown type'', c1)"
      by (cases "serialise_params E ?c (out_params (hyp E) ?call)") simp
    with that have "?get = (- 2, [], remoteDispatchError E
                   (virDomainFree c1 (d\<lparr>vd_id := rd_id a_dom\<rparr>)) (Some req) ''unknown type'')"
      by (simp add: remoteDispatchDomainGetSchedulerParameters_def CHECK_CONN_def prim_defs Let_def)
    then show ?thesis
      by blast
  qed
  have filter: "xdr_remote_domain_set_scheduler_parameters_args E (Some [X_domain a_dom', X_params ps]) = None"
    if "\<not> list_all (\<lambda>p. known_sched_type (rsp_type p)) ps"
    using that by (simp add: xdr_remote_domain_set_scheduler_parameters_args_def)
  have set: "remoteDispatchClientRequest E client' =
               remoteDispatchError E (observe client' (XDR_ARGS REMOTE_PROC_DOMAIN_SET_SCHEDULER_PARAMETERS))
                 (Some req') ''parse args failed''"
    if "buffer client' = BUF_CALL (Some req') (Some [X_domain a_dom', X_params ps])"
       "prog req' = REMOTE_PROGRAM (protocol E)" "vers req' = REMOTE_PROTOCOL_VERSION (protocol E)"
       "direction req' = REMOTE_CALL" "status req' = REMOTE_OK" "auth client' = REMOTE_AUTH_NONE"
       "proc req' = REMOTE_PROC_DOMAIN_SET_SCHEDULER_PARAMETERS"
       "\<not> list_all (\<lambda>p. known_sched_type (rsp_type p)) ps"
    using that filter
    by (simp add: remoteDispatchClientRequest_def call_procedure_def decode_header_def
          decode_payload_def proc_switch_def)
  have unreached: "history (remoteDispatchClientRequest E client') =
                     history client' @ [XDR_ARGS REMOTE_PROC_DOMAIN_SET_SCHEDULER_PARAMETERS]"
    if "buffer client' = BUF_CALL (Some req') (Some [X_domain a_dom', X_params ps])"
       "prog req' = REMOTE_PROGRAM (protocol E)" "vers req' = REMOTE_PROTOCOL_VERSION (protocol E)"
       "direction req' = REMOTE_CALL" "status req' = REMOTE_OK" "auth client' = REMOTE_AUTH_NONE"
       "proc req' = REMOTE_PROC_DOMAIN_SET_SCHEDULER_PARAMETERS"
       "\<not> list_all (\<lambda>p. known_sched_type (rsp_type p)) ps"
    using set [OF that] by (simp add: error_frame)
  show ?thesis
    using never error set unreached by blast
qed

theorem unknown_sched_type_rejected_witness:
  "fst (remoteDispatchDomainGetSchedulerParameters unknown_env ((example_client None None)\<lparr>conn := Some 1\<rparr>)
          (example_call REMOTE_PROC_DOMAIN_GET_SCHEDULER_PARAMETERS) (example_remote_domain, 16)) = - 2 \<and>
   (\<exists>c'. remoteDispatchDomainGetSchedulerParameters unknown_env ((example_client None None)\<lparr>conn := Some 1\<rparr>)
          (example_call REMOTE_PROC_DOMAIN_GET_SCHEDULER_PARAMETERS) (example_remote_domain, 16) =
        (- 2, [], remoteDispatchError unknown_env c'
                    (Some (example_call REMOTE_PROC_DOMAIN_GET_SCHEDULER_PARAMETERS)) ''unknown type'')) \<and>
   history (remoteDispatchClientRequest unknown_env
      ((example_client (Some (example_call REMOTE_PROC_DOMAIN_SET_SCHEDULER_PARAMETERS))
          (Some [X_domain example_remote_domain, X_params [unknown_remote_param]]))\<lparr>conn := Some 1\<rparr>)) =
     [XDR_ARGS REMOTE_PROC_DOMAIN_SET_SCHEDULER_PARAMETERS]"
proof -
  let ?E = unknown_env
  let ?c = "(example_client None None)\<lparr>conn := Some 1\<rparr>"
  let ?req = "example_call REMOTE_PROC_DOMAIN_GET_SCHEDULER_PARAMETERS"
  let ?req' = "example_call REMOTE_PROC_DOMAIN_SET_SCHEDULER_PARAMETERS"
  let ?c' = "(example_client (Some ?req') (Some [X_domain example_remote_domain, X_params [unknown_remote_param]]))
               \<lparr>conn := Some 1\<rparr>"
  have g: "conn ?c = Some 1 \<and>
           lib_dom (hyp ?E) (LibCall ''virGetDomain''
             [A_conn 1, A_str (rd_name example_remote_domain), A_bytes (rd_uuid example_remote_domain)]) =
             Some example_domain \<and>
           \<not> list_all (\<lambda>p. known_sched_type (sp_type p))
               (out_params (hyp ?E) (LibCall ''virDomainGetSchedulerParameters''
                  [A_dom (example_domain\<lparr>vd_id := rd_id example_remote_domain\<rparr>), A_int 16]))"
    by (simp add: unknown_env_def unknown_hyp_def example_hyp_def known_sched_type_def)
  have g': "(\<forall>a. alloc_ok (libc ?E) a) \<and>
            16 \<le> REMOTE_DOMAIN_SCHEDULER_PARAMETERS_MAX (protocol ?E) \<and>
            lib_int (hyp ?E) (LibCall ''virDomainGetSchedulerParameters''
               [A_dom (example_domain\<lparr>vd_id := rd_id example_remote_domain\<rparr>), A_int 16]) \<noteq> - 1"
    by (simp add: unknown_env_def unknown_hyp_def example_defs)
  have s: "buffer ?c' = BUF_CALL (Some ?req') (Some [X_domain example_remote_domain, X_params [unknown_remote_param]]) \<and>
           prog ?req' = REMOTE_PROGRAM (protocol ?E) \<and> vers ?req' = REMOTE_PROTOCOL_VERSION (protocol ?E) \<and>
           direction ?req' = REMOTE_CALL \<and> status ?req' = REMOTE_OK \<and>
           auth ?c' = REMOTE_AUTH_NONE \<and>
           proc ?req' = REMOTE_PROC_DOMAIN_SET_SCHEDULER_PARAMETERS \<and>
           \<not> list_all (\<lambda>p. known_sched_type (rsp_type p)) [unknown_remote_param]"
    by (simp add: unknown_env_def unknown_remote_param_def known_sched_type_def example_defs)
  note t = unknown_sched_type_rejected [where E = ?E and client = ?c and cn = 1 and a_dom = example_remote_domain
             and d = example_domain and nparams = 16 and req = ?req and client' = ?c' and req' = ?req'
             and a_dom' = example_remote_domain and ps = "[unknown_remote_param]"]
  from t g g'
  have a: "\<exists>c'. remoteDispatchDomainGetSchedulerParameters ?E ?c ?req (example_remote_domain, 16) =
             (- 2, [], remoteDispatchError ?E c' (Some ?req) ''unknown type'')"
    by blast
  then have b: "fst (remoteDispatchDomainGetSchedulerParameters ?E ?c ?req (example_remote_domain, 16)) = - 2"
    by auto
  from t s
  have "history (remoteDispatchClientRequest ?E ?c') =
          history ?c' @ [XDR_ARGS REMOTE_PROC_DOMAIN_SET_SCHEDULER_PARAMETERS]"
    by blast
  then have c: "history (remoteDispatchClientRequest ?E ?c') = [XDR_ARGS REMOTE_PROC_DOMAIN_SET_SCHEDULER_PARAMETERS]"
    by (simp add: example_client_def)
  from a b c show ?thesis
    by blast
qed

section \<open>Release of the per-call handles\<close>

text \<open>
  The handlers that look a domain or a network up and release it on every path: on each
  of them the handle is released exactly as many times as it was looked up.
\<close>

lemma balanced_DomainGetSchedulerType:
  "conn c = Some cn \<Longrightarrow>
   lib_dom (hyp E) (LibCall ''virGetDomain'' [A_conn cn, A_str (rd_name a), A_bytes (rd_uuid a)]) = Some d \<Longrightarrow>
   balanced cn a d c (remoteDispatchDomainGetSchedulerType E c req a)"
  by (simp add: balanced_def releases_def lookups_def remoteDispatchDomainGetSchedulerType_def CHECK_CONN_def prim_defs Let_def error_frame
        split: option.split prod.split)

lemma balanced_DomainSetSchedulerParameters:
  "conn c = Some cn \<Longrightarrow>
   lib_dom (hyp E) (LibCall ''virGetDomain'' [A_conn cn, A_str (rd_name a), A_bytes (rd_uuid a)]) = Some d \<Longrightarrow>
   balanced cn a d c (remoteDispatchDomainSetSchedulerParameters E c req (a, x1))"
  by (simp add: balanced_def releases_def lookups_def remoteDispatchDomainSetSchedulerParameters_def CHECK_CONN_def prim_defs Let_def error_frame
        split: option.split prod.split)

lemma balanced_DomainAttachDevice:
  "conn c = Some cn \<Longrightarrow>
   lib_dom (hyp E) (LibCall ''virGetDomain'' [A_conn cn, A_str (rd_name a), A_bytes (rd_uuid a)]) = Some d \<Longrightarrow>
   balanced cn a d c (remoteDispatchDomainAttachDevice E c req (a, x1))"
  by (simp add: balanced_def releases_def lookups_def remoteDispatchDomainAttachDevice_def CHECK_CONN_def prim_defs Let_def error_frame
        split: option.split prod.split)

lemma balanced_DomainCreate:
  "conn c = Some cn \<Longrightarrow>
   lib_dom (hyp E) (LibCall ''virGetDomain'' [A_conn cn, A_str (rd_name a), A_bytes (rd_uuid a)]) = Some d \<Longrightarrow>
   balanced cn a d c (remoteDispatchDomainCreate E c req a)"
  by (simp add: balanced_def releases_def lookups_def remoteDispatchDomainCreate_def CHECK_CONN_def prim_defs Let_def error_frame
        split: option.split prod.split)

lemma balanced_DomainDetachDevice:
  "conn c = Some cn \<Longrightarrow>
   lib_dom (hyp E) (LibCall ''virGetDomain'' [A_conn cn, A_str (rd_name a), A_bytes (rd_uuid a)]) = Some d \<Longrightarrow>
   balanced cn a d c (remoteDispatchDomainDetachDevice E c req (a, x1))"
  by (simp add: balanced_def releases_def lookups_def remoteDispatchDomainDetachDevice_def CHECK_CONN_def prim_defs Let_def error_frame
        split: option.split prod.split)

lemma balanced_DomainDumpXml:
  "conn c = Some cn \<Longrightarrow>
   lib_dom (hyp E) (LibCall ''virGetDomain'' [A_conn cn, A_str (rd_name a), A_bytes (rd_uuid a)]) = Some d \<Longrightarrow>
   balanced cn a d c (remoteDispatchDomainDumpXml E c req (a, x1))"
  by (simp add: balanced_def releases_def lookups_def remoteDispatchDomainDumpXml_def CHECK_CONN_def prim_defs Let_def error_frame
        split: option.split prod.split)

lemma balanced_DomainGetAutostart:
  "conn c = Some cn \<Longrightarrow>
   lib_dom (hyp E) (LibCall ''virGetDomain'' [A_conn cn, A_str (rd_name a), A_bytes (rd_uuid a)]) = Some d \<Longrightarrow>
   balanced cn a d c (remoteDispatchDomainGetAutostart E c req a)"
  by (simp add: balanced_def releases_def lookups_def remoteDispatchDomainGetAutostart_def CHECK_CONN_def prim_defs Let_def error_frame
        split: option.split prod.split)

lemma balanced_DomainGetInfo:
  "conn c = Some cn \<Longrightarrow>
   lib_dom (hyp E) (LibCall ''virGetDomain'' [A_conn cn, A_str (rd_name a), A_bytes (rd_uuid a)]) = Some d \<Longrightarrow>
   balanced cn a d c (remoteDispatchDomainGetInfo E c req a)"
  by (simp add: balanced_def releases_def lookups_def remoteDispatchDomainGetInfo_def CHECK_CONN_def prim_defs Let_def error_frame
        split: option.split prod.split)

lemma balanced_DomainGetMaxMemory:
  "conn c = Some cn \<Longrightarrow>
   lib_dom (hyp E) (LibCall ''virGetDomain'' [A_conn cn, A_str (rd_name a), A_bytes (rd_uuid a)]) = Some d \<Longrightarrow>
   balanced cn a d c (remoteDispatchDomainGetMaxMemory E c req a)"
  by (simp add: balanced_def releases_def lookups_def remoteDispatchDomainGetMaxMemory_def CHECK_CONN_def prim_defs Let_def error_frame
        split: option.split prod.split)

lemma balanced_DomainGetMaxVcpus:
  "conn c = Some cn \<Longrightarrow>
   lib_dom (hyp E) (LibCall ''virGetDomain'' [A_conn cn, A_str (rd_name a), A_bytes (rd_uuid a)]) = Some d \<Longrightarrow>
   balanced cn a d c (remoteDispatchDomainGetMaxVcpus E c req a)"
  by (simp add: balanced_def releases_def lookups_def remoteDispatchDomainGetMaxVcpus_def CHECK_CONN_def prim_defs Let_def error_frame
        split: option.split prod.split)

lemma balanced_DomainGetOsType:
  "conn c = Some cn \<Longrightarrow>
   lib_dom (hyp E) (LibCall ''virGetDomain'' [A_conn cn, A_str (rd_name a), A_bytes (rd_uuid a)]) = Some d \<Longrightarrow>
   balanced cn a d c (remoteDispatchDomainGetOsType E c req a)"
  by (simp add: balanced_def releases_def lookups_def remoteDispatchDomainGetOsType_def CHECK_CONN_def prim_defs Let_def error_frame
        split: option.split prod.split)

lemma balanced_DomainGetVcpus:
  "conn c = Some cn \<Longrightarrow>
   lib_dom (hyp E) (LibCall ''virGetDomain'' [A_conn cn, A_str (rd_name a), A_bytes (rd_uuid a)]) = Some d \<Longrightarrow>
   balanced cn a d c (remoteDispatchDomainGetVcpus E c req (a, x1, x2))"
  by (simp add: balanced_def releases_def lookups_def remoteDispatchDomainGetVcpus_def CHECK_CONN_def prim_defs Let_def error_frame
        split: option.split prod.split)

lemma balanced_DomainPinVcpu:
  "conn c = Some cn \<Longrightarrow>
   lib_dom (hyp E) (LibCall ''virGetDomain'' [A_conn cn, A_str (rd_name a), A_bytes (rd_uuid a)]) = Some d \<Longrightarrow>
   balanced cn a d c (remoteDispatchDomainPinVcpu E c req (a, x1, x2))"
  by (simp add: balanced_def releases_def lookups_def remoteDispatchDomainPinVcpu_def CHECK_CONN_def prim_defs Let_def error_frame
        split: option.split prod.split)

lemma balanced_DomainReboot:
  "conn c = Some cn \<Longrightarrow>
   lib_dom (hyp E) (LibCall ''virGetDomain'' [A_conn cn, A_str (rd_name a), A_bytes (rd_uuid a)]) = Some d \<Longrightarrow>
   balanced cn a d c (remoteDispatchDomainReboot E c req (a, x1))"
  by (simp add: balanced_def releases_def lookups_def remoteDispatchDomainReboot_def CHECK_CONN_def prim_defs Let_def error_frame
        split: option.split prod.split)

lemma balanced_DomainResume:
  "conn c = Some cn \<Longrightarrow>
   lib_dom (hyp E) (LibCall ''virGetDomain'' [A_conn cn, A_str (rd_name a), A_bytes (rd_uuid a)]) = Some d \<Longrightarrow>
   balanced cn a d c (remoteDispatchDomainResume E c req a)"
  by (simp add: balanced_def releases_def lookups_def remoteDispatchDomainResume_def CHECK_CONN_def prim_defs Let_def error_frame
        split: option.split prod.split)

lemma balanced_DomainSave:
  "conn c = Some cn \<Longrightarrow>
   lib_dom (hyp E) (LibCall ''virGetDomain'' [A_conn cn, A_str (rd_name a), A_bytes (rd_uuid a)]) = Some d \<Longrightarrow>
   balanced cn a d c (remoteDispatchDomainSave E c req (a, x1))"
  by (simp add: balanced_def releases_def lookups_def remoteDispatchDomainSave_def CHECK_CONN_def prim_defs Let_def error_frame
        split: option.split prod.split)

lemma balanced_DomainCoreDump:
  "conn c = Some cn \<Longrightarrow>
   lib_dom (hyp E) (LibCall ''virGetDomain'' [A_conn cn, A_str (rd_name a), A_bytes (rd_uuid a)]) = Some d \<Longrightarrow>
   balanced cn a d c (remoteDispatchDomainCoreDump E c req (a, x1, x2))"
  by (simp add: balanced_def releases_def lookups_def remoteDispatchDomainCoreDump_def CHECK_CONN_def prim_defs Let_def error_frame
        split: option.split prod.split)

lemma balanced_DomainSetAutostart:
  "conn c = Some cn \<Longrightarrow>
   lib_dom (hyp E) (LibCall ''virGetDomain'' [A_conn cn, A_str (rd_name a), A_bytes (rd_uuid a)]) = Some d \<Longrightarrow>
   balanced cn a d c (remoteDispatchDomainSetAutostart E c req (a, x1))"
  by (simp add: balanced_def releases_def lookups_def remoteDispatchDomainSetAutostart_def CHECK_CONN_def prim_defs Let_def error_frame
        split: option.split prod.split)

lemma balanced_DomainSetMaxMemory:
  "conn c = Some cn \<Longrightarrow>
   lib_dom (hyp E) (LibCall ''virGetDomain'' [A_conn cn, A_str (rd_name a), A_bytes (rd_uuid a)]) = Some d \<Longrightarrow>
   balanced cn a d c (remoteDispatchDomainSetMaxMemory E c req (a, x1))"
  by (simp add: balanced_def releases_def lookups_def remoteDispatchDomainSetMaxMemory_def CHECK_CONN_def prim_defs Let_def error_frame
        split: option.split prod.split)

lemma balanced_DomainSetMemory:
  "conn c = Some cn \<Longrightarrow>
   lib_dom (hyp E) (LibCall ''virGetDomain'' [A_conn cn, A_str (rd_name a), A_bytes (rd_uuid a)]) = Some d \<Longrightarrow>
   balanced cn a d c (remoteDispatchDomainSetMemory E c req (a, x1))"
  by (simp add: balanced_def releases_def lookups_def remoteDispatchDomainSetMemory_def CHECK_CONN_def prim_defs Let_def error_frame
        split: option.split prod.split)

lemma balanced_DomainSetVcpus:
  "conn c = Some cn \<Longrightarrow>
   lib_dom (hyp E) (LibCall ''virGetDomain'' [A_conn cn, A_str (rd_name a), A_bytes (rd_uuid a)]) = Some d \<Longrightarrow>
   balanced cn a d c (remoteDispatchDomainSetVcpus E c req (a, x1))"
  by (simp add: balanced_def releases_def lookups_def remoteDispatchDomainSetVcpus_def CHECK_CONN_def prim_defs Let_def error_frame
        split: option.split prod.split)

lemma balanced_DomainShutdown:
  "conn c = Some cn \<Longrightarrow>
   lib_dom (hyp E) (LibCall ''virGetDomain'' [A_conn cn, A_str (rd_name a), A_bytes (rd_uuid a)]) = Some d \<Longrightarrow>
   balanced cn a d c (remoteDispatchDomainShutdown E c req a)"
  by (simp add: balanced_def releases_def lookups_def remoteDispatchDomainShutdown_def CHECK_CONN_def prim_defs Let_def error_frame
        split: option.split prod.split)

lemma balanced_DomainSuspend:
  "conn c = Some cn \<Longrightarrow>
   lib_dom (hyp E) (LibCall ''virGetDomain'' [A_conn cn, A_str (rd_name a), A_bytes (rd_uuid a)]) = Some d \<Longrightarrow>
   balanced cn a d c (remoteDispatchDomainSuspend E c req a)"
  by (simp add: balanced_def releases_def lookups_def remoteDispatchDomainSuspend_def CHECK_CONN_def prim_defs Let_def error_frame
        split: option.split prod.split)

lemma balanced_DomainUndefine:
  "conn c = Some cn \<Longrightarrow>
   lib_dom (hyp E) (LibCall ''virGetDomain'' [A_conn cn, A_str (rd_name a), A_bytes (rd_uuid a)]) = Some d \<Longrightarrow>
   balanced cn a d c (remoteDispatchDomainUndefine E c req a)"
  by (simp add: balanced_def releases_def lookups_def remoteDispatchDomainUndefine_def CHECK_CONN_def prim_defs Let_def error_frame
        split: option.split prod.split)

lemma balanced_NetworkCreate:
  "conn c = Some cn \<Longrightarrow>
   lib_net (hyp E) (LibCall ''virGetNetwork'' [A_conn cn, A_str (rn_name a), A_bytes (rn_uuid a)]) = Some n \<Longrightarrow>
   net_balanced cn a n c (remoteDispatchNetworkCreate E c req a)"
  by (simp add: net_balanced_def net_releases_def net_lookups_def remoteDispatchNetworkCreate_def CHECK_CONN_def prim_defs Let_def error_frame
        split: option.split prod.split)

lemma balanced_NetworkDestroy:
  "conn c = Some cn \<Longrightarrow>
   lib_net (hyp E) (LibCall ''virGetNetwork'' [A_conn cn, A_str (rn_name a), A_bytes (rn_uuid a)]) = Some n \<Longrightarrow>
   net_balanced cn a n c (remoteDispatchNetworkDestroy E c req a)"
  by (simp add: net_balanced_def net_releases_def net_lookups_def remoteDispatchNetworkDestroy_def CHECK_CONN_def prim_defs Let_def error_frame
        split: option.split prod.split)

lemma balanced_NetworkDumpXml:
  "conn c = Some cn \<Longrightarrow>
   lib_net (hyp E) (LibCall ''virGetNetwork'' [A_conn cn, A_str (rn_name a), A_bytes (rn_uuid a)]) = Some n \<Longrightarrow>
   net_balanced cn a n c (remoteDispatchNetworkDumpXml E c req (a, x1))"
  by (simp add: net_balanced_def net_releases_def net_lookups_def remoteDispatchNetworkDumpXml_def CHECK_CONN_def prim_defs Let_def error_frame
        split: option.split prod.split)

lemma balanced_NetworkGetAutostart:
  "conn c = Some cn \<Longrightarrow>
   lib_net (hyp E) (LibCall ''virGetNetwork'' [A_conn cn, A_str (rn_name a), A_bytes (rn_uuid a)]) = Some n \<Longrightarrow>
   net_balanced cn a n c (remoteDispatchNetworkGetAutostart E c req a)"
  by (simp add: net_balanced_def net_releases_def net_lookups_def remoteDispatchNetworkGetAutostart_def CHECK_CONN_def prim_defs Let_def error_frame
        split: option.split prod.split)

lemma balanced_NetworkGetBridgeName:
  "conn c = Some cn \<Longrightarrow>
   lib_net (hyp E) (LibCall ''virGetNetwork'' [A_conn cn, A_str (rn_name a), A_bytes (rn_uuid a)]) = Some n \<Longrightarrow>
   net_balanced cn a n c (remoteDispatchNetworkGetBridgeName E c req a)"
  by (simp add: net_balanced_def net_releases_def net_lookups_def remoteDispatchNetworkGetBridgeName_def CHECK_CONN_def prim_defs Let_def error_frame
        split: option.split prod.split)

lemma balanced_NetworkSetAutostart:
  "conn c = Some cn \<Longrightarrow>
   lib_net (hyp E) (LibCall ''virGetNetwork'' [A_conn cn, A_str (rn_name a), A_bytes (rn_uuid a)]) = Some n \<Longrightarrow>
   net_balanced cn a n c (remoteDispatchNetworkSetAutostart E c req (a, x1))"
  by (simp add: net_balanced_def net_releases_def net_lookups_def remoteDispatchNetworkSetAutostart_def CHECK_CONN_def prim_defs Let_def error_frame
        split: option.split prod.split)

lemma balanced_NetworkUndefine:
  "conn c = Some cn \<Longrightarrow>
   lib_net (hyp E) (LibCall ''virGetNetwork'' [A_conn cn, A_str (rn_name a), A_bytes (rn_uuid a)]) = Some n \<Longrightarrow>
   net_balanced cn a n c (remoteDispatchNetworkUndefine E c req a)"
  by (simp add: net_balanced_def net_releases_def net_lookups_def remoteDispatchNetworkUndefine_def CHECK_CONN_def prim_defs Let_def error_frame
        split: option.split prod.split)

lemma serialise_params_events:
  "serialise_params E c ps = (r, c') \<Longrightarrow>
     releases d (history c') = releases d (history c) \<and> lookups cn a (history c') = lookups cn a (history c)"
proof (induction ps arbitrary: c r c')
  case Nil
  then show ?case by simp
next
  case (Cons p ps)
  then show ?case
    by (fastforce simp add: prim_defs Let_def releases_def lookups_def
          split: if_splits option.splits prod.splits sum.splits)
qed

lemma balanced_DomainGetSchedulerParameters:
  "conn c = Some cn \<Longrightarrow>
   lib_dom (hyp E) (LibCall ''virGetDomain'' [A_conn cn, A_str (rd_name a), A_bytes (rd_uuid a)]) = Some d \<Longrightarrow>
   balanced cn a d c (remoteDispatchDomainGetSchedulerParameters E c req (a, x1))"
  by (auto simp add: balanced_def remoteDispatchDomainGetSchedulerParameters_def CHECK_CONN_def
        prim_defs Let_def error_frame
        split: prod.split sum.split dest!: serialise_params_events [where d = "d\<lparr>vd_id := rd_id a\<rparr>" and cn = cn and a = a])
     (simp_all add: releases_def lookups_def)

text \<open>
  C3. Four handlers look the domain up and never release it. Whatever the library and the
  request, the handlers of \<^verbatim>\<open>DOMAIN_MIGRATE_PERFORM\<close>, \<^verbatim>\<open>DOMAIN_BLOCK_STATS\<close>,
  \<^verbatim>\<open>DOMAIN_INTERFACE_STATS\<close> and \<^verbatim>\<open>DOMAIN_DESTROY\<close> add no \<^verbatim>\<open>virDomainFree\<close> to the history.
  On an open connection, with a library in which everything succeeds,
  \<^verbatim>\<open>DOMAIN_MIGRATE_PERFORM\<close> and \<^verbatim>\<open>DOMAIN_BLOCK_STATS\<close> return 0 after the lookup and the
  operation, the handle unreleased; with a library in which \<^verbatim>\<open>virDomainDestroy\<close> fails,
  \<^verbatim>\<open>DOMAIN_DESTROY\<close> returns -1 the same way, though the failed operation has not consumed
  the handle.
\<close>

theorem handle_not_released:
  "releases d (history (snd (snd (remoteDispatchDomainMigratePerform E client req a1)))) =
     releases d (history client) \<and>
   releases d (history (snd (snd (remoteDispatchDomainBlockStats E client req a2)))) =
     releases d (history client) \<and>
   releases d (history (snd (snd (remoteDispatchDomainInterfaceStats E client req a3)))) =
     releases d (history client) \<and>
   releases d (history (snd (snd (remoteDispatchDomainDestroy E client req a4)))) =
     releases d (history client) \<and>
   remoteDispatchDomainMigratePerform example_env ((example_client None None)\<lparr>conn := Some 1\<rparr>)
       (example_call REMOTE_PROC_DOMAIN_MIGRATE_PERFORM)
       (example_remote_domain, [], ''qemu+tcp://target/system'', 0, None, 0) =
     (0, [], (example_client None None)
        \<lparr>conn := Some 1,
         history := [HYP (LibCall ''virGetDomain'' [A_conn 1, A_str ''guest'', A_bytes ''0123456789abcdef'']),
                     HYP (LibCall ''__virDomainMigratePerform''
                            [A_dom example_domain, A_bytes [], A_int 0, A_str ''qemu+tcp://target/system'',
                             A_int 0, A_opt_str None, A_int 0])]\<rparr>) \<and>
   remoteDispatchDomainBlockStats example_env ((example_client None None)\<lparr>conn := Some 1\<rparr>)
       (example_call REMOTE_PROC_DOMAIN_BLOCK_STATS) (example_remote_domain, ''hda'') =
     (0, [X_int 0, X_int 0, X_int 0, X_int 0, X_int 0], (example_client None None)
        \<lparr>conn := Some 1,
         history := [HYP (LibCall ''virGetDomain'' [A_conn 1, A_str ''guest'', A_bytes ''0123456789abcdef'']),
                     HYP (LibCall ''virDomainBlockStats'' [A_dom example_domain, A_str ''hda''])]\<rparr>) \<and>
   remoteDispatchDomainDestroy (example_env\<lparr>hyp := failing_hyp\<rparr>) ((example_client None None)\<lparr>conn := Some 1\<rparr>)
       (example_call REMOTE_PROC_DOMAIN_DESTROY) example_remote_domain =
     (- 1, [], (example_client None None)
        \<lparr>conn := Some 1,
         history := [HYP (LibCall ''virGetDomain'' [A_conn 1, A_str ''guest'', A_bytes ''0123456789abcdef'']),
                     HYP (LibCall ''virDomainDestroy'' [A_dom example_domain])]\<rparr>)"
proof -
  have migrate: "releases d (history (snd (snd (remoteDispatchDomainMigratePerform E client req a1)))) =
                   releases d (history client)"
    by (simp add: releases_def remoteDispatchDomainMigratePerform_def CHECK_CONN_def prim_defs Let_def
          error_frame split: option.split prod.split)
  have block: "releases d (history (snd (snd (remoteDispatchDomainBlockStats E client req a2)))) =
                 releases d (history client)"
    by (simp add: releases_def remoteDispatchDomainBlockStats_def CHECK_CONN_def prim_defs Let_def
          error_frame split: option.split prod.split)
  have interface: "releases d (history (snd (snd (remoteDispatchDomainInterfaceStats E client req a3)))) =
                     releases d (history client)"
    by (simp add: releases_def remoteDispatchDomainInterfaceStats_def CHECK_CONN_def prim_defs Let_def
          error_frame split: option.split prod.split)
  have destroy: "releases d (history (snd (snd (remoteDispatchDomainDestroy E client req a4)))) =
                   releases d (history client)"
    by (simp add: releases_def remoteDispatchDomainDestroy_def CHECK_CONN_def prim_defs Let_def
          error_frame split: option.split prod.split)
  have migrated: "remoteDispatchDomainMigratePerform example_env ((example_client None None)\<lparr>conn := Some 1\<rparr>)
       (example_call REMOTE_PROC_DOMAIN_MIGRATE_PERFORM)
       (example_remote_domain, [], ''qemu+tcp://target/system'', 0, None, 0) =
     (0, [], (example_client None None)
        \<lparr>conn := Some 1,
         history := [HYP (LibCall ''virGetDomain'' [A_conn 1, A_str ''guest'', A_bytes ''0123456789abcdef'']),
                     HYP (LibCall ''__virDomainMigratePerform''
                            [A_dom example_domain, A_bytes [], A_int 0, A_str ''qemu+tcp://target/system'',
                             A_int 0, A_opt_str None, A_int 0])]\<rparr>)"
    by (simp add: remoteDispatchDomainMigratePerform_def CHECK_CONN_def prim_defs Let_def
          example_defs example_remote_domain_def)
  have counted: "remoteDispatchDomainBlockStats example_env ((example_client None None)\<lparr>conn := Some 1\<rparr>)
       (example_call REMOTE_PROC_DOMAIN_BLOCK_STATS) (example_remote_domain, ''hda'') =
     (0, [X_int 0, X_int 0, X_int 0, X_int 0, X_int 0], (example_client None None)
        \<lparr>conn := Some 1,
         history := [HYP (LibCall ''virGetDomain'' [A_conn 1, A_str ''guest'', A_bytes ''0123456789abcdef'']),
                     HYP (LibCall ''virDomainBlockStats'' [A_dom example_domain, A_str ''hda''])]\<rparr>)"
    by (simp add: remoteDispatchDomainBlockStats_def CHECK_CONN_def prim_defs Let_def
          example_defs example_remote_domain_def)
  have failed: "remoteDispatchDomainDestroy (example_env\<lparr>hyp := failing_hyp\<rparr>)
       ((example_client None None)\<lparr>conn := Some 1\<rparr>)
       (example_call REMOTE_PROC_DOMAIN_DESTROY) example_remote_domain =
     (- 1, [], (example_client None None)
        \<lparr>conn := Some 1,
         history := [HYP (LibCall ''virGetDomain'' [A_conn 1, A_str ''guest'', A_bytes ''0123456789abcdef'']),
                     HYP (LibCall ''virDomainDestroy'' [A_dom example_domain])]\<rparr>)"
    by (simp add: remoteDispatchDomainDestroy_def CHECK_CONN_def prim_defs Let_def
          example_defs example_remote_domain_def failing_hyp_def)
  from migrate block interface destroy migrated counted failed show ?thesis
    by (simp only: simp_thms)
qed

text \<open>
  On those runs the handle was looked up once and released not at all: the three handlers
  are not balanced.
\<close>

lemma unbalanced_examples:
  "\<not> balanced 1 example_remote_domain example_domain ((example_client None None)\<lparr>conn := Some 1\<rparr>)
       (remoteDispatchDomainMigratePerform example_env ((example_client None None)\<lparr>conn := Some 1\<rparr>)
          (example_call REMOTE_PROC_DOMAIN_MIGRATE_PERFORM)
          (example_remote_domain, [], ''qemu+tcp://target/system'', 0, None, 0))"
  "\<not> balanced 1 example_remote_domain example_domain ((example_client None None)\<lparr>conn := Some 1\<rparr>)
       (remoteDispatchDomainBlockStats example_env ((example_client None None)\<lparr>conn := Some 1\<rparr>)
          (example_call REMOTE_PROC_DOMAIN_BLOCK_STATS) (example_remote_domain, ''hda''))"
  "\<not> balanced 1 example_remote_domain example_domain ((example_client None None)\<lparr>conn := Some 1\<rparr>)
       (remoteDispatchDomainDestroy (example_env\<lparr>hyp := failing_hyp\<rparr>)
          ((example_client None None)\<lparr>conn := Some 1\<rparr>)
          (example_call REMOTE_PROC_DOMAIN_DESTROY) example_remote_domain)"
  by (simp_all add: balanced_def releases_def lookups_def
        remoteDispatchDomainMigratePerform_def remoteDispatchDomainBlockStats_def
        remoteDispatchDomainDestroy_def CHECK_CONN_def prim_defs Let_def
        example_defs example_remote_domain_def failing_hyp_def)

section \<open>The bounds of the request fields\<close>

lemma allocations_simps [simp]:
  "allocations [] = []"
  "allocations (evs @ evs') = allocations evs @ allocations evs'"
  "allocations (ALLOC a # evs) = a # allocations evs"
  "allocations (HYP call # evs) = allocations evs"
  "allocations (SASL s # evs) = allocations evs"
  "allocations (XDR_ARGS p # evs) = allocations evs"
  "allocations (FN p rv # evs) = allocations evs"
  by (simp_all add: allocations_def)

lemma mul_int32_exact:
  "- (2 ^ 31) \<le> a * b \<Longrightarrow> a * b < 2 ^ 31 \<Longrightarrow> mul_int32 a b = a * b"
  by (simp add: mul_int32_def to_int32_def)

text \<open>
  The bounds the handlers enforce: a field above its maximum ends the handler with -2
  after a dispatch error, and nothing has been allocated.
\<close>

lemma bound_maxids:
  "REMOTE_DOMAIN_ID_LIST_MAX (protocol E) < maxids \<Longrightarrow>
     \<exists>msg. remoteDispatchListDomains E c req maxids = (- 2, [], remoteDispatchError E c (Some req) msg)"
  by (auto simp add: remoteDispatchListDomains_def CHECK_CONN_def split: option.split)

lemma bound_maxnames_defined_domains:
  "REMOTE_DOMAIN_NAME_LIST_MAX (protocol E) < maxnames \<Longrightarrow>
     \<exists>msg. remoteDispatchListDefinedDomains E c req maxnames = (- 2, [], remoteDispatchError E c (Some req) msg)"
  by (auto simp add: remoteDispatchListDefinedDomains_def CHECK_CONN_def split: option.split)

lemma bound_maxnames_networks:
  "REMOTE_NETWORK_NAME_LIST_MAX (protocol E) < maxnames \<Longrightarrow>
     \<exists>msg. remoteDispatchListNetworks E c req maxnames = (- 2, [], remoteDispatchError E c (Some req) msg)"
  by (auto simp add: remoteDispatchListNetworks_def CHECK_CONN_def split: option.split)

lemma bound_maxnames_defined_networks:
  "REMOTE_NETWORK_NAME_LIST_MAX (protocol E) < maxnames \<Longrightarrow>
     \<exists>msg. remoteDispatchListDefinedNetworks E c req maxnames = (- 2, [], remoteDispatchError E c (Some req) msg)"
  by (auto simp add: remoteDispatchListDefinedNetworks_def CHECK_CONN_def split: option.split)

lemma bound_nparams_get:
  "REMOTE_DOMAIN_SCHEDULER_PARAMETERS_MAX (protocol E) < nparams \<Longrightarrow>
     \<exists>msg. remoteDispatchDomainGetSchedulerParameters E c req (a, nparams) =
             (- 2, [], remoteDispatchError E c (Some req) msg)"
  by (auto simp add: remoteDispatchDomainGetSchedulerParameters_def CHECK_CONN_def split: option.split)

lemma bound_nparams_set:
  "REMOTE_DOMAIN_SCHEDULER_PARAMETERS_MAX (protocol E) < to_int32 (int (length ps)) \<Longrightarrow>
     \<exists>msg. remoteDispatchDomainSetSchedulerParameters E c req (a, ps) =
             (- 2, [], remoteDispatchError E c (Some req) msg)"
  by (auto simp add: remoteDispatchDomainSetSchedulerParameters_def CHECK_CONN_def split: option.split)

lemma bound_maxinfo:
  "REMOTE_VCPUINFO_MAX (protocol E) < maxinfo \<Longrightarrow>
     \<exists>c1 msg. remoteDispatchDomainGetVcpus E c req (a, maxinfo, maplen) =
                 (- 2, [], remoteDispatchError E c1 (Some req) msg) \<and>
               allocations (history c1) = allocations (history c)"
  by (fastforce simp add: remoteDispatchDomainGetVcpus_def CHECK_CONN_def prim_defs Let_def
        split: option.split)

lemma bound_cpumaps:
  "REMOTE_CPUMAPS_MAX (protocol E) < mul_int32 maxinfo maplen \<Longrightarrow>
     \<exists>c1 msg. remoteDispatchDomainGetVcpus E c req (a, maxinfo, maplen) =
                 (- 2, [], remoteDispatchError E c1 (Some req) msg) \<and>
               allocations (history c1) = allocations (history c)"
  by (fastforce simp add: remoteDispatchDomainGetVcpus_def CHECK_CONN_def prim_defs Let_def
        split: option.split)

lemma bound_cpumap_len:
  "REMOTE_CPUMAP_MAX (protocol E) < int (length cpumap) \<Longrightarrow>
     \<exists>c1 msg. remoteDispatchDomainPinVcpu E c req (a, vcpu, cpumap) =
                 (- 2, [], remoteDispatchError E c1 (Some req) msg) \<and>
               allocations (history c1) = allocations (history c)"
  by (fastforce simp add: remoteDispatchDomainPinVcpu_def CHECK_CONN_def prim_defs Let_def
        split: option.split)

lemma bound_sasl_serverout:
  "REMOTE_AUTH_SASL_DATA_MAX (protocol E) < int (sasl_serveroutlen (sasl E) step) \<Longrightarrow>
     \<exists>c1. sasl_answer E c req step err = (- 2, [], remoteDispatchFailAuth E c1 (Some req)) \<and>
          allocations (history c1) = allocations (history c)"
  by (auto simp add: sasl_answer_def Let_def error_frame)

text \<open>
  The product \<^verbatim>\<open>maxinfo * maplen\<close> is enforced as long as it is the product: within the
  range of an \<^verbatim>\<open>int\<close>, a product above the maximum ends the handler the same way.
\<close>

lemma bound_cpumaps_in_range:
  assumes "REMOTE_CPUMAPS_MAX (protocol E) < maxinfo * maplen"
    and "- (2 ^ 31) \<le> maxinfo * maplen" and "maxinfo * maplen < 2 ^ 31"
  shows "\<exists>c1 msg. remoteDispatchDomainGetVcpus E c req (a, maxinfo, maplen) =
                    (- 2, [], remoteDispatchError E c1 (Some req) msg) \<and>
                  allocations (history c1) = allocations (history c)"
  using bound_cpumaps [of E maxinfo maplen c req a] mul_int32_exact [OF assms(2,3)] assms(1)
  by simp

text \<open>
  The length of the SASL data of a request is bounded where the arguments are decoded: a
  longer \<^verbatim>\<open>data\<close> fails the argument filter, and the call is answered with the dispatch
  error \<^verbatim>\<open>parse args failed\<close> before any handler runs.
\<close>

lemma bound_sasl_data:
  assumes "REMOTE_AUTH_SASL_DATA_MAX (protocol E) < int (length data)"
  shows "proc req = REMOTE_PROC_AUTH_SASL_START \<Longrightarrow>
           call_procedure E c req (Some [X_string mech, X_int a_nil, X_opaque data]) =
             remoteDispatchError E (observe c (XDR_ARGS REMOTE_PROC_AUTH_SASL_START)) (Some req)
               ''parse args failed''"
    and "proc req = REMOTE_PROC_AUTH_SASL_STEP \<Longrightarrow>
           call_procedure E c req (Some [X_int a_nil, X_opaque data]) =
             remoteDispatchError E (observe c (XDR_ARGS REMOTE_PROC_AUTH_SASL_STEP)) (Some req)
               ''parse args failed''"
  using assms
  by (simp_all add: call_procedure_def proc_switch_def xdr_remote_auth_sasl_start_args_def
        xdr_remote_auth_sasl_step_args_def)


text \<open>
  C4. The bound on \<^verbatim>\<open>maxinfo * maplen\<close> is tested on the product as the machine computes
  it. With \<^verbatim>\<open>maxinfo = 4\<close> (within \<^verbatim>\<open>REMOTE_VCPUINFO_MAX\<close>) and \<^verbatim>\<open>maplen = 1073741824\<close> the
  product is \<open>2 ^ 32\<close>, far above \<^verbatim>\<open>REMOTE_CPUMAPS_MAX\<close>, and it wraps to 0: the test passes,
  the buffers are allocated (that of the maps with 0 bytes), the library is called with
  the unbounded \<^verbatim>\<open>maplen\<close>, and the handler returns 0; the dispatcher answers with the
  status \<^verbatim>\<open>REMOTE_OK\<close>.
\<close>

theorem cpumaps_bound_wraps:
  "REMOTE_CPUMAPS_MAX (protocol example_env) < 4 * 1073741824 \<and>
   mul_int32 4 1073741824 = 0 \<and>
   remoteDispatchDomainGetVcpus example_env ((example_client None None)\<lparr>conn := Some 1\<rparr>)
       (example_call REMOTE_PROC_DOMAIN_GET_VCPUS) (example_remote_domain, 4, 1073741824) =
     (0, [X_int 0, X_vcpu_info [], X_int 0, X_opaque []],
      (example_client None None)
        \<lparr>conn := Some 1,
         history := [HYP (LibCall ''virGetDomain'' [A_conn 1, A_str ''guest'', A_bytes ''0123456789abcdef'']),
                     ALLOC (Malloc ''virVcpuInfo'' 4),
                     ALLOC (Malloc ''unsigned char'' 0),
                     HYP (LibCall ''virDomainGetVcpus'' [A_dom example_domain, A_int 4, A_int 1073741824]),
                     ALLOC (Malloc ''remote_vcpu_info'' 0),
                     HYP (LibCall ''virDomainFree'' [A_dom example_domain])]\<rparr>) \<and>
   buffer (remoteDispatchClientRequest example_env
      ((example_client (Some (example_call REMOTE_PROC_DOMAIN_GET_VCPUS))
          (Some [X_domain example_remote_domain, X_int 4, X_int 1073741824]))\<lparr>conn := Some 1\<rparr>)) =
     BUF_REPLY 28
       \<lparr>prog = 536903814, vers = 1, proc = REMOTE_PROC_DOMAIN_GET_VCPUS, direction = REMOTE_REPLY,
        serial = 42, status = REMOTE_OK\<rparr>
       (REPLY_RET [X_int 0, X_vcpu_info [], X_int 0, X_opaque []])"
proof -
  have above: "REMOTE_CPUMAPS_MAX (protocol example_env) < 4 * 1073741824"
    by (simp add: example_env_def example_protocol_def)
  have wraps: "mul_int32 4 1073741824 = 0"
    by (simp add: mul_int32_def to_int32_def)
  have handler: "remoteDispatchDomainGetVcpus example_env ((example_client None None)\<lparr>conn := Some 1\<rparr>)
       (example_call REMOTE_PROC_DOMAIN_GET_VCPUS) (example_remote_domain, 4, 1073741824) =
     (0, [X_int 0, X_vcpu_info [], X_int 0, X_opaque []],
      (example_client None None)
        \<lparr>conn := Some 1,
         history := [HYP (LibCall ''virGetDomain'' [A_conn 1, A_str ''guest'', A_bytes ''0123456789abcdef'']),
                     ALLOC (Malloc ''virVcpuInfo'' 4),
                     ALLOC (Malloc ''unsigned char'' 0),
                     HYP (LibCall ''virDomainGetVcpus'' [A_dom example_domain, A_int 4, A_int 1073741824]),
                     ALLOC (Malloc ''remote_vcpu_info'' 0),
                     HYP (LibCall ''virDomainFree'' [A_dom example_domain])]\<rparr>)"
    by (simp add: remoteDispatchDomainGetVcpus_def CHECK_CONN_def prim_defs Let_def wraps
          example_defs example_remote_domain_def)
  have reply: "buffer (remoteDispatchClientRequest example_env
      ((example_client (Some (example_call REMOTE_PROC_DOMAIN_GET_VCPUS))
          (Some [X_domain example_remote_domain, X_int 4, X_int 1073741824]))\<lparr>conn := Some 1\<rparr>)) =
     BUF_REPLY 28
       \<lparr>prog = 536903814, vers = 1, proc = REMOTE_PROC_DOMAIN_GET_VCPUS, direction = REMOTE_REPLY,
        serial = 42, status = REMOTE_OK\<rparr>
       (REPLY_RET [X_int 0, X_vcpu_info [], X_int 0, X_opaque []])"
    by (simp add: remoteDispatchClientRequest_def call_procedure_def decode_header_def decode_payload_def
          proc_switch_def xdr_remote_domain_get_vcpus_args_def
          remoteDispatchDomainGetVcpus_def CHECK_CONN_def prim_defs Let_def wraps
          dispatch_return_def reply_header_def write_length_def tx_packet_def library_error_def
          example_defs example_remote_domain_def)
  from above wraps handler reply show ?thesis
    by (simp only: simp_thms)
qed

end
